(* ===== verification/Prelude.thy ===== *)
theory Prelude
  imports Complex_Main "HOL-Library.Multiset"
begin

text \<open>
  Shared vocabulary of the development: the named collections the component
  theories feed, the type synonyms that name Python values of
  \<^verbatim>\<open>src/app.py\<close>, and generic lemmas on lists and multisets used by more
  than one component.
\<close>

section \<open>Collections\<close>

named_theorems pystr_simps "evaluation rules for the Python string model"
named_theorems pipeline_simps "unfolding rules of the pipeline stages of app.py"

section \<open>Python values\<close>

text \<open>
  A Python \<^verbatim>\<open>str\<close> is a sequence of code points. The model writes it as
  \<^typ>\<open>string\<close>, a list of 8-bit characters, read as the code points
  U+0000 to U+00FF (Latin-1). Every character class the code relies on
  (the whitespace of \<^verbatim>\<open>str.strip\<close>, the line boundaries of
  \<^verbatim>\<open>str.splitlines\<close>, the CSV delimiters) is given over that range.
\<close>

type_synonym pystr = string

text \<open>A Python exception message, the text \<^verbatim>\<open>f"{e}"\<close> renders.\<close>

type_synonym exc_msg = string

section \<open>Lists\<close>

text \<open>
  The distinct elements of a list in order of first occurrence, with the list
  of elements already seen as an explicit accumulator: the order in which a
  hash table such as pandas' \<^verbatim>\<open>value_counts\<close> meets its keys.
\<close>

fun uniques_from :: "'a list \<Rightarrow> 'a list \<Rightarrow> 'a list" where
  "uniques_from seen [] = []"
| "uniques_from seen (x # xs) =
     (if x \<in> set seen then uniques_from seen xs else x # uniques_from (x # seen) xs)"

abbreviation uniques :: "'a list \<Rightarrow> 'a list" where
  "uniques xs \<equiv> uniques_from [] xs"

text \<open>The multiset a list of (value, count) pairs describes.\<close>

definition counts_mset :: "('a \<times> nat) list \<Rightarrow> 'a multiset" where
  "counts_mset ps = (\<Sum>(v, c)\<leftarrow>ps. replicate_mset c v)"

lemma set_uniques_from [simp]: "set (uniques_from seen xs) = set xs - set seen"
  by (induction seen xs rule: uniques_from.induct) auto

lemma distinct_uniques_from [simp]: "distinct (uniques_from seen xs)"
  by (induction seen xs rule: uniques_from.induct) auto

lemma count_list_sum_uniques: "(\<Sum>v\<leftarrow>uniques xs. count_list xs v) = length xs"
proof -
  have "(\<Sum>v\<leftarrow>uniques xs. count_list xs v) = sum (count_list xs) (set (uniques xs))"
    by (simp add: sum_list_distinct_conv_sum_set)
  also have "\<dots> = length xs"
    by (simp add: sum_count_set)
  finally show ?thesis .
qed

lemma map_zip_snd [simp]:
  "length xs = length ys \<Longrightarrow> map (\<lambda>p. f (snd p)) (zip xs ys) = map f ys"
  by (induction xs ys rule: list_induct2) auto

lemma count_list_pos_iff [simp]: "0 < count_list xs x \<longleftrightarrow> x \<in> set xs"
  by (simp add: count_list_0_iff gr0_conv_Suc [symmetric] flip: neq0_conv)

section \<open>Multisets\<close>

lemma sum_list_map_perm:
  fixes f :: "'a \<Rightarrow> 'b::comm_monoid_add"
  shows "mset xs = mset ys \<Longrightarrow> sum_list (map f xs) = sum_list (map f ys)"
  by (metis mset_map sum_mset_sum_list)


lemma counts_mset_Nil [simp]: "counts_mset [] = {#}"
  and counts_mset_Cons [simp]: "counts_mset ((v, c) # ps) = replicate_mset c v + counts_mset ps"
  by (simp_all add: counts_mset_def)

lemma counts_mset_perm: "mset ps = mset qs \<Longrightarrow> counts_mset ps = counts_mset qs"
  by (simp add: counts_mset_def sum_mset_sum_list [symmetric] mset_map)

lemma counts_mset_uniques:
  "counts_mset (map (\<lambda>v. (v, count_list ys v)) (uniques_from seen xs))
     = filter_mset (\<lambda>v. v \<in> set xs - set seen) (mset ys)"
proof (induction seen xs rule: uniques_from.induct)
  case (1 seen)
  then show ?case by (simp add: filter_mset_False)
next
  case (2 seen x xs)
  show ?case
  proof (cases "x \<in> set seen")
    case True
    with "2.IH"(1) show ?thesis
      by (simp add: insert_absorb)
  next
    case False
    have split: "filter_mset (\<lambda>v. v \<in> set (x # xs) - set seen) (mset ys)
        = filter_mset (\<lambda>v. v = x) (mset ys) + filter_mset (\<lambda>v. v \<in> set xs - set (x # seen)) (mset ys)"
      using False by (auto simp: multiset_eq_iff)
    have rep: "replicate_mset (count_list ys x) x = filter_mset (\<lambda>v. v = x) (mset ys)"
      by (simp add: multiset_eq_iff count_mset)
    from False have "counts_mset (map (\<lambda>v. (v, count_list ys v)) (uniques_from (x # seen) xs))
        = filter_mset (\<lambda>v. v \<in> set xs - set (x # seen)) (mset ys)"
      by (rule "2.IH"(2))
    with False show ?thesis
      by (simp only: split rep list.map uniques_from.simps if_False counts_mset_Cons)
  qed
qed

text \<open>The columns of rows of one and of two entries.\<close>

lemma transpose_singletons:
  "transpose (map (\<lambda>x. [x]) xs) = (if xs = [] then [] else [xs])"
proof (cases xs)
  case (Cons y ys)
  have "concat (map (\<lambda>r. case r of [] \<Rightarrow> [] | h # t \<Rightarrow> [h]) (map (\<lambda>x. [x]) ys)) = ys"
    by (induction ys) auto
  moreover have "concat (map (\<lambda>r. case r of [] \<Rightarrow> [] | h # t \<Rightarrow> [t]) (map (\<lambda>x. [x]) ys)) = map (\<lambda>x. []) ys"
    by (induction ys) auto
  moreover have "transpose ([] # map (\<lambda>x. []) ys) = []"
    by (induction ys) auto
  ultimately show ?thesis using Cons by simp
qed simp

lemma transpose_pairs:
  "transpose (map (\<lambda>x. [f x, g x]) xs) = (if xs = [] then [] else [map f xs, map g xs])"
proof (cases xs)
  case (Cons y ys)
  have "concat (map (\<lambda>r. case r of [] \<Rightarrow> [] | h # t \<Rightarrow> [h]) (map (\<lambda>x. [f x, g x]) ys)) = map f ys"
    by (induction ys) auto
  moreover have "concat (map (\<lambda>r. case r of [] \<Rightarrow> [] | h # t \<Rightarrow> [t]) (map (\<lambda>x. [f x, g x]) ys)) = map (\<lambda>x. [g x]) ys"
    by (induction ys) auto
  moreover have "transpose ([g y] # map (\<lambda>x. [g x]) ys) = [map g (y # ys)]"
    by (induction ys) auto
  ultimately show ?thesis using Cons by simp
qed simp

lemma length_le_transpose: "r \<in> set rows \<Longrightarrow> length r \<le> length (transpose rows)"
  by (induction rows) (auto simp: length_transpose)

end
