(* ===== verification/PyStr.thy ===== *)
theory PyStr
  imports Prelude
begin

text \<open>
  The Python \<^verbatim>\<open>str\<close> methods that \<^verbatim>\<open>src/app.py\<close> calls:
  \<^verbatim>\<open>strip()\<close> (lines 27, 29, 59), \<^verbatim>\<open>splitlines()\<close> (lines 27, 29),
  \<^verbatim>\<open>"\n".join\<close> (line 47) and \<^verbatim>\<open>endswith\<close> (line 22). Each follows
  CPython's definition over the code points U+0000 to U+00FF: the whitespace
  of \<^verbatim>\<open>str.isspace\<close> and the line boundaries of \<^verbatim>\<open>str.splitlines\<close> are the
  members of those classes in that range. The lemmas give what the loader and
  the prompt builder rely on: a stripped string has no whitespace at its ends,
  a line of \<^verbatim>\<open>splitlines\<close> holds no line boundary, and splitting a
  newline-joined list gives the list back.
\<close>

section \<open>Definitions\<close>

text \<open>
  \<^verbatim>\<open>str.isspace\<close> below U+0100: TAB, LF, VT, FF, CR (U+0009 to U+000D), the
  information separators U+001C to U+001F, SPACE, NEL (U+0085) and NO-BREAK
  SPACE (U+00A0).
\<close>

definition is_py_space :: "char \<Rightarrow> bool" where
  "is_py_space c =
     (let n = of_char c :: nat in
      (9 \<le> n \<and> n \<le> 13) \<or> (28 \<le> n \<and> n \<le> 32) \<or> n = 133 \<or> n = 160)"

text \<open>
  The line boundaries of \<^verbatim>\<open>str.splitlines\<close> below U+0100: LF, VT, FF, CR
  (U+000A to U+000D), the file, group and record separators U+001C to
  U+001E, and NEL (U+0085). CR LF together is one boundary.
\<close>

definition is_line_break :: "char \<Rightarrow> bool" where
  "is_line_break c =
     (let n = of_char c :: nat in
      (10 \<le> n \<and> n \<le> 13) \<or> (28 \<le> n \<and> n \<le> 30) \<or> n = 133)"

text \<open>
  CPython's \<^verbatim>\<open>do_strip\<close>: advance from the left past whitespace, then back
  from the right past whitespace, and return the slice between.
\<close>

definition py_strip :: "pystr \<Rightarrow> pystr" where
  "py_strip s = rev (dropWhile is_py_space (rev (dropWhile is_py_space s)))"

text \<open>After a line: skip its boundary, CR LF counting as one.\<close>

fun drop_line_break :: "pystr \<Rightarrow> pystr" where
  "drop_line_break [] = []"
| "drop_line_break (c # r) =
     (if c = CHR 0x0D \<and> r \<noteq> [] \<and> hd r = CHR ''\<newline>'' then tl r else r)"

text \<open>
  CPython's \<^verbatim>\<open>splitlines\<close> (keepends false): each line runs up to the next
  boundary; a boundary at the very end opens no further line, and the empty
  string has no lines.
\<close>

function splitlines :: "pystr \<Rightarrow> pystr list" where
  "splitlines s =
     (if s = [] then []
      else takeWhile (\<lambda>c. \<not> is_line_break c) s
           # splitlines (drop_line_break (dropWhile (\<lambda>c. \<not> is_line_break c) s)))"
  by pat_completeness auto
termination
proof (relation "measure length")
  fix s :: pystr
  assume ne: "s \<noteq> []"
  define r where "r = dropWhile (\<lambda>c. \<not> is_line_break c) s"
  have "length r \<le> length s"
    unfolding r_def by (rule length_dropWhile_le)
  with ne have "length (drop_line_break r) < length s"
    by (cases r) auto
  then show "(drop_line_break (dropWhile (\<lambda>c. \<not> is_line_break c) s), s) \<in> measure length"
    by (simp add: r_def)
qed simp

declare splitlines.simps [simp del]

fun py_join :: "pystr \<Rightarrow> pystr list \<Rightarrow> pystr" where
  "py_join sep [] = []"
| "py_join sep [x] = x"
| "py_join sep (x # y # zs) = x @ sep @ py_join sep (y # zs)"

definition py_endswith :: "pystr \<Rightarrow> pystr \<Rightarrow> bool" where
  "py_endswith s suffix =
     (length suffix \<le> length s \<and> drop (length s - length suffix) s = suffix)"

section \<open>Lemmas\<close>

lemma line_break_is_space [intro]: "is_line_break c \<Longrightarrow> is_py_space c"
  by (auto simp: is_line_break_def is_py_space_def Let_def)

lemma newline_is_line_break [simp, pystr_simps]: "is_line_break (CHR ''\<newline>'')"
  by (simp add: is_line_break_def)

lemma py_strip_Nil [simp]: "py_strip [] = []"
  by (simp add: py_strip_def)

text \<open>Stripping the left end leaves the result followed by the right-hand whitespace.\<close>

lemma dropWhile_py_strip:
  "dropWhile is_py_space s = py_strip s @ rev (takeWhile is_py_space (rev (dropWhile is_py_space s)))"
proof -
  let ?l = "dropWhile is_py_space s"
  have "rev ?l = takeWhile is_py_space (rev ?l) @ dropWhile is_py_space (rev ?l)" by simp
  then show ?thesis
    by (metis py_strip_def rev_append rev_rev_ident)
qed

lemma py_strip_ends:
  assumes "py_strip s \<noteq> []"
  shows "\<not> is_py_space (hd (py_strip s)) \<and> \<not> is_py_space (last (py_strip s))"
proof -
  let ?l = "dropWhile is_py_space s"
  have ne: "dropWhile is_py_space (rev ?l) \<noteq> []"
    using assms by (simp add: py_strip_def)
  have last: "\<not> is_py_space (last (py_strip s))"
    using ne hd_dropWhile [OF ne] by (simp add: py_strip_def last_rev)
  have "?l \<noteq> []" using ne by (metis Nil_is_rev_conv dropWhile.simps(1))
  then have hd_l: "\<not> is_py_space (hd ?l)" by (rule hd_dropWhile)
  have "hd ?l = hd (py_strip s)"
    using assms by (subst dropWhile_py_strip) (rule hd_append2)
  with hd_l last show ?thesis by simp
qed

lemma py_strip_infix: "\<exists>a b. s = a @ py_strip s @ b \<and> (\<forall>c\<in>set a \<union> set b. is_py_space c)"
proof -
  let ?l = "dropWhile is_py_space s"
  have "s = takeWhile is_py_space s @ ?l" by simp
  then have "s = takeWhile is_py_space s @ py_strip s @ rev (takeWhile is_py_space (rev ?l))"
    by (metis dropWhile_py_strip)
  then show ?thesis
    by (metis UnE set_rev set_takeWhileD)
qed

lemma py_strip_id:
  assumes "xs = [] \<or> (\<not> is_py_space (hd xs) \<and> \<not> is_py_space (last xs))"
  shows "py_strip xs = xs"
proof (cases xs rule: rev_cases)
  case Nil then show ?thesis by simp
next
  case (snoc ys y)
  with assms show ?thesis
    by (cases ys) (auto simp: py_strip_def)
qed

lemma py_strip_idem [simp]: "py_strip (py_strip s) = py_strip s"
  using py_strip_ends [of s] by (auto intro: py_strip_id)

lemma splitlines_Nil [simp, pystr_simps]: "splitlines [] = []"
  by (simp add: splitlines.simps)

lemma splitlines_Cons [pystr_simps]:
  "splitlines (c # s) =
     takeWhile (\<lambda>c. \<not> is_line_break c) (c # s)
     # splitlines (drop_line_break (dropWhile (\<lambda>c. \<not> is_line_break c) (c # s)))"
  by (simp add: splitlines.simps [of "c # s"])

lemma splitlines_no_break:
  "l \<in> set (splitlines s) \<Longrightarrow> c \<in> set l \<Longrightarrow> \<not> is_line_break c"
proof (induction s rule: splitlines.induct)
  case (1 s)
  show ?case
  proof (cases "s = []")
    case True with "1.prems" show ?thesis by simp
  next
    case False
    with "1.prems"(1) have "l = takeWhile (\<lambda>c. \<not> is_line_break c) s
        \<or> l \<in> set (splitlines (drop_line_break (dropWhile (\<lambda>c. \<not> is_line_break c) s)))"
      by (simp add: splitlines.simps [of s])
    then show ?thesis
      using "1.IH" [OF False] "1.prems"(2) by (auto dest: set_takeWhileD)
  qed
qed

text \<open>
  A line without boundaries, followed by a newline and more text, is split off
  as the first line.
\<close>

lemma splitlines_line_append:
  assumes "\<forall>c\<in>set x. \<not> is_line_break c"
  shows "splitlines (x @ CHR ''\<newline>'' # r) = x # splitlines r"
proof -
  have tw: "takeWhile (\<lambda>c. \<not> is_line_break c) (x @ CHR ''\<newline>'' # r) = x"
    using assms by (simp add: takeWhile_append2)
  have dw: "dropWhile (\<lambda>c. \<not> is_line_break c) (x @ CHR ''\<newline>'' # r) = CHR ''\<newline>'' # r"
    using assms by (simp add: dropWhile_append3)
  show ?thesis
    by (simp add: splitlines.simps [of "x @ CHR ''\<newline>'' # r"] tw dw)
qed

lemma splitlines_line:
  assumes "\<forall>c\<in>set x. \<not> is_line_break c" and "x \<noteq> []"
  shows "splitlines x = [x]"
proof -
  have tw: "takeWhile (\<lambda>c. \<not> is_line_break c) x = x"
    using assms(1) by (simp add: takeWhile_eq_all_conv)
  have dw: "dropWhile (\<lambda>c. \<not> is_line_break c) x = []"
    using assms(1) by (simp add: dropWhile_eq_Nil_conv)
  have "splitlines x
      = takeWhile (\<lambda>c. \<not> is_line_break c) x
        # splitlines (drop_line_break (dropWhile (\<lambda>c. \<not> is_line_break c) x))"
    using assms(2) by (simp add: splitlines.simps [of x])
  also have "\<dots> = [x]"
    by (simp only: tw dw drop_line_break.simps splitlines_Nil)
  finally show ?thesis .
qed

text \<open>
  Splitting a newline-joined list gives it back, when no item holds a line
  boundary and the last item is not empty (an empty last item leaves a
  trailing newline, which opens no line).
\<close>

lemma splitlines_py_join:
  assumes "\<forall>x\<in>set xs. \<forall>c\<in>set x. \<not> is_line_break c"
    and "xs = [] \<or> last xs \<noteq> []"
  shows "splitlines (py_join ''\<newline>'' xs) = xs"
  using assms
proof (induction "''\<newline>''" xs rule: py_join.induct)
  case 1 then show ?case by simp
next
  case (2 x) then show ?case by (simp add: splitlines_line)
next
  case (3 x y zs)
  then have "splitlines (py_join ''\<newline>'' (y # zs)) = y # zs" by simp
  with "3.prems"(1) show ?case
    by (simp add: splitlines_line_append)
qed

text \<open>Lines each ended by a newline are split back into those lines, empty ones included.\<close>

lemma splitlines_lines:
  assumes "\<forall>x\<in>set xs. \<forall>c\<in>set x. \<not> is_line_break c"
  shows "splitlines (concat (map (\<lambda>x. x @ ''\<newline>'') xs)) = xs"
  using assms by (induction xs) (simp_all add: splitlines_line_append)

lemma py_endswith_iff: "py_endswith s x \<longleftrightarrow> (\<exists>p. s = p @ x)"
proof
  assume "py_endswith s x"
  then have "s = take (length s - length x) s @ x"
    unfolding py_endswith_def by (metis append_take_drop_id)
  then show "\<exists>p. s = p @ x" ..
next
  assume "\<exists>p. s = p @ x"
  then show "py_endswith s x" by (auto simp: py_endswith_def)
qed

end
