(* ===== verification/PyNum.thy ===== *)
theory PyNum
  imports PyStr
begin

text \<open>
  Python's \<^verbatim>\<open>str()\<close> of the values a pandas column holds, the text
  \<^verbatim>\<open>.astype(str)\<close> (line 24 of \<^verbatim>\<open>src/app.py\<close>) gives a cell: CPython's
  decimal printing of an \<^verbatim>\<open>int\<close>, \<^verbatim>\<open>True\<close> and \<^verbatim>\<open>False\<close>, and the
  \<^verbatim>\<open>repr\<close> of a \<^verbatim>\<open>float\<close> (\<^verbatim>\<open>float_repr_style\<close> short: the shortest
  digits, positional notation for decimal exponents from -4 to 15, otherwise
  scientific notation with a signed exponent of at least two digits). A
  float is held as the decimal the parser read, \<open>FNum neg m e\<close> for
  \<open>(-1)^neg * m * 10^e\<close>, or an infinity; its shortest digits are those of
  the decimal with trailing zeros dropped (see the header for the range in
  which this is the digits of the double).
\<close>

section \<open>Definitions\<close>

text \<open>The decimal digits of a natural number, most significant first.\<close>

fun nat_str :: "nat \<Rightarrow> pystr" where
  "nat_str n = (if n < 10 then [''0123456789'' ! n] else nat_str (n div 10) @ [''0123456789'' ! (n mod 10)])"

declare nat_str.simps [simp del]

definition py_int_str :: "int \<Rightarrow> pystr" where
  "py_int_str i = (if i < 0 then ''-'' @ nat_str (nat (- i)) else nat_str (nat i))"

definition py_bool_str :: "bool \<Rightarrow> pystr" where
  "py_bool_str b = (if b then ''True'' else ''False'')"

datatype pyfloat = FNum bool nat int | FInf bool

text \<open>Drop the trailing zeros of a significand, raising the exponent.\<close>

function strip_zeros :: "nat \<Rightarrow> int \<Rightarrow> nat \<times> int" where
  "strip_zeros m e = (if m \<noteq> 0 \<and> m mod 10 = 0 then strip_zeros (m div 10) (e + 1) else (m, e))"
  by auto
termination by (relation "measure fst") auto

declare strip_zeros.simps [simp del]

text \<open>The exponent of a float's scientific notation: its sign and at least two digits.\<close>

definition exp_str :: "int \<Rightarrow> pystr" where
  "exp_str x = (if x < 0 then ''-'' else ''+'') @ (if \<bar>x\<bar> < 10 then ''0'' else []) @ nat_str (nat \<bar>x\<bar>)"

text \<open>
  The digits \<open>ds\<close> (no leading or trailing zero) with decimal exponent \<open>x\<close>
  of the first digit, laid out as \<^verbatim>\<open>repr\<close> does.
\<close>

definition digits_repr :: "pystr \<Rightarrow> int \<Rightarrow> pystr" where
  "digits_repr ds x =
     (if -4 \<le> x \<and> x < 16 then
        (if 0 \<le> x then
           (if length ds \<le> nat x + 1 then ds @ replicate (nat x + 1 - length ds) (CHR ''0'') @ ''.0''
            else take (nat x + 1) ds @ ''.'' @ drop (nat x + 1) ds)
         else ''0.'' @ replicate (nat (- x) - 1) (CHR ''0'') @ ds)
      else take 1 ds @ (if length ds = 1 then [] else ''.'' @ drop 1 ds) @ ''e'' @ exp_str x)"

definition py_float_repr :: "pyfloat \<Rightarrow> pystr" where
  "py_float_repr f =
     (case f of
        FInf neg \<Rightarrow> (if neg then ''-inf'' else ''inf'')
      | FNum neg m e \<Rightarrow>
          (if neg then ''-'' else []) @
          (if m = 0 then ''0.0''
           else (let (m', e') = strip_zeros m e; ds = nat_str m' in digits_repr ds (e' + int (length ds) - 1))))"

section \<open>Lemmas\<close>

lemma nat_str_Nil [simp]: "nat_str n \<noteq> []"
  by (simp add: nat_str.simps [of n])

lemma nat_str_digit_list: "nat_str n = (if n < 10 then [] else nat_str (n div 10)) @ [''0123456789'' ! (n mod 10)]"
  by (simp add: nat_str.simps [of n])

text \<open>The digits of a multiple of a power of ten end in that many zeros.\<close>

lemma nat_str_times10: "0 < n \<Longrightarrow> nat_str (n * 10) = nat_str n @ ''0''"
  by (simp add: nat_str.simps [of "n * 10"])

lemma nat_str_pow10:
  assumes "0 < m" shows "nat_str (m * 10 ^ k) = nat_str m @ replicate k (CHR ''0'')"
proof (induction k)
  case (Suc k)
  have "nat_str (m * 10 ^ Suc k) = nat_str (m * 10 ^ k * 10)"
    by (simp add: ac_simps)
  also have "\<dots> = nat_str m @ replicate k (CHR ''0'') @ ''0''"
    using Suc assms by (simp add: nat_str_times10)
  finally show ?case by (simp add: replicate_append_same)
qed simp

lemma length_nat_str: "n < 10 ^ k \<Longrightarrow> 0 < k \<Longrightarrow> length (nat_str n) \<le> k"
proof (induction k arbitrary: n)
  case (Suc k)
  show ?case
  proof (cases "n < 10")
    case True
    then show ?thesis by (simp add: nat_str.simps [of n])
  next
    case False
    have "n div 10 < 10 ^ k"
      using Suc.prems(1) by (simp add: div_less_iff_less_mult mult.commute)
    moreover have "0 < k"
      using False Suc.prems(1) by (cases k) auto
    ultimately have "length (nat_str (n div 10)) \<le> k"
      by (rule Suc.IH)
    with False show ?thesis by (simp add: nat_str_digit_list [of n])
  qed
qed simp

text \<open>Stripping trailing zeros: the significand times a power of ten, the exponent raised by as much.\<close>

lemma strip_zeros_pow10: "\<exists>k. m = fst (strip_zeros m e) * 10 ^ k \<and> snd (strip_zeros m e) = e + int k"
proof (induction m e rule: strip_zeros.induct)
  case (1 m e)
  show ?case
  proof (cases "m \<noteq> 0 \<and> m mod 10 = 0")
    case True
    with "1.IH" obtain k where "m div 10 = fst (strip_zeros (m div 10) (e + 1)) * 10 ^ k"
      and "snd (strip_zeros (m div 10) (e + 1)) = e + 1 + int k" by blast
    with True show ?thesis
      by (intro exI [of _ "Suc k"]) (auto simp: strip_zeros.simps [of m e] elim!: dvdE)
  qed (auto simp: strip_zeros.simps [of m e])
qed

lemma strip_zeros_pos: "0 < m \<Longrightarrow> 0 < fst (strip_zeros m e)"
  using strip_zeros_pow10 [of m e] by (metis mult_eq_0_iff not_gr0)

text \<open>A whole number below \<open>10^16\<close>, as a float, prints as its digits and \<^verbatim>\<open>.0\<close>.\<close>

lemma py_float_repr_whole:
  assumes "m < 10 ^ 16"
  shows "py_float_repr (FNum False m 0) = nat_str m @ ''.0''"
proof (cases "m = 0")
  case False
  obtain m' e' where s: "strip_zeros m 0 = (m', e')" by fastforce
  obtain k where k: "m = m' * 10 ^ k" "e' = int k"
    using strip_zeros_pow10 [of m 0] s by auto
  have m': "0 < m'" using strip_zeros_pos [of m 0] False s by simp
  have ds: "nat_str m = nat_str m' @ replicate k (CHR ''0'')"
    using nat_str_pow10 [OF m'] k by simp
  have "length (nat_str m) \<le> 16"
    using length_nat_str [OF assms] by simp
  then have len: "length (nat_str m') + k \<le> 16" using ds by simp
  have "digits_repr (nat_str m') (e' + int (length (nat_str m')) - 1)
      = nat_str m' @ replicate k (CHR ''0'') @ ''.0''"
  proof -
    have x: "nat (e' + int (length (nat_str m')) - 1) + 1 = k + length (nat_str m')"
      using k(2) nat_str_Nil [of m'] by (cases "nat_str m'") auto
    show ?thesis
      using len k(2) x by (simp add: digits_repr_def)
  qed
  then show ?thesis
    using False s ds by (simp add: py_float_repr_def)
qed (simp add: py_float_repr_def nat_str.simps [of 0])


end
