(* ===== verification/Loader.thy ===== *)
theory Loader
  imports PyNum
begin

text \<open>
  The feedback loader, \<^verbatim>\<open>load_feedback\<close> of \<^verbatim>\<open>src/app.py\<close> (lines
  20--30). An upload is its file name and its content decoded as UTF-8
  (\<open>None\<close> when the bytes are not UTF-8: both \<^verbatim>\<open>decode("utf-8")\<close> and
  pandas' reader raise \<^verbatim>\<open>UnicodeDecodeError\<close> then). pandas'
  \<^verbatim>\<open>read_csv\<close> is the interface \<open>csv_reader\<close>: the text to a data frame
  (its column names and its rows of typed cells) or the parser's exception
  (the theory \<open>PandasCsv\<close> models the real reader); \<^verbatim>\<open>astype(str)\<close>
  prints a cell's value with Python's \<open>str()\<close> (theory \<open>PyNum\<close>). The
  loader's own steps are modelled as written: the \<^verbatim>\<open>.csv\<close> test, the first
  column by position, \<^verbatim>\<open>dropna\<close>, \<^verbatim>\<open>astype(str)\<close>, and for text the
  comprehension over \<^verbatim>\<open>splitlines()\<close> that strips each line and keeps the
  non-blank ones. The exceptions the code does not catch are the values of
  \<open>load_error\<close>.
\<close>

section \<open>Data\<close>

text \<open>
  A cell of a pandas column: the missing value, or a value of the column's
  dtype: a string (object), an integer (int64, uint64), a boolean, or a
  float (float64).
\<close>

datatype cell = NaN | Str pystr | IntVal int | BoolVal bool | FloatVal pyfloat

record frame =
  frame_columns :: "pystr list"
  frame_rows :: "cell list list"

type_synonym csv_reader = "pystr \<Rightarrow> exc_msg + frame"

datatype load_error =
    UnicodeDecodeError
  | ReadCsvError exc_msg
  | IndexError exc_msg

text \<open>Streamlit's \<^verbatim>\<open>UploadedFile\<close>: its name, and its bytes as decoded text.\<close>

record uploaded_file =
  upload_name :: pystr
  upload_text :: "pystr option"

section \<open>Operations\<close>

text \<open>\<^verbatim>\<open>df.iloc[:, 0]\<close>: the first column by position; a frame without columns raises.\<close>

definition first_column :: "frame \<Rightarrow> load_error + cell list" where
  "first_column df =
     (if frame_columns df = [] then Inl (IndexError ''single positional indexer is out-of-bounds'')
      else Inr (map (\<lambda>row. case row of [] \<Rightarrow> NaN | c # _ \<Rightarrow> c) (frame_rows df)))"

text \<open>\<^verbatim>\<open>.dropna()\<close> and \<^verbatim>\<open>.astype(str)\<close> (a missing value would print as \<^verbatim>\<open>nan\<close>).\<close>

definition dropna :: "cell list \<Rightarrow> cell list" where
  "dropna col = filter (\<lambda>c. c \<noteq> NaN) col"

fun astype_str :: "cell \<Rightarrow> pystr" where
  "astype_str NaN = ''nan''"
| "astype_str (Str s) = s"
| "astype_str (IntVal i) = py_int_str i"
| "astype_str (BoolVal b) = py_bool_str b"
| "astype_str (FloatVal x) = py_float_repr x"

text \<open>\<^verbatim>\<open>[line.strip() for line in content.splitlines() if line.strip()]\<close>\<close>

definition nonblank_lines :: "pystr \<Rightarrow> pystr list" where
  "nonblank_lines content = [py_strip line. line \<leftarrow> splitlines content, py_strip line \<noteq> []]"

definition load_feedback ::
  "csv_reader \<Rightarrow> uploaded_file option \<Rightarrow> pystr \<Rightarrow> load_error + pystr list" where
  "load_feedback read_csv upload_file text_input =
     (case upload_file of
        Some f \<Rightarrow>
          (if py_endswith (upload_name f) ''.csv'' then
             (case upload_text f of
                None \<Rightarrow> Inl UnicodeDecodeError
              | Some content \<Rightarrow>
                  (case read_csv content of
                     Inl e \<Rightarrow> Inl (ReadCsvError e)
                   | Inr df \<Rightarrow>
                       (case first_column df of
                          Inl e \<Rightarrow> Inl e
                        | Inr col \<Rightarrow> Inr (map astype_str (dropna col)))))
           else
             (case upload_text f of
                None \<Rightarrow> Inl UnicodeDecodeError
              | Some content \<Rightarrow> Inr (nonblank_lines content)))
      | None \<Rightarrow> Inr (nonblank_lines text_input))"

declare load_feedback_def [pipeline_simps]

section \<open>Lemmas\<close>

text \<open>
  A well-formed feedback item, what the spec's Feedback Loader promises: not
  empty, free of surrounding whitespace, and on one line.
\<close>

definition feedback_item :: "pystr \<Rightarrow> bool" where
  "feedback_item x \<longleftrightarrow> x \<noteq> [] \<and> py_strip x = x \<and> (\<forall>c\<in>set x. \<not> is_line_break c)"

lemma nonblank_lines_items: "x \<in> set (nonblank_lines t) \<Longrightarrow> feedback_item x"
proof -
  assume "x \<in> set (nonblank_lines t)"
  then obtain l where l: "l \<in> set (splitlines t)" and x: "x = py_strip l" and ne: "py_strip l \<noteq> []"
    by (auto simp: nonblank_lines_def)
  obtain a b where "l = a @ py_strip l @ b"
    using py_strip_infix by blast
  then have "set (py_strip l) \<subseteq> set l" by (metis Un_iff set_append subsetI)
  then have "\<forall>c\<in>set x. \<not> is_line_break c"
    using splitlines_no_break [OF l] x by blast
  with x ne show ?thesis by (simp add: feedback_item_def)
qed

lemma nonblank_lines_py_join:
  assumes "\<forall>x\<in>set xs. feedback_item x"
  shows "nonblank_lines (py_join ''\<newline>'' xs) = xs"
proof -
  have "splitlines (py_join ''\<newline>'' xs) = xs"
    using assms by (intro splitlines_py_join) (auto simp: feedback_item_def)
  moreover have "[py_strip l. l \<leftarrow> xs, py_strip l \<noteq> []] = xs"
    using assms by (induction xs) (auto simp: feedback_item_def)
  ultimately show ?thesis by (simp add: nonblank_lines_def)
qed

lemma nonblank_lines_lines:
  assumes "\<forall>x\<in>set xs. feedback_item x"
  shows "nonblank_lines (concat (map (\<lambda>x. x @ ''\<newline>'') xs)) = xs"
proof -
  have "splitlines (concat (map (\<lambda>x. x @ ''\<newline>'') xs)) = xs"
    using assms by (intro splitlines_lines) (auto simp: feedback_item_def)
  moreover have "[py_strip l. l \<leftarrow> xs, py_strip l \<noteq> []] = xs"
    using assms by (induction xs) (auto simp: feedback_item_def)
  ultimately show ?thesis by (simp add: nonblank_lines_def)
qed

lemma load_feedback_text [simp]:
  "load_feedback rd None t = Inr (nonblank_lines t)"
  by (simp add: load_feedback_def)

section \<open>Properties\<close>

text \<open>
  C20: every item the loader produces from pasted text, or from an uploaded
  file that is not a CSV, is a well-formed feedback item: non-empty, stripped
  and free of line boundaries.
\<close>

theorem load_feedback_text_items:
  assumes "load_feedback rd upload t = Inr xs"
    and "\<forall>f. upload = Some f \<longrightarrow> \<not> py_endswith (upload_name f) ''.csv''"
  shows "\<forall>x\<in>set xs. feedback_item x"
  using assms nonblank_lines_items
  by (auto simp: load_feedback_def split: option.splits if_splits)

theorem load_feedback_text_items_witness:
  "load_feedback (\<lambda>_. Inl '''') None '' Great product!\<newline>\<newline>  \<newline>Terrible support. '' = Inr [''Great product!'', ''Terrible support.'']
   \<and> list_all feedback_item [''Great product!'', ''Terrible support.'']"
proof -
  have "load_feedback (\<lambda>_. Inl '''') None '' Great product!\<newline>\<newline>  \<newline>Terrible support. ''
      = Inr [''Great product!'', ''Terrible support.'']"
    by (simp add: nonblank_lines_def py_strip_def is_py_space_def pystr_simps is_line_break_def)
  with load_feedback_text_items [of "\<lambda>_. Inl ''''" None _ "[''Great product!'', ''Terrible support.'']"]
  show ?thesis by (simp add: list_all_iff)
qed

text \<open>
  C21: pasting a newline-joined list of well-formed items loads exactly that
  list, in order.
\<close>

theorem load_feedback_paste_roundtrip:
  assumes "\<forall>x\<in>set xs. feedback_item x"
  shows "load_feedback rd None (py_join ''\<newline>'' xs) = Inr xs"
  using assms by (simp add: nonblank_lines_py_join)

theorem load_feedback_paste_roundtrip_witness:
  "load_feedback (\<lambda>_. Inl '''') None (py_join ''\<newline>'' [''Great product!'', ''It is okay.''])
     = Inr [''Great product!'', ''It is okay.'']"
proof -
  have "\<forall>x\<in>set [''Great product!'', ''It is okay.'']. feedback_item x"
    by (simp add: feedback_item_def py_strip_def is_py_space_def is_line_break_def)
  then show ?thesis by (rule load_feedback_paste_roundtrip)
qed

text \<open>
  An uploaded file takes precedence: with a file present the pasted text is
  not read.
\<close>

lemma load_feedback_file_precedence:
  "load_feedback rd (Some f) t1 = load_feedback rd (Some f) t2"
  by (simp add: load_feedback_def)

text \<open>
  C23: the CSV branch returns the non-missing values of a first column of
  strings exactly as the reader produced them: unlike the text branches,
  nothing is stripped and nothing blank is dropped.
\<close>

theorem load_feedback_csv:
  assumes "py_endswith (upload_name f) ''.csv''"
    and "upload_text f = Some content"
    and "read_csv content = Inr df"
    and "frame_columns df \<noteq> []"
    and "\<forall>row\<in>set (frame_rows df). \<forall>c\<in>set (take 1 row). c = NaN \<or> (\<exists>s. c = Str s)"
  shows "load_feedback read_csv (Some f) t
           = Inr [s. Str s \<leftarrow> map (\<lambda>row. case row of [] \<Rightarrow> NaN | c # _ \<Rightarrow> c) (frame_rows df)]"
proof -
  have "map astype_str (dropna cs) = [s. Str s \<leftarrow> cs]" if "\<forall>c\<in>set cs. c = NaN \<or> (\<exists>s. c = Str s)" for cs
    using that by (induction cs) (auto simp: dropna_def)
  moreover have "\<forall>c\<in>set (map (\<lambda>row. case row of [] \<Rightarrow> NaN | c # _ \<Rightarrow> c) (frame_rows df)). c = NaN \<or> (\<exists>s. c = Str s)"
    using assms(5) by (auto split: list.splits)
  ultimately show ?thesis
    using assms(1-4) by (simp add: load_feedback_def first_column_def)
qed

theorem load_feedback_csv_witness:
  "load_feedback (\<lambda>_. Inr \<lparr>frame_columns = [''comment''],
                              frame_rows = [[Str '' Great product! '', NaN], [NaN, Str ''x'']]\<rparr>)
     (Some \<lparr>upload_name = ''survey.csv'', upload_text = Some ''<csv text>''\<rparr>) ''''
   = Inr ['' Great product! '']"
proof -
  have "py_endswith (upload_name \<lparr>upload_name = ''survey.csv'', upload_text = Some ''<csv text>''\<rparr>) ''.csv''"
    by (simp add: py_endswith_def)
  from load_feedback_csv [OF this, of "''<csv text>''"] show ?thesis
    by simp
qed

end
