(* ===== verification/Sentiment.thy ===== *)
theory Sentiment
  imports Prelude
begin

text \<open>
  The sentiment classifier, \<^verbatim>\<open>analyze_sentiment\<close> of \<^verbatim>\<open>src/app.py\<close>
  (lines 33--41). The lexical scorer it calls, TextBlob's
  \<^verbatim>\<open>TextBlob(feedback).sentiment.polarity\<close>, is a library the source only
  calls: it is the interface \<open>scorer\<close>, any function from the text to a
  polarity. The classifier's own logic, the two thresholds and their order,
  is modelled as written. The three labels are the strings the function
  returns; the datatype keeps them in the order of the source's branches, and
  \<open>sentiment_name\<close> gives the string that the table and the CSV export show.
\<close>

section \<open>Labels\<close>

datatype sentiment = Positive | Negative | Neutral

fun sentiment_name :: "sentiment \<Rightarrow> pystr" where
  "sentiment_name Positive = ''Positive''"
| "sentiment_name Negative = ''Negative''"
| "sentiment_name Neutral = ''Neutral''"

text \<open>
  Labels are ordered by the polarity they stand for,
  \<open>Negative < Neutral < Positive\<close>; the instance lets the library's order
  lemmas apply to them.
\<close>

fun sentiment_rank :: "sentiment \<Rightarrow> nat" where
  "sentiment_rank Negative = 0"
| "sentiment_rank Neutral = 1"
| "sentiment_rank Positive = 2"

instantiation sentiment :: linorder
begin

definition less_eq_sentiment :: "sentiment \<Rightarrow> sentiment \<Rightarrow> bool" where
  "less_eq_sentiment x y \<longleftrightarrow> sentiment_rank x \<le> sentiment_rank y"

definition less_sentiment :: "sentiment \<Rightarrow> sentiment \<Rightarrow> bool" where
  "less_sentiment x y \<longleftrightarrow> sentiment_rank x < sentiment_rank y"

instance
proof
  fix x y z :: sentiment
  show "x < y \<longleftrightarrow> x \<le> y \<and> \<not> y \<le> x"
    by (auto simp: less_eq_sentiment_def less_sentiment_def)
  show "x \<le> x" by (simp add: less_eq_sentiment_def)
  show "x \<le> y \<Longrightarrow> y \<le> z \<Longrightarrow> x \<le> z"
    by (simp add: less_eq_sentiment_def)
  show "x \<le> y \<Longrightarrow> y \<le> x \<Longrightarrow> x = y"
    by (cases x; cases y) (simp_all add: less_eq_sentiment_def)
  show "x \<le> y \<or> y \<le> x"
    by (auto simp: less_eq_sentiment_def)
qed

end

section \<open>The classifier\<close>

text \<open>
  \<^verbatim>\<open>TextBlob(feedback).sentiment.polarity\<close>: a function of the text alone
  (the analyzer keeps no state between calls).
\<close>

type_synonym scorer = "pystr \<Rightarrow> real"

text \<open>
  The float literals \<^verbatim>\<open>0.1\<close> and \<^verbatim>\<open>-0.1\<close> are the reals \<open>1/10\<close> and
  \<open>-1/10\<close>: a polarity equal to the literal is the boundary case whichever
  binary value the literal denotes, so the comparisons behave as in the code.
\<close>

definition analyze_sentiment :: "scorer \<Rightarrow> pystr \<Rightarrow> sentiment" where
  "analyze_sentiment polarity_of feedback =
     (let polarity = polarity_of feedback in
      if polarity > 0.1 then Positive
      else if polarity < -0.1 then Negative
      else Neutral)"

declare analyze_sentiment_def [pipeline_simps]

section \<open>Lemmas\<close>

lemma sentiment_name_inj [simp]: "sentiment_name x = sentiment_name y \<longleftrightarrow> x = y"
  by (cases x; cases y) simp_all

section \<open>Properties\<close>

text \<open>C3: each label is returned exactly on its polarity interval.\<close>

theorem analyze_sentiment_intervals:
  "(analyze_sentiment f s = Positive \<longleftrightarrow> f s > 0.1)
   \<and> (analyze_sentiment f s = Negative \<longleftrightarrow> f s < -0.1)
   \<and> (analyze_sentiment f s = Neutral \<longleftrightarrow> -0.1 \<le> f s \<and> f s \<le> 0.1)"
  by (auto simp: analyze_sentiment_def Let_def)

text \<open>
  The label is monotone in the polarity: a text scored no higher than
  another never gets a higher label.
\<close>

lemma analyze_sentiment_mono:
  assumes "f s \<le> g t"
  shows "analyze_sentiment f s \<le> analyze_sentiment g t"
  using assms by (auto simp: analyze_sentiment_def less_eq_sentiment_def Let_def)

lemma analyze_sentiment_mono_witness:
  "analyze_sentiment (\<lambda>_. -0.5) ''Terrible support.'' \<le> analyze_sentiment (\<lambda>_. 0.8) ''Great product!''"
  using analyze_sentiment_mono [of "\<lambda>_. -0.5" "''Terrible support.''" "\<lambda>_. 0.8" "''Great product!''"]
  by simp

end
