(* ===== verification/Aggregate.thy ===== *)
theory Aggregate
  imports Sentiment PyNum
begin

text \<open>
  The aggregator and renderer of the Analyze handler of \<^verbatim>\<open>src/app.py\<close>
  (lines 72--84): the data frame of feedback and labels (line 73), pandas'
  \<^verbatim>\<open>value_counts()\<close> on its Sentiment column and the pie chart matplotlib
  draws from it (lines 77--84).
  \<^item> The frame is its list of rows \<open>(Feedback, Sentiment)\<close>; pandas raises
    \<^verbatim>\<open>ValueError\<close> when the two columns differ in length, and
    \<open>make_dataframe\<close> has that branch.
  \<^item> \<^verbatim>\<open>value_counts()\<close> counts each distinct value in the order a hash
    table first meets it, then sorts by count, descending, with pandas'
    \<^verbatim>\<open>nargsort\<close>: reverse, stable ascending sort, reverse, so that equal
    counts keep their first-occurrence order.
  \<^item> \<^verbatim>\<open>plot.pie(colors=['green', 'red', 'grey'])\<close> gives the i-th wedge of
    the series the i-th colour of the list, cycling, and labels it with its
    share of the total in percent, printed by \<^verbatim>\<open>autopct='%1.1f%%'\<close>.
\<close>

section \<open>The data frame\<close>

type_synonym table = "(pystr \<times> sentiment) list"

definition make_dataframe :: "pystr list \<Rightarrow> sentiment list \<Rightarrow> exc_msg + table" where
  "make_dataframe feedbacks sentiments =
     (if length feedbacks = length sentiments then Inr (zip feedbacks sentiments)
      else Inl ''All arrays must be of the same length'')"

section \<open>\<^verbatim>\<open>Series.value_counts()\<close>\<close>

definition value_counts :: "'a list \<Rightarrow> ('a \<times> nat) list" where
  "value_counts xs = rev (sort_key snd (rev (map (\<lambda>v. (v, count_list xs v)) (uniques xs))))"

text \<open>The count a label has in the series, 0 for a label that does not occur.\<close>

definition vc_count :: "('a \<times> nat) list \<Rightarrow> 'a \<Rightarrow> nat" where
  "vc_count vc v = (case map_of vc v of None \<Rightarrow> 0 | Some n \<Rightarrow> n)"

section \<open>The pie chart\<close>

datatype colour = Green | Red | Grey

definition pie_colours :: "colour list" where
  "pie_colours = [Green, Red, Grey]"

text \<open>
  The text \<^verbatim>\<open>autopct % (100. * frac)\<close> prints on a wedge of \<open>n\<close> of
  \<open>sx\<close> items (\<open>frac = n / sx\<close>): the percentage in tenths, rounded to the nearest and a
  tie to the even tenth (printf's rounding of the exact value), then one
  decimal and a percent sign.
\<close>

definition pct_tenths :: "nat \<Rightarrow> nat \<Rightarrow> nat" where
  "pct_tenths n sx =
     (let q = 1000 * n div sx; r = 1000 * n mod sx
      in if sx < 2 * r \<or> (2 * r = sx \<and> odd q) then q + 1 else q)"

definition autopct_label :: "nat \<Rightarrow> nat \<Rightarrow> pystr" where
  "autopct_label n sx =
     (let t = pct_tenths n sx in nat_str (t div 10) @ ''.'' @ nat_str (t mod 10) @ ''%'')"

record 'a wedge =
  wedge_label :: 'a
  wedge_size :: nat
  wedge_colour :: colour
  wedge_pct :: real
  wedge_text :: pystr

definition plot_pie :: "('a \<times> nat) list \<Rightarrow> 'a wedge list" where
  "plot_pie counts =
     (let total = sum_list (map snd counts) in
      map (\<lambda>(i, (l, n)).
             \<lparr>wedge_label = l, wedge_size = n,
              wedge_colour = pie_colours ! (i mod length pie_colours),
              wedge_pct = 100 * real n / real total,
              wedge_text = autopct_label n total\<rparr>)
          (enumerate 0 counts))"

declare make_dataframe_def [pipeline_simps] value_counts_def [pipeline_simps]
  plot_pie_def [pipeline_simps]

section \<open>Lemmas\<close>

lemma mset_value_counts:
  "mset (value_counts xs) = mset (map (\<lambda>v. (v, count_list xs v)) (uniques xs))"
  by (simp add: value_counts_def)

lemma set_value_counts:
  "set (value_counts xs) = (\<lambda>v. (v, count_list xs v)) ` set xs"
proof -
  have "set (value_counts xs) = set (map (\<lambda>v. (v, count_list xs v)) (uniques xs))"
    by (metis mset_value_counts set_mset_mset)
  then show ?thesis by simp
qed

lemma map_fst_value_counts_distinct: "distinct (map fst (value_counts xs))"
proof -
  have "mset (map fst (value_counts xs))
      = mset (map fst (map (\<lambda>v. (v, count_list xs v)) (uniques xs)))"
    by (simp only: mset_map mset_value_counts)
  then have "mset (map fst (value_counts xs)) = mset (uniques xs)"
    by (simp add: comp_def)
  then show ?thesis
    using mset_eq_imp_distinct_iff distinct_uniques_from by blast
qed

lemma sum_value_counts: "sum_list (map snd (value_counts xs)) = length xs"
proof -
  have "sum_list (map snd (value_counts xs))
      = sum_list (map snd (map (\<lambda>v. (v, count_list xs v)) (uniques xs)))"
    using mset_value_counts by (rule sum_list_map_perm)
  also have "\<dots> = length xs"
    by (simp add: comp_def count_list_sum_uniques)
  finally show ?thesis .
qed

lemma vc_count_value_counts [simp]: "vc_count (value_counts xs) v = count_list xs v"
proof (cases "v \<in> set xs")
  case True
  then have "(v, count_list xs v) \<in> set (value_counts xs)"
    by (simp add: set_value_counts)
  then have "map_of (value_counts xs) v = Some (count_list xs v)"
    by (simp add: map_fst_value_counts_distinct)
  then show ?thesis by (simp add: vc_count_def)
next
  case False
  then have "v \<notin> fst ` set (value_counts xs)"
    by (auto simp: set_value_counts)
  then have "map_of (value_counts xs) v = None"
    by (simp add: map_of_eq_None_iff)
  then show ?thesis
    using False by (simp add: vc_count_def count_list_0_iff)
qed

lemma length_plot_pie [simp]: "length (plot_pie counts) = length counts"
  by (simp add: plot_pie_def Let_def)

lemma nth_plot_pie:
  assumes "i < length counts"
  shows "plot_pie counts ! i =
           \<lparr>wedge_label = fst (counts ! i), wedge_size = snd (counts ! i),
            wedge_colour = pie_colours ! (i mod 3),
            wedge_pct = 100 * real (snd (counts ! i)) / real (sum_list (map snd counts)),
            wedge_text = autopct_label (snd (counts ! i)) (sum_list (map snd counts))\<rparr>"
  using assms by (simp add: plot_pie_def Let_def nth_enumerate_eq pie_colours_def split: prod.splits)

lemma map_plot_pie:
  "map wedge_size (plot_pie counts) = map snd counts"
  "map wedge_label (plot_pie counts) = map fst counts"
  "map wedge_pct (plot_pie counts)
     = map (\<lambda>n. 100 * real n / real (sum_list (map snd counts))) (map snd counts)"
  "map wedge_text (plot_pie counts) = map (\<lambda>n. autopct_label n (sum_list (map snd counts))) (map snd counts)"
  by (rule nth_equalityI; simp add: nth_plot_pie)+

lemma sum_list_scaled: "sum_list (map (\<lambda>n. a * real n / b) ns) = a * real (sum_list ns) / b"
  by (induction ns) (simp_all add: add_divide_distrib distrib_left)

lemma sum_wedge_pct:
  assumes "0 < sum_list (map snd counts)"
  shows "sum_list (map wedge_pct (plot_pie counts)) = 100"
proof -
  have "sum_list (map wedge_pct (plot_pie counts))
      = 100 * real (sum_list (map snd counts)) / real (sum_list (map snd counts))"
    by (simp only: map_plot_pie(3) sum_list_scaled)
  also have "\<dots> = 100"
  proof (rule nonzero_mult_div_cancel_right)
    show "real (sum_list (map snd counts)) \<noteq> 0"
      using assms by (simp only: of_nat_0_less_iff [symmetric])
  qed
  finally show ?thesis .
qed

text \<open>The pie of a non-empty series: sizes, percentages, labels.\<close>

lemma plot_pie_value_counts:
  assumes "xs \<noteq> []"
  shows "sum_list (map wedge_size (plot_pie (value_counts xs))) = length xs
         \<and> sum_list (map wedge_pct (plot_pie (value_counts xs))) = 100
         \<and> distinct (map wedge_label (plot_pie (value_counts xs)))
         \<and> (\<forall>w\<in>set (plot_pie (value_counts xs)).
              0 < wedge_size w \<and> wedge_size w = count_list xs (wedge_label w))"
proof (intro conjI)
  show sizes: "sum_list (map wedge_size (plot_pie (value_counts xs))) = length xs"
    by (simp add: map_plot_pie sum_value_counts)
  show "sum_list (map wedge_pct (plot_pie (value_counts xs))) = 100"
    using assms by (intro sum_wedge_pct) (simp add: sum_value_counts)
  show "distinct (map wedge_label (plot_pie (value_counts xs)))"
    by (simp add: map_plot_pie map_fst_value_counts_distinct)
  have "\<forall>w\<in>set (plot_pie (value_counts xs)). (wedge_label w, wedge_size w) \<in> set (value_counts xs)"
    by (metis (no_types, lifting) in_set_conv_nth length_plot_pie nth_plot_pie nth_mem
        prod.collapse wedge.select_convs(1,2))
  then show "\<forall>w\<in>set (plot_pie (value_counts xs)).
      0 < wedge_size w \<and> wedge_size w = count_list xs (wedge_label w)"
    by (auto simp: set_value_counts)
qed

text \<open>Half a unit in the first decimal.\<close>

lemma abs_tenths: "\<bar>a - b\<bar> \<le> 1 / 2 \<Longrightarrow> \<bar>a / 10 - b / 10\<bar> \<le> (1 / 20 :: real)"
  by (simp add: diff_divide_distrib [symmetric] abs_divide)

section \<open>Properties\<close>

text \<open>The first entry of \<^verbatim>\<open>value_counts\<close> has the highest count.\<close>

lemma value_counts_sorted: "sorted (rev (map snd (value_counts xs)))"
  by (simp add: value_counts_def rev_map [symmetric])

lemma sorted_rev_hd_max:
  assumes "sorted (rev ys)" and "y \<in> set ys"
  shows "y \<le> hd ys"
proof (cases ys)
  case (Cons a t)
  then show ?thesis using assms by (auto simp: sorted_append)
qed (use assms in simp)

lemma value_counts_hd_max:
  assumes "xs \<noteq> []"
  shows "count_list xs v \<le> snd (hd (value_counts xs))
         \<and> snd (hd (value_counts xs)) = count_list xs (fst (hd (value_counts xs)))"
proof -
  have ne: "value_counts xs \<noteq> []"
    using assms set_value_counts [of xs] by auto
  then have hd_in: "hd (value_counts xs) \<in> set (value_counts xs)" by simp
  have eq: "snd (hd (value_counts xs)) = count_list xs (fst (hd (value_counts xs)))"
    using hd_in by (auto simp: set_value_counts)
  have "count_list xs v \<le> snd (hd (value_counts xs))"
  proof (cases "v \<in> set xs")
    case True
    then have "count_list xs v \<in> set (map snd (value_counts xs))"
      by (force simp: set_value_counts)
    then have "count_list xs v \<le> hd (map snd (value_counts xs))"
      by (rule sorted_rev_hd_max [OF value_counts_sorted])
    then show ?thesis using ne by (simp add: hd_map)
  next
    case False
    then show ?thesis by (simp add: count_list_0_iff)
  qed
  with eq show ?thesis by simp
qed

text \<open>
  C18: refinement: \<^verbatim>\<open>value_counts\<close> describes exactly the multiset of the
  series' values: each value with its number of occurrences, none missing,
  none repeated.
\<close>

theorem value_counts_mset: "counts_mset (value_counts xs) = mset xs"
proof -
  have "counts_mset (value_counts xs) = counts_mset (map (\<lambda>v. (v, count_list xs v)) (uniques xs))"
    by (rule counts_mset_perm) (simp add: value_counts_def)
  also have "\<dots> = mset xs"
    by (auto simp: counts_mset_uniques multiset_eq_iff)
  finally show ?thesis .
qed

text \<open>
  C19: \<^verbatim>\<open>value_counts\<close> is sorted by count, descending, every count is
  positive (a label that does not occur gets no entry, so the pie has no
  empty wedge), and equal counts keep the order in which the values first
  occur.
\<close>

theorem value_counts_order:
  "sorted (rev (map snd (value_counts xs)))
   \<and> list_all (\<lambda>(v, n). 0 < n) (value_counts xs)
   \<and> (\<forall>k. filter (\<lambda>p. snd p = k) (value_counts xs)
          = filter (\<lambda>p. snd p = k) (map (\<lambda>v. (v, count_list xs v)) (uniques xs)))"
proof (intro conjI allI)
  show "sorted (rev (map snd (value_counts xs)))"
    by (rule value_counts_sorted)
  show "list_all (\<lambda>(v, n). 0 < n) (value_counts xs)"
    by (auto simp: list_all_iff set_value_counts)
  fix k
  show "filter (\<lambda>p. snd p = k) (value_counts xs)
      = filter (\<lambda>p. snd p = k) (map (\<lambda>v. (v, count_list xs v)) (uniques xs))"
    by (simp add: value_counts_def rev_filter [symmetric] sort_key_stable)
qed

text \<open>
  C30: the label matplotlib prints on a wedge is its percentage with one
  decimal, within half a tenth of the wedge's exact share of the total.
\<close>

theorem plot_pie_labels:
  assumes "w \<in> set (plot_pie counts)"
  shows "\<exists>t. wedge_text w = nat_str (t div 10) @ ''.'' @ nat_str (t mod 10) @ ''%''
             \<and> \<bar>real t / 10 - wedge_pct w\<bar> \<le> 1 / 20"
proof -
  obtain i where i: "i < length counts" "w = plot_pie counts ! i"
    using assms by (metis in_set_conv_nth length_plot_pie)
  define n where "n = snd (counts ! i)"
  define d where "d = sum_list (map snd counts)"
  have w: "wedge_text w = autopct_label n d" "wedge_pct w = 100 * real n / real d"
    using i by (simp_all add: nth_plot_pie n_def d_def)
  have "\<bar>real (pct_tenths n d) / 10 - 100 * real n / real d\<bar> \<le> 1 / 20"
  proof (cases "d = 0")
    case True
    have "n \<le> d"
      using i by (simp add: n_def d_def member_le_sum_list)
    with True show ?thesis by (simp add: pct_tenths_def)
  next
    case False
    define q where "q = 1000 * n div d"
    define r where "r = 1000 * n mod d"
    have split: "real (1000 * n) = real q * real d + real r"
      by (simp add: q_def r_def of_nat_mult [symmetric] of_nat_add [symmetric] del: of_nat_mult)
    have exact: "100 * real n / real d = (real q + real r / real d) / 10"
      using False split by (simp add: field_simps)
    have rd: "real r < real d" using False by (simp add: r_def)
    show ?thesis
    proof (cases "d < 2 * r \<or> (2 * r = d \<and> odd q)")
      case True
      then have "real d \<le> 2 * real r" by linarith
      with rd False have "\<bar>real (q + 1) - (real q + real r / real d)\<bar> \<le> 1 / 2"
        by (simp add: field_simps abs_if)
      moreover have "pct_tenths n d = q + 1"
        using True by (simp add: pct_tenths_def Let_def q_def r_def)
      ultimately show ?thesis by (simp only: exact abs_tenths)
    next
      case False
      then have "2 * real r \<le> real d" by linarith
      with \<open>d \<noteq> 0\<close> have "\<bar>real q - (real q + real r / real d)\<bar> \<le> 1 / 2"
        by (simp add: field_simps)
      moreover have "pct_tenths n d = q"
        using False by (simp add: pct_tenths_def Let_def q_def r_def)
      ultimately show ?thesis by (simp only: exact abs_tenths)
    qed
  qed
  with w show ?thesis by (auto simp: autopct_label_def Let_def)
qed

theorem plot_pie_labels_witness:
  "\<exists>t. wedge_text (hd (plot_pie [(Positive, 2::nat), (Negative, 1)])) = nat_str (t div 10) @ ''.'' @ nat_str (t mod 10) @ ''%''
       \<and> \<bar>real t / 10 - wedge_pct (hd (plot_pie [(Positive, 2::nat), (Negative, 1)]))\<bar> \<le> 1 / 20"
  by (rule plot_pie_labels [where counts = "[(Positive, 2), (Negative, 1)]"]) (simp add: plot_pie_def Let_def)

text \<open>
  C33: the pie's colours go by rank, not by sentiment: for any non-empty
  series of labels, the first wedge, drawn green, is the label with the
  highest count, whichever label that is (a batch that is mostly Negative
  shows Negative in green).
\<close>

theorem pie_colour_by_rank:
  assumes "xs \<noteq> []"
  shows "wedge_colour (hd (plot_pie (value_counts xs))) = Green
         \<and> (\<forall>v. count_list xs v \<le> count_list xs (wedge_label (hd (plot_pie (value_counts xs)))))"
proof -
  have ne: "value_counts xs \<noteq> []"
    using assms set_value_counts [of xs] by auto
  then have "plot_pie (value_counts xs) \<noteq> []"
    by (metis length_plot_pie length_0_conv)
  then have "hd (plot_pie (value_counts xs)) = plot_pie (value_counts xs) ! 0"
    by (simp add: hd_conv_nth)
  also have "\<dots> = \<lparr>wedge_label = fst (hd (value_counts xs)), wedge_size = snd (hd (value_counts xs)),
            wedge_colour = Green,
            wedge_pct = 100 * real (snd (hd (value_counts xs))) / real (sum_list (map snd (value_counts xs))),
            wedge_text = autopct_label (snd (hd (value_counts xs))) (sum_list (map snd (value_counts xs)))\<rparr>"
    using ne by (simp add: nth_plot_pie hd_conv_nth pie_colours_def)
  finally have "wedge_colour (hd (plot_pie (value_counts xs))) = Green
      \<and> wedge_label (hd (plot_pie (value_counts xs))) = fst (hd (value_counts xs))"
    by simp
  moreover have "count_list xs v \<le> count_list xs (fst (hd (value_counts xs)))" for v
    using value_counts_hd_max [OF assms, of v] by simp
  ultimately show ?thesis by simp
qed

theorem pie_colour_by_rank_witness:
  "[Negative, Negative, Positive] \<noteq> []
   \<and> wedge_colour (hd (plot_pie (value_counts [Negative, Negative, Positive]))) = Green
   \<and> wedge_label (hd (plot_pie (value_counts [Negative, Negative, Positive]))) = Negative"
proof -
  have "wedge_colour (hd (plot_pie (value_counts [Negative, Negative, Positive]))) = Green
         \<and> (\<forall>v. count_list [Negative, Negative, Positive] v
                 \<le> count_list [Negative, Negative, Positive]
                      (wedge_label (hd (plot_pie (value_counts [Negative, Negative, Positive])))))"
    by (rule pie_colour_by_rank) simp
  moreover have "wedge_label (hd (plot_pie (value_counts [Negative, Negative, Positive]))) = Negative"
    by (simp add: value_counts_def plot_pie_def Let_def)
  ultimately show ?thesis by simp
qed

end
