(* ===== verification/Summary.thy ===== *)
theory Summary
  imports PyStr
begin

text \<open>
  The summary generator, \<^verbatim>\<open>generate_gpt_summary\<close> of \<^verbatim>\<open>src/app.py\<close>
  (lines 44--61). The OpenAI client is the interface \<open>chat_client\<close>: a
  request to the service's answer or to the exception the call raises
  (network, authentication, quota). Sending is an effect, so the generator
  threads the log of requests sent so far and appends the one it sends. The
  prompt, the fixed request parameters, the reading of
  \<^verbatim>\<open>response.choices[0].message.content.strip()\<close> (with the
  \<^verbatim>\<open>IndexError\<close> of an empty choice list and the \<^verbatim>\<open>AttributeError\<close> of
  a null content) and the \<^verbatim>\<open>except\<close> that turns every failure into a
  message are modelled as written.
\<close>

section \<open>The service interface\<close>

record chat_request =
  req_model :: pystr
  req_messages :: "(pystr \<times> pystr) list"
  req_temperature :: real
  req_max_tokens :: nat

text \<open>The content of each returned choice; \<open>None\<close> for a null content.\<close>

record chat_response =
  resp_choices :: "pystr option list"

type_synonym chat_client = "chat_request \<Rightarrow> exc_msg + chat_response"

text \<open>\<^verbatim>\<open>client.chat.completions.create\<close>: one call, logged.\<close>

definition chat_completions_create ::
  "chat_client \<Rightarrow> chat_request \<Rightarrow> chat_request list \<Rightarrow> (exc_msg + chat_response) \<times> chat_request list" where
  "chat_completions_create client req sent = (client req, sent @ [req])"

section \<open>The prompt\<close>

definition summary_preamble :: pystr where
  "summary_preamble =
     ''You are a helpful product manager assistant. Summarize the key pain points and positive feedback from these user comments:\<newline>\<newline>''"

definition summary_closing :: pystr where
  "summary_closing = ''\<newline>\<newline>Provide a concise summary.''"

text \<open>\<^verbatim>\<open>feedback_list[:50]\<close>: at most the first 50 items.\<close>

definition summary_prompt :: "pystr list \<Rightarrow> pystr" where
  "summary_prompt feedback_list =
     summary_preamble @ py_join ''\<newline>'' (take 50 feedback_list) @ summary_closing"

definition summary_request :: "pystr \<Rightarrow> chat_request" where
  "summary_request prompt =
     \<lparr>req_model = ''gpt-3.5-turbo'', req_messages = [(''user'', prompt)],
      req_temperature = 0.7, req_max_tokens = 300\<rparr>"

section \<open>The generator\<close>

text \<open>
  The failure text \<^verbatim>\<open>f"\<open>\<times>\<close> Error generating summary: {e}"\<close>. Its first
  character, U+274C CROSS MARK, lies above U+00FF; the model writes it as its
  three UTF-8 bytes, the form in which Streamlit sends it to the page.
\<close>

definition cross_mark :: pystr where
  "cross_mark = [CHR 0xE2, CHR 0x9D, CHR 0x8C]"

definition summary_error :: "exc_msg \<Rightarrow> pystr" where
  "summary_error e = cross_mark @ '' Error generating summary: '' @ e"

text \<open>The messages of the two exceptions the response handling can raise.\<close>

definition index_error_msg :: exc_msg where
  "index_error_msg = ''list index out of range''"

definition none_strip_msg :: exc_msg where
  "none_strip_msg = CHR 0x27 # ''NoneType'' @ CHR 0x27 # '' object has no attribute '' @ CHR 0x27 # ''strip'' @ [CHR 0x27]"

definition generate_gpt_summary ::
  "chat_client \<Rightarrow> pystr list \<Rightarrow> chat_request list \<Rightarrow> pystr \<times> chat_request list" where
  "generate_gpt_summary client feedback_list sent =
     (let prompt = summary_prompt feedback_list;
          (result, sent') = chat_completions_create client (summary_request prompt) sent
      in (case result of
            Inl e \<Rightarrow> summary_error e
          | Inr response \<Rightarrow>
              (case resp_choices response of
                 [] \<Rightarrow> summary_error index_error_msg
               | choice # _ \<Rightarrow>
                   (case choice of
                      None \<Rightarrow> summary_error none_strip_msg
                    | Some content \<Rightarrow> py_strip content)),
          sent'))"

declare generate_gpt_summary_def [pipeline_simps] chat_completions_create_def [pipeline_simps]

section \<open>Lemmas\<close>

text \<open>
  The items a prompt carries: the text between the fixed preamble and the
  fixed closing, split into lines. This is how a reader of the request
  recovers the feedback it was given.
\<close>

definition prompt_items :: "pystr \<Rightarrow> pystr list" where
  "prompt_items prompt =
     splitlines (take (length prompt - length summary_preamble - length summary_closing)
                   (drop (length summary_preamble) prompt))"

lemma prompt_items_summary_prompt_raw:
  "prompt_items (summary_prompt xs) = splitlines (py_join ''\<newline>'' (take 50 xs))"
  by (simp add: prompt_items_def summary_prompt_def)

lemma generate_gpt_summary_sent:
  "snd (generate_gpt_summary client xs sent) = sent @ [summary_request (summary_prompt xs)]"
  by (simp add: generate_gpt_summary_def chat_completions_create_def Let_def split: prod.splits)

lemma generate_gpt_summary_failed_call:
  "client (summary_request (summary_prompt xs)) = Inl e
     \<Longrightarrow> fst (generate_gpt_summary client xs sent) = summary_error e"
  by (simp add: generate_gpt_summary_def chat_completions_create_def)

section \<open>Properties\<close>

text \<open>
  C12: the request carries exactly the first 50 feedback items (all of them
  when there are fewer), in order: reading the items back from the prompt
  gives \<open>take 50\<close> of the input, for items that are non-empty and on one
  line, as the loader's text branches produce them.
\<close>

theorem summary_prompt_items:
  assumes "\<forall>x\<in>set xs. x \<noteq> [] \<and> (\<forall>c\<in>set x. \<not> is_line_break c)"
  shows "prompt_items (summary_prompt xs) = take 50 xs"
proof -
  have "\<forall>x\<in>set (take 50 xs). \<forall>c\<in>set x. \<not> is_line_break c"
    using assms by (auto dest: in_set_takeD)
  moreover have "take 50 xs = [] \<or> last (take 50 xs) \<noteq> []"
    using assms by (metis last_in_set in_set_takeD)
  ultimately show ?thesis
    by (simp add: prompt_items_summary_prompt_raw splitlines_py_join)
qed

theorem summary_prompt_items_witness:
  "prompt_items (summary_prompt (map (\<lambda>i. replicate (Suc i) (CHR ''x'')) [0..<60]))
     = map (\<lambda>i. replicate (Suc i) (CHR ''x'')) [0..<50]"
proof -
  have "\<forall>x\<in>set (map (\<lambda>i. replicate (Suc i) (CHR ''x'')) [0..<60]).
          x \<noteq> [] \<and> (\<forall>c\<in>set x. \<not> is_line_break c)"
    by (auto simp: is_line_break_def)
  from summary_prompt_items [OF this] show ?thesis
    by (simp add: take_map)
qed

end
