(* ===== verification/Csv.thy ===== *)
theory Csv
  imports Aggregate PyStr
begin

text \<open>
  The download artifact of \<^verbatim>\<open>src/app.py\<close> (line 97):
  \<^verbatim>\<open>df.to_csv(index=False).encode('utf-8')\<close>. pandas writes the frame
  through Python's \<^verbatim>\<open>csv.writer\<close> with the default dialect: delimiter
  comma, quote character \<^verbatim>\<open>"\<close>, \<^verbatim>\<open>QUOTE_MINIMAL\<close>, doubled quotes
  inside a quoted field, and the line terminator \<^verbatim>\<open>os.linesep\<close> (LF on
  POSIX). A field is quoted when it holds the delimiter, the quote
  character, LF or CR (CPython 3.12 and later quote CR and LF whatever the
  terminator), and a row made of one empty field is written \<^verbatim>\<open>""\<close>. The
  header row holds the column names, and \<^verbatim>\<open>index=False\<close> leaves out the
  index column. \<^verbatim>\<open>encode('utf-8')\<close> writes each code point below U+0080
  as itself and each code point from U+0080 to U+00FF as two bytes.
\<close>

section \<open>The writer\<close>

definition quote_char :: char where
  "quote_char = CHR 0x22"

definition csv_special :: "char \<Rightarrow> bool" where
  "csv_special c \<longleftrightarrow> c = CHR '','' \<or> c = quote_char \<or> c = CHR ''\<newline>'' \<or> c = CHR 0x0D"

text \<open>Inside a quoted field the quote character is doubled.\<close>

definition csv_escape :: "pystr \<Rightarrow> pystr" where
  "csv_escape field = concat (map (\<lambda>c. if c = quote_char then [quote_char, quote_char] else [c]) field)"

definition csv_quote :: "pystr \<Rightarrow> pystr" where
  "csv_quote field =
     (if list_ex csv_special field then quote_char # csv_escape field @ [quote_char] else field)"

definition csv_writerow :: "pystr list \<Rightarrow> pystr" where
  "csv_writerow row_fields =
     (if row_fields = [[]] then [quote_char, quote_char] else py_join '','' (map csv_quote row_fields))
     @ ''\<newline>''"

definition table_header :: "pystr list" where
  "table_header = [''Feedback'', ''Sentiment'']"

definition table_row :: "pystr \<times> sentiment \<Rightarrow> pystr list" where
  "table_row r = [fst r, sentiment_name (snd r)]"

definition to_csv :: "table \<Rightarrow> pystr" where
  "to_csv df = concat (map csv_writerow (table_header # map table_row df))"

section \<open>Encoding\<close>

type_synonym bytes = string

definition utf8_encode_char :: "char \<Rightarrow> bytes" where
  "utf8_encode_char c =
     (let n = of_char c :: nat in
      if n < 128 then [c] else [char_of (192 + n div 64), char_of (128 + n mod 64)])"

definition utf8_encode :: "pystr \<Rightarrow> bytes" where
  "utf8_encode s = concat (map utf8_encode_char s)"

text \<open>
  \<^verbatim>\<open>bytes.decode('utf-8')\<close> (line 26, and pandas' reading of an upload) over
  the code points the model represents: a byte below 0x80 is itself, a lead
  byte 0xC2 or 0xC3 with a continuation byte is a code point from U+0080 to
  U+00FF. Every other sequence is \<open>None\<close>: a malformed one raises
  \<^verbatim>\<open>UnicodeDecodeError\<close>, and a well-formed one for a higher code point
  lies outside the model's characters.
\<close>

fun utf8_decode :: "bytes \<Rightarrow> pystr option" where
  "utf8_decode [] = Some []"
| "utf8_decode (b # bs) =
     (let n = of_char b :: nat in
      if n < 128 then map_option (Cons b) (utf8_decode bs)
      else if n = 194 \<or> n = 195 then
        (case bs of
           [] \<Rightarrow> None
         | c # cs \<Rightarrow>
             (let m = of_char c :: nat in
              if 128 \<le> m \<and> m < 192
              then map_option (Cons (char_of ((n - 192) * 64 + (m - 128)))) (utf8_decode cs)
              else None))
      else None)"

declare to_csv_def [pipeline_simps] utf8_encode_def [pipeline_simps]

section \<open>Lemmas\<close>

lemma csv_quote_plain: "\<not> list_ex csv_special field \<Longrightarrow> csv_quote field = field"
  by (simp add: csv_quote_def)

lemma csv_quote_quoted:
  "list_ex csv_special field \<Longrightarrow> csv_quote field = quote_char # csv_escape field @ [quote_char]"
  by (simp add: csv_quote_def)

lemma sentiment_name_plain [simp]: "\<not> list_ex csv_special (sentiment_name s)"
  by (cases s) (simp_all add: csv_special_def quote_char_def)

lemma to_csv_Cons:
  "to_csv (r # df) = to_csv [] @ csv_writerow (table_row r) @ concat (map csv_writerow (map table_row df))"
  by (simp add: to_csv_def)

lemma to_csv_Nil: "to_csv [] = ''Feedback,Sentiment\<newline>''"
  by (simp add: to_csv_def csv_writerow_def table_header_def csv_quote_def csv_special_def quote_char_def)

lemma utf8_decode_encode_char:
  "utf8_decode (utf8_encode_char c @ bs) = map_option (Cons c) (utf8_decode bs)"
proof -
  define n where "n = (of_char c :: nat)"
  have n: "n < 256" by (simp add: n_def)
  show ?thesis
  proof (cases "n < 128")
    case True
    then show ?thesis by (simp add: utf8_encode_char_def n_def [symmetric])
  next
    case False
    define b1 :: char where "b1 = char_of (192 + n div 64)"
    define b2 :: char where "b2 = char_of (128 + n mod 64)"
    have enc: "utf8_encode_char c = [b1, b2]"
      using False by (simp add: utf8_encode_char_def n_def [symmetric] b1_def b2_def)
    have hi: "of_char b1 = (192 + n div 64 :: nat)"
      using n by (simp add: b1_def)
    have lo: "of_char b2 = (128 + n mod 64 :: nat)"
      by (simp add: b2_def)
    have d: "n div 64 = 2 \<or> n div 64 = 3" using False n by linarith
    have c: "char_of n = c"
      by (simp add: n_def)
    show ?thesis
      using d by (simp add: enc hi lo c)
  qed
qed

lemma utf8_decode_encode: "utf8_decode (utf8_encode s) = Some s"
  by (induction s) (simp_all add: utf8_encode_def utf8_decode_encode_char [where bs = "concat _", simplified])

end
