(* ===== verification/App.thy ===== *)
theory App
  imports Loader Aggregate Summary Csv
begin

text \<open>
  The script of \<^verbatim>\<open>src/app.py\<close> as Streamlit runs it: the client set-up
  (lines 9--10), then, when the Analyze button was clicked, the handler of
  lines 64--103. The page is the list of elements the run writes, in order,
  and the log of requests sent to the summarisation service; both are
  explicit state, threaded through the handler. The page configuration, the
  title and the widgets (lines 12--17 and 64) are the elements every run
  with a client draws first; the spinner and the chart's y-label carry no
  data and are left out, and a title, a widget or a heading is named by its
  role rather than by its decorated text. \<^verbatim>\<open>st.stop()\<close> ends the run: the outcome \<open>Stopped\<close>.
  An exception the script does not catch ends it too: the outcome
  \<open>Crashed\<close> with that exception.
\<close>

section \<open>Page and outcome\<close>

datatype heading = DistributionHeading | TableHeading | SummaryHeading

datatype element =
    PageConfig pystr pystr
  | Title
  | FileUploader "pystr list"
  | TextArea
  | Button
  | EmptyInputError
  | Subheader heading
  | Pyplot "sentiment wedge list"
  | Dataframe table
  | Markdown pystr
  | DownloadButton bytes pystr pystr

record page =
  shown :: "element list"
  sent :: "chat_request list"

definition empty_page :: page where
  "empty_page = \<lparr>shown = [], sent = []\<rparr>"

text \<open>
  \<^verbatim>\<open>st.set_page_config\<close>, \<^verbatim>\<open>st.title\<close>, \<^verbatim>\<open>st.file_uploader\<close> (for
  the extensions \<^verbatim>\<open>csv\<close> and \<^verbatim>\<open>txt\<close>), \<^verbatim>\<open>st.text_area\<close> and
  \<^verbatim>\<open>st.button\<close>: the page before the handler writes anything.
\<close>

definition page_chrome :: "element list" where
  "page_chrome =
     [PageConfig ''Product Feedback Analyzer'' ''wide'', Title, FileUploader [''csv'', ''txt''],
      TextArea, Button]"

definition chrome_page :: page where
  "chrome_page = \<lparr>shown = page_chrome, sent = []\<rparr>"

datatype run_error =
    LoadFailed load_error
  | FrameFailed exc_msg
  | ClientInitFailed exc_msg

datatype outcome = Completed | Stopped | Crashed run_error

section \<open>The Analyze handler\<close>

definition analyze_feedback ::
  "scorer \<Rightarrow> chat_client \<Rightarrow> csv_reader \<Rightarrow> uploaded_file option \<Rightarrow> pystr \<Rightarrow> page \<Rightarrow> outcome \<times> page" where
  "analyze_feedback polarity_of client read_csv upload_file text_input pg =
     (case load_feedback read_csv upload_file text_input of
        Inl e \<Rightarrow> (Crashed (LoadFailed e), pg)
      | Inr feedbacks \<Rightarrow>
          (if feedbacks = [] then (Stopped, pg\<lparr>shown := shown pg @ [EmptyInputError]\<rparr>)
           else
             (let sentiments = map (analyze_sentiment polarity_of) feedbacks in
              case make_dataframe feedbacks sentiments of
                Inl e \<Rightarrow> (Crashed (FrameFailed e), pg)
              | Inr df \<Rightarrow>
                  (let chart = plot_pie (value_counts (map snd df));
                       pg1 = pg\<lparr>shown := shown pg @
                               [Subheader DistributionHeading, Pyplot chart,
                                Subheader TableHeading, Dataframe df,
                                Subheader SummaryHeading]\<rparr>;
                       (summary, sent1) = generate_gpt_summary client feedbacks (sent pg1);
                       pg2 = pg1\<lparr>shown := shown pg1 @ [Markdown summary], sent := sent1\<rparr>;
                       csv = utf8_encode (to_csv df)
                   in (Completed,
                       pg2\<lparr>shown := shown pg2 @
                             [DownloadButton csv ''analyzed_feedback.csv'' ''text/csv'']\<rparr>)))))"

section \<open>Set-up and the whole script\<close>

text \<open>
  \<^verbatim>\<open>os.getenv("API_KEY")\<close> and \<^verbatim>\<open>OpenAI(api_key=...)\<close>: the client falls
  back to \<^verbatim>\<open>OPENAI_API_KEY\<close> when given \<^verbatim>\<open>None\<close>, and its constructor
  raises \<^verbatim>\<open>OpenAIError\<close> when neither is set. The service is the interface
  \<open>chat_api\<close>: the key the client sends to the answers it gets.
\<close>

type_synonym environ = "pystr \<Rightarrow> pystr option"

type_synonym chat_api = "pystr \<Rightarrow> chat_client"

definition missing_key_msg :: exc_msg where
  "missing_key_msg =
     ''The api_key client option must be set either by passing api_key to the client or by setting the OPENAI_API_KEY environment variable''"

definition openai_client :: "environ \<Rightarrow> exc_msg + pystr" where
  "openai_client env =
     (case env ''API_KEY'' of
        Some key \<Rightarrow> Inr key
      | None \<Rightarrow> (case env ''OPENAI_API_KEY'' of Some key \<Rightarrow> Inr key | None \<Rightarrow> Inl missing_key_msg))"

text \<open>The widgets' values in one run: the upload, the pasted text, the button.\<close>

record widgets =
  upload :: "uploaded_file option"
  pasted :: pystr
  clicked :: bool

definition script_run ::
  "environ \<Rightarrow> chat_api \<Rightarrow> scorer \<Rightarrow> csv_reader \<Rightarrow> widgets \<Rightarrow> outcome \<times> page" where
  "script_run env api polarity_of read_csv w =
     (case openai_client env of
        Inl e \<Rightarrow> (Crashed (ClientInitFailed e), empty_page)
      | Inr key \<Rightarrow>
          (if clicked w
           then analyze_feedback polarity_of (api key) read_csv (upload w) (pasted w) chrome_page
           else (Completed, chrome_page)))"

declare analyze_feedback_def [pipeline_simps] script_run_def [pipeline_simps]

text \<open>What a page shows, by kind of element, in order.\<close>

definition tables_of :: "element list \<Rightarrow> table list" where
  "tables_of es = [df. Dataframe df \<leftarrow> es]"

definition charts_of :: "element list \<Rightarrow> sentiment wedge list list" where
  "charts_of es = [ws. Pyplot ws \<leftarrow> es]"

definition summaries_of :: "element list \<Rightarrow> pystr list" where
  "summaries_of es = [s. Markdown s \<leftarrow> es]"

definition downloads_of :: "element list \<Rightarrow> bytes list" where
  "downloads_of es = [d. DownloadButton d _ _ \<leftarrow> es]"

text \<open>
  The kind of an element: what it is, without the data it shows.
\<close>

datatype element_kind =
    KPageConfig | KTitle | KFileUploader | KTextArea | KButton | KEmptyInputError
  | KSubheader heading | KPyplot | KDataframe | KMarkdown | KDownloadButton pystr pystr

fun kind_of :: "element \<Rightarrow> element_kind" where
  "kind_of (PageConfig _ _) = KPageConfig"
| "kind_of Title = KTitle"
| "kind_of (FileUploader _) = KFileUploader"
| "kind_of TextArea = KTextArea"
| "kind_of Button = KButton"
| "kind_of EmptyInputError = KEmptyInputError"
| "kind_of (Subheader h) = KSubheader h"
| "kind_of (Pyplot _) = KPyplot"
| "kind_of (Dataframe _) = KDataframe"
| "kind_of (Markdown _) = KMarkdown"
| "kind_of (DownloadButton _ name mime) = KDownloadButton name mime"

text \<open>
  The layouts a run can leave, the spec's "each rendered once per run": no
  page (the client could not be created), the page before the handler, with
  the empty-input error, or with the seven elements of a completed analysis
  in the script's order.
\<close>

definition analysis_kinds :: "element_kind list" where
  "analysis_kinds =
     [KSubheader DistributionHeading, KPyplot, KSubheader TableHeading, KDataframe,
      KSubheader SummaryHeading, KMarkdown, KDownloadButton ''analyzed_feedback.csv'' ''text/csv'']"

definition page_layout :: "element list \<Rightarrow> bool" where
  "page_layout es \<longleftrightarrow>
     es = [] \<or> (take (length page_chrome) es = page_chrome
                \<and> map kind_of (drop (length page_chrome) es) \<in> {[], [KEmptyInputError], analysis_kinds})"

section \<open>Lemmas\<close>

lemma empty_page_parts [simp]: "shown empty_page = []" "sent empty_page = []"
  by (simp_all add: empty_page_def)

lemma chrome_page_parts [simp]: "shown chrome_page = page_chrome" "sent chrome_page = []"
  by (simp_all add: chrome_page_def)

lemma observers_Nil [simp]:
  "tables_of [] = []" "charts_of [] = []" "summaries_of [] = []" "downloads_of [] = []"
  by (simp_all add: tables_of_def charts_of_def summaries_of_def downloads_of_def)

lemma page_chrome_parts [simp]:
  "tables_of page_chrome = []" "charts_of page_chrome = []"
  "summaries_of page_chrome = []" "downloads_of page_chrome = []"
  by (simp_all add: page_chrome_def tables_of_def charts_of_def summaries_of_def downloads_of_def)

text \<open>The page of a completed run, and the request it sends, spelled out.\<close>

definition analyzed_page :: "scorer \<Rightarrow> chat_client \<Rightarrow> pystr list \<Rightarrow> page \<Rightarrow> page" where
  "analyzed_page polarity_of client fbs pg =
     (let df = zip fbs (map (analyze_sentiment polarity_of) fbs) in
      pg\<lparr>shown := shown pg @
         [Subheader DistributionHeading,
          Pyplot (plot_pie (value_counts (map (analyze_sentiment polarity_of) fbs))),
          Subheader TableHeading, Dataframe df, Subheader SummaryHeading,
          Markdown (fst (generate_gpt_summary client fbs (sent pg))),
          DownloadButton (utf8_encode (to_csv df)) ''analyzed_feedback.csv'' ''text/csv''],
       sent := sent pg @ [summary_request (summary_prompt fbs)]\<rparr>)"

lemma analyze_feedback_nonempty:
  assumes "load_feedback rd up t = Inr fbs" and "fbs \<noteq> []"
  shows "analyze_feedback sc client rd up t pg = (Completed, analyzed_page sc client fbs pg)"
proof -
  obtain summary sent1 where g: "generate_gpt_summary client fbs (sent pg) = (summary, sent1)"
    by fastforce
  have "sent1 = sent pg @ [summary_request (summary_prompt fbs)]"
    using generate_gpt_summary_sent [of client fbs "sent pg"] g by simp
  with assms g show ?thesis
    by (simp add: analyze_feedback_def analyzed_page_def make_dataframe_def Let_def)
qed

lemma analyzed_page_parts:
  "tables_of (shown (analyzed_page sc client fbs pg))
     = tables_of (shown pg) @ [zip fbs (map (analyze_sentiment sc) fbs)]"
  "charts_of (shown (analyzed_page sc client fbs pg))
     = charts_of (shown pg) @ [plot_pie (value_counts (map (analyze_sentiment sc) fbs))]"
  "summaries_of (shown (analyzed_page sc client fbs pg))
     = summaries_of (shown pg) @ [fst (generate_gpt_summary client fbs (sent pg))]"
  "downloads_of (shown (analyzed_page sc client fbs pg))
     = downloads_of (shown pg) @ [utf8_encode (to_csv (zip fbs (map (analyze_sentiment sc) fbs)))]"
  "sent (analyzed_page sc client fbs pg) = sent pg @ [summary_request (summary_prompt fbs)]"
  by (simp_all add: analyzed_page_def tables_of_def charts_of_def summaries_of_def downloads_of_def Let_def)

lemma analyze_feedback_layout:
  "page_layout (shown (snd (analyze_feedback sc client rd up t chrome_page)))"
proof (cases "load_feedback rd up t")
  case (Inl e)
  then show ?thesis by (simp add: analyze_feedback_def page_layout_def)
next
  case (Inr fbs)
  show ?thesis
  proof (cases "fbs = []")
    case True
    with Inr show ?thesis by (simp add: analyze_feedback_def page_layout_def)
  next
    case False
    from analyze_feedback_nonempty [OF Inr False] show ?thesis
      by (simp add: analyzed_page_def page_layout_def analysis_kinds_def Let_def)
  qed
qed

lemma script_run_layout: "page_layout (shown (snd (script_run env api sc rd w)))"
  using analyze_feedback_layout [of sc _ rd "upload w" "pasted w"]
  by (auto simp: script_run_def page_layout_def split: sum.split)

section \<open>Properties\<close>

text \<open>
  C2: when the loader yields no items, the run stops with the error message
  as its only new element: no chart, table, summary or download, and no
  request to the service.
\<close>

theorem analyze_feedback_empty:
  assumes "load_feedback rd up t = Inr []"
  shows "analyze_feedback sc client rd up t pg = (Stopped, pg\<lparr>shown := shown pg @ [EmptyInputError]\<rparr>)"
  using assms by (simp add: analyze_feedback_def)

theorem analyze_feedback_empty_witness:
  "analyze_feedback (\<lambda>_. 0) (\<lambda>_. Inl ''timeout'') (\<lambda>_. Inl '''') None ''  \<newline>\<newline> '' empty_page
     = (Stopped, empty_page\<lparr>shown := [EmptyInputError]\<rparr>)"
proof -
  have "load_feedback (\<lambda>_. Inl '''') None ''  \<newline>\<newline> '' = Inr []"
    by (simp add: nonblank_lines_def py_strip_def is_py_space_def pystr_simps is_line_break_def)
  from analyze_feedback_empty [OF this] show ?thesis
    by (simp add: empty_page_def)
qed

text \<open>
  C1: a run on a non-empty batch completes and shows one table, whose rows
  are the loaded items in their order, each with its own label: one record
  per item.
\<close>

theorem analyze_feedback_records:
  assumes "load_feedback rd up t = Inr fbs" and "fbs \<noteq> []"
    and "analyze_feedback sc client rd up t pg = (out, pg')"
  shows "out = Completed
         \<and> (\<exists>df. tables_of (shown pg') = tables_of (shown pg) @ [df]
                 \<and> map fst df = fbs \<and> map snd df = map (analyze_sentiment sc) fbs)"
  using assms analyze_feedback_nonempty [OF assms(1,2)] by (auto simp: analyzed_page_parts)

theorem analyze_feedback_records_witness:
  "fst (analyze_feedback (\<lambda>_. 0) (\<lambda>_. Inl ''timeout'') (\<lambda>_. Inl '''') None ''Great\<newline>Bad'' empty_page) = Completed
   \<and> (\<exists>df. tables_of (shown (snd (analyze_feedback (\<lambda>_. 0) (\<lambda>_. Inl ''timeout'') (\<lambda>_. Inl '''') None
                                         ''Great\<newline>Bad'' empty_page))) = [df]
           \<and> map fst df = [''Great'', ''Bad''] \<and> map snd df = [Neutral, Neutral])"
proof -
  have load: "load_feedback (\<lambda>_. Inl '''') None ''Great\<newline>Bad'' = Inr [''Great'', ''Bad'']"
    by (simp add: nonblank_lines_def py_strip_def is_py_space_def pystr_simps is_line_break_def)
  show ?thesis
    using analyze_feedback_records [OF load _ prod.collapse [symmetric],
        where sc = "\<lambda>_. 0" and client = "\<lambda>_. Inl ''timeout''" and pg = empty_page]
    by (simp add: empty_page_def tables_of_def analyze_sentiment_def)
qed

text \<open>
  C14: a completed run sends exactly one request to the service, built from
  the prompt of the loaded items.
\<close>

theorem analyze_feedback_one_request:
  assumes "load_feedback rd up t = Inr fbs" and "fbs \<noteq> []"
  shows "sent (snd (analyze_feedback sc client rd up t pg))
           = sent pg @ [summary_request (summary_prompt fbs)]"
  using analyze_feedback_nonempty [OF assms] by (simp add: analyzed_page_parts)

theorem analyze_feedback_one_request_witness:
  "sent (snd (analyze_feedback (\<lambda>_. 0) (\<lambda>_. Inl ''timeout'') (\<lambda>_. Inl '''') None ''Great'' empty_page))
     = [summary_request (summary_prompt [''Great''])]"
proof -
  have load: "load_feedback (\<lambda>_. Inl '''') None ''Great'' = Inr [''Great'']"
    by (simp add: nonblank_lines_def py_strip_def is_py_space_def pystr_simps is_line_break_def)
  show ?thesis
    using analyze_feedback_one_request [OF load, where sc = "\<lambda>_. 0" and client = "\<lambda>_. Inl ''timeout''"
        and pg = empty_page]
    by (simp add: empty_page_def)
qed

text \<open>
  C13: a failed call to the service does not abort the run: the chart, the
  table and the download are shown as on success, and the summary shown is
  the failure marker followed by the error.
\<close>

theorem analyze_feedback_service_failure:
  assumes "load_feedback rd up t = Inr fbs" and "fbs \<noteq> []"
    and "client (summary_request (summary_prompt fbs)) = Inl e"
    and "analyze_feedback sc client rd up t pg = (out, pg')"
  shows "out = Completed
         \<and> charts_of (shown pg') = charts_of (shown pg) @ [plot_pie (value_counts (map (analyze_sentiment sc) fbs))]
         \<and> tables_of (shown pg') = tables_of (shown pg) @ [zip fbs (map (analyze_sentiment sc) fbs)]
         \<and> downloads_of (shown pg') = downloads_of (shown pg) @ [utf8_encode (to_csv (zip fbs (map (analyze_sentiment sc) fbs)))]
         \<and> summaries_of (shown pg') = summaries_of (shown pg) @ [summary_error e]"
proof -
  have "fst (generate_gpt_summary client fbs (sent pg)) = summary_error e"
    using assms(3) by (rule generate_gpt_summary_failed_call)
  with assms(4) analyze_feedback_nonempty [OF assms(1,2)] show ?thesis
    by (auto simp: analyzed_page_parts)
qed

theorem analyze_feedback_service_failure_witness:
  "summaries_of (shown (snd (analyze_feedback (\<lambda>_. 0) (\<lambda>_. Inl ''timeout'') (\<lambda>_. Inl '''') None ''Great'' empty_page)))
     = [summary_error ''timeout'']"
proof -
  have load: "load_feedback (\<lambda>_. Inl '''') None ''Great'' = Inr [''Great'']"
    by (simp add: nonblank_lines_def py_strip_def is_py_space_def pystr_simps is_line_break_def)
  show ?thesis
    using analyze_feedback_service_failure [OF load _ _ prod.collapse [symmetric],
        where sc = "\<lambda>_. 0" and client = "\<lambda>_. Inl ''timeout''" and pg = empty_page and e = "''timeout''"]
    by (simp add: empty_page_def summaries_of_def)
qed

text \<open>
  C31: with neither \<^verbatim>\<open>API_KEY\<close> nor \<^verbatim>\<open>OPENAI_API_KEY\<close> set, every run of
  the script fails in the client's constructor, before any element is shown
  or any input is read.
\<close>

theorem script_run_missing_key:
  assumes "env ''API_KEY'' = None" and "env ''OPENAI_API_KEY'' = None"
  shows "script_run env api sc rd w = (Crashed (ClientInitFailed missing_key_msg), empty_page)"
  using assms by (simp add: script_run_def openai_client_def)

theorem script_run_missing_key_witness:
  "script_run (\<lambda>_. None) (\<lambda>_ _. Inl ''timeout'') (\<lambda>_. 0) (\<lambda>_. Inl '''') \<lparr>upload = None, pasted = ''Great product!'', clicked = True\<rparr>
     = (Crashed (ClientInitFailed missing_key_msg), empty_page)"
  by (rule script_run_missing_key) simp_all

end
