(* ===== verification/PandasInfer.thy ===== *)
theory PandasInfer
  imports Loader
begin

text \<open>
  The dtype inference of pandas' C parser (\<^verbatim>\<open>parsers.pyx\<close>,
  \<^verbatim>\<open>TextReader._convert_tokens\<close>), which \<^verbatim>\<open>pd.read_csv\<close> (line 23 of
  \<^verbatim>\<open>src/app.py\<close>) applies to each column: the column's words are tried as
  int64 (\<^verbatim>\<open>str_to_int64\<close>), then uint64, then float64
  (\<^verbatim>\<open>precise_xstrtod\<close> and the infinity words), then bool (the true and false
  words, any case), and otherwise kept as strings (object). The default NA
  words are missing values in every dtype; an int64 column with a missing
  value is upcast to float64 (\<^verbatim>\<open>_maybe_upcast\<close>).

  A float64 value is kept as the exact decimal of its word
  (\<open>pyfloat\<close>), not rounded to a double; the upcast column likewise
  reads the word as a decimal where pandas rounds the int64 to the nearest
  double. The two agree while the value is exactly a double, which is why
  the lemmas on whole numbers in a float64 column ask for at most 15
  digits (below \<open>10^15 < 2^53\<close>).
\<close>

section \<open>Words\<close>

text \<open>pandas' default NA strings (\<^verbatim>\<open>STR_NA_VALUES\<close>).\<close>

definition na_tokens :: "pystr list" where
  "na_tokens =
     [''-1.#IND'', ''1.#QNAN'', ''1.#IND'', ''-1.#QNAN'', ''#N/A N/A'', ''#N/A'', ''N/A'',
      ''n/a'', ''NA'', ''<NA>'', ''#NA'', ''NULL'', ''null'', ''NaN'', ''-NaN'', ''nan'',
      ''-nan'', ''None'', '''']"

text \<open>C's \<^verbatim>\<open>isspace_ascii\<close> and \<^verbatim>\<open>isdigit_ascii\<close>.\<close>

definition is_c_space :: "char \<Rightarrow> bool" where
  "is_c_space c = (let n = of_char c :: nat in n = 32 \<or> (9 \<le> n \<and> n \<le> 13))"

definition is_c_digit :: "char \<Rightarrow> bool" where
  "is_c_digit c = (let n = of_char c :: nat in 48 \<le> n \<and> n \<le> 57)"

definition digits_val :: "pystr \<Rightarrow> nat" where
  "digits_val ds = foldl (\<lambda>n c. 10 * n + (of_char c - 48)) 0 ds"

text \<open>An optional sign: whether it is a minus, and the text after it.\<close>

definition take_sign :: "pystr \<Rightarrow> bool \<times> pystr" where
  "take_sign p =
     (case p of c # r \<Rightarrow> (if c = CHR ''-'' then (True, r) else if c = CHR ''+'' then (False, r) else (False, p))
      | [] \<Rightarrow> (False, []))"

text \<open>
  \<^verbatim>\<open>str_to_int64\<close> without its range check: blanks, a sign, at least one
  digit, blanks, and nothing else.
\<close>

definition str_to_int :: "pystr \<Rightarrow> int option" where
  "str_to_int w =
     (let (neg, p) = take_sign (dropWhile is_c_space w);
          ds = takeWhile is_c_digit p
      in if ds = [] \<or> \<not> list_all is_c_space (dropWhile is_c_digit p) then None
         else Some ((if neg then -1 else 1) * int (digits_val ds)))"

text \<open>
  \<^verbatim>\<open>precise_xstrtod\<close>: blanks, a sign, digits with an optional decimal point
  (at least one digit in all), an optional exponent (\<^verbatim>\<open>e\<close> or \<^verbatim>\<open>E\<close>, a sign,
  at least one digit), blanks; then the words \<^verbatim>\<open>inf\<close>, \<^verbatim>\<open>+inf\<close>,
  \<^verbatim>\<open>-inf\<close>, \<^verbatim>\<open>Infinity\<close>, \<^verbatim>\<open>+Infinity\<close>, \<^verbatim>\<open>-Infinity\<close> in any case.
\<close>

definition ascii_lower :: "char \<Rightarrow> char" where
  "ascii_lower c =
     (case map_of (zip ''ABCDEFGHIJKLMNOPQRSTUVWXYZ'' ''abcdefghijklmnopqrstuvwxyz'') c of Some l \<Rightarrow> l | None \<Rightarrow> c)"

definition str_to_decimal :: "pystr \<Rightarrow> pyfloat option" where
  "str_to_decimal w =
     (let (neg, p) = take_sign (dropWhile is_c_space w);
          ip = takeWhile is_c_digit p; r1 = dropWhile is_c_digit p;
          (fp, r2) = (case r1 of c # r \<Rightarrow> if c = CHR ''.'' then (takeWhile is_c_digit r, dropWhile is_c_digit r) else ([], r1)
                      | [] \<Rightarrow> ([], []));
          (ex, r3) = (case r2 of
                        c # r \<Rightarrow>
                          if c = CHR ''e'' \<or> c = CHR ''E'' then
                            (let (eneg, q) = take_sign r; eds = takeWhile is_c_digit q
                             in if eds = [] then (0, r2)
                                else ((if eneg then -1 else 1) * int (digits_val eds), dropWhile is_c_digit q))
                          else (0, r2)
                      | [] \<Rightarrow> (0, []))
      in if ip @ fp = [] \<or> \<not> list_all is_c_space r3 then None
         else Some (FNum neg (digits_val (ip @ fp)) (ex - int (length fp))))"

definition str_to_float :: "pystr \<Rightarrow> pyfloat option" where
  "str_to_float w =
     (case str_to_decimal w of
        Some x \<Rightarrow> Some x
      | None \<Rightarrow>
          (let l = map ascii_lower w in
           if l \<in> {''inf'', ''+inf'', ''infinity'', ''+infinity''} then Some (FInf False)
           else if l \<in> {''-inf'', ''-infinity''} then Some (FInf True) else None))"

text \<open>The true and false words, \<^verbatim>\<open>True\<close>, \<^verbatim>\<open>TRUE\<close>, \<^verbatim>\<open>true\<close> and \<^verbatim>\<open>to_boolean\<close>'s any case.\<close>

definition str_to_bool :: "pystr \<Rightarrow> bool option" where
  "str_to_bool w =
     (let l = map ascii_lower w in if l = ''true'' then Some True else if l = ''false'' then Some False else None)"

section \<open>Columns\<close>

datatype col_dtype = Int64Col | UInt64Col | Float64Col | BoolCol | ObjectCol

definition int64_word :: "pystr \<Rightarrow> bool" where
  "int64_word w = (case str_to_int w of Some i \<Rightarrow> - (2 ^ 63) \<le> i \<and> i < 2 ^ 63 | None \<Rightarrow> False)"

text \<open>\<^verbatim>\<open>str_to_uint64\<close>: no minus sign, and below \<open>2^64\<close>.\<close>

definition uint64_word :: "pystr \<Rightarrow> bool" where
  "uint64_word w =
     (case str_to_int w of
        Some i \<Rightarrow> i < 2 ^ 64 \<and> \<not> fst (take_sign (dropWhile is_c_space w))
      | None \<Rightarrow> False)"

text \<open>
  The dtype of a column from its words: the first of int64, uint64,
  float64, bool that every non-missing word parses as, else object. A
  missing value turns int64 into float64, and rules out uint64.
\<close>

definition infer_dtype :: "pystr list \<Rightarrow> col_dtype" where
  "infer_dtype ws =
     (let vs = filter (\<lambda>w. w \<notin> set na_tokens) ws; has_na = (length vs \<noteq> length ws) in
      if list_all int64_word vs then (if has_na then Float64Col else Int64Col)
      else if \<not> has_na \<and> list_all uint64_word vs then UInt64Col
      else if list_all (\<lambda>w. str_to_float w \<noteq> None) vs then Float64Col
      else if list_all (\<lambda>w. str_to_bool w \<noteq> None) vs then BoolCol
      else ObjectCol)"

text \<open>A word as a cell of a column of the given dtype.\<close>

definition convert_word :: "col_dtype \<Rightarrow> pystr \<Rightarrow> cell" where
  "convert_word ty w =
     (if w \<in> set na_tokens then NaN
      else (case ty of
              Int64Col \<Rightarrow> (case str_to_int w of Some i \<Rightarrow> IntVal i | None \<Rightarrow> Str w)
            | UInt64Col \<Rightarrow> (case str_to_int w of Some i \<Rightarrow> IntVal i | None \<Rightarrow> Str w)
            | Float64Col \<Rightarrow> (case str_to_float w of Some x \<Rightarrow> FloatVal x | None \<Rightarrow> Str w)
            | BoolCol \<Rightarrow> (case str_to_bool w of Some b \<Rightarrow> BoolVal b | None \<Rightarrow> Str w)
            | ObjectCol \<Rightarrow> Str w))"

text \<open>A word pandas keeps as text: not missing, not a number, not a boolean.\<close>

definition text_word :: "pystr \<Rightarrow> bool" where
  "text_word w \<longleftrightarrow> w \<notin> set na_tokens \<and> str_to_float w = None \<and> str_to_bool w = None"

text \<open>The columns of the data lines, each converted to its inferred dtype.\<close>

definition convert_rows :: "pystr list list \<Rightarrow> cell list list" where
  "convert_rows rows =
     (let tys = map infer_dtype (transpose rows)
      in map (\<lambda>r. map (\<lambda>(ty, w). convert_word ty w) (zip tys r)) rows)"

section \<open>Lemmas\<close>

lemma space_not_special [simp]:
  "is_c_space c \<Longrightarrow> c \<noteq> CHR ''.''" "is_c_space c \<Longrightarrow> c \<noteq> CHR ''e''" "is_c_space c \<Longrightarrow> c \<noteq> CHR ''E''"
  by (auto simp: is_c_space_def)

text \<open>An integer word is read by the float parser as the same integer, with its sign.\<close>

lemma str_to_int_decimal:
  assumes "str_to_int w = Some i"
  shows "str_to_decimal w = Some (FNum (fst (take_sign (dropWhile is_c_space w))) (nat \<bar>i\<bar>) 0)"
proof -
  obtain neg p where sp: "take_sign (dropWhile is_c_space w) = (neg, p)" by fastforce
  let ?ds = "takeWhile is_c_digit p" and ?r = "dropWhile is_c_digit p"
  have ds: "?ds \<noteq> []" and r: "list_all is_c_space ?r"
    and i: "i = (if neg then -1 else 1) * int (digits_val ?ds)"
    using assms by (auto simp: str_to_int_def sp Let_def split: if_splits)
  have "str_to_decimal w = Some (FNum neg (digits_val ?ds) 0)"
  proof (cases ?r)
    case Nil
    then show ?thesis using ds by (simp add: str_to_decimal_def sp Let_def Nil del: dropWhile_eq_Nil_conv)
  next
    case (Cons c r')
    with r have "is_c_space c" "list_all is_c_space r'" by simp_all
    with Cons ds show ?thesis by (simp add: str_to_decimal_def sp Let_def)
  qed
  then show ?thesis using i sp by (simp add: abs_mult)
qed

lemma str_to_int_float: "str_to_int w \<noteq> None \<Longrightarrow> str_to_float w \<noteq> None"
  using str_to_int_decimal by (fastforce simp: str_to_float_def)

lemma int64_word_float: "int64_word w \<Longrightarrow> str_to_float w \<noteq> None"
  and uint64_word_float: "uint64_word w \<Longrightarrow> str_to_float w \<noteq> None"
  using str_to_int_float by (auto simp: int64_word_def uint64_word_def split: option.splits)

text \<open>A column with one text word is of object dtype: its words are kept, the NA words missing.\<close>

lemma infer_dtype_object:
  assumes "\<exists>w\<in>set ws. text_word w"
  shows "infer_dtype ws = ObjectCol"
proof -
  obtain w where w: "w \<in> set ws" "text_word w" using assms by blast
  then have v: "w \<in> set (filter (\<lambda>w. w \<notin> set na_tokens) ws)" by (simp add: text_word_def)
  have "\<not> int64_word w" "\<not> uint64_word w" "str_to_float w = None" "str_to_bool w = None"
    using w(2) int64_word_float [of w] uint64_word_float [of w] by (auto simp: text_word_def)
  with v show ?thesis
    by (auto simp: infer_dtype_def Let_def list_all_iff)
qed

lemma convert_word_object: "convert_word ObjectCol w = (if w \<in> set na_tokens then NaN else Str w)"
  by (simp add: convert_word_def)

text \<open>Conversion keeps each row's length, and works column by column.\<close>

lemma convert_rows_lengths: "map length (convert_rows rows) = map length rows"
  by (auto simp: convert_rows_def Let_def length_le_transpose min_absorb2)

lemma convert_rows_singletons:
  "convert_rows (map (\<lambda>x. [x]) xs) = map (\<lambda>x. [convert_word (infer_dtype xs) x]) xs"
  by (simp add: convert_rows_def transpose_singletons)

lemma convert_rows_pairs:
  "convert_rows (map (\<lambda>x. [f x, g x]) xs)
     = map (\<lambda>x. [convert_word (infer_dtype (map f xs)) (f x), convert_word (infer_dtype (map g xs)) (g x)]) xs"
  by (simp add: convert_rows_def transpose_pairs)

text \<open>The digits \<open>str()\<close> prints are read back as the number.\<close>

lemma of_char_digit: "d < 10 \<Longrightarrow> of_char (''0123456789'' ! d) = 48 + d"
  by (auto simp: less_Suc_eq numeral_eq_Suc)
lemma digits_val_snoc: "digits_val (xs @ [c]) = 10 * digits_val xs + (of_char c - 48)"
  by (simp add: digits_val_def)
lemma nat_str_digits: "list_all is_c_digit (nat_str n)"
proof (induction n rule: nat_str.induct)
  case (1 n)
  have "is_c_digit (''0123456789'' ! (n mod 10))"
    using of_char_digit [of "n mod 10"] by (simp add: is_c_digit_def)
  with 1 show ?case by (auto simp: nat_str_digit_list [of n])
qed
lemma digits_val_nat_str: "digits_val (nat_str n) = n"
proof (induction n rule: nat_str.induct)
  case (1 n)
  show ?case
  proof (cases "n < 10")
    case True
    then show ?thesis using of_char_digit [of n] by (simp add: nat_str.simps [of n] digits_val_def)
  next
    case False
    then show ?thesis using 1 of_char_digit [of "n mod 10"]
      by (simp add: nat_str_digit_list [of n] digits_val_snoc)
  qed
qed
text \<open>A word of digits only is read as that whole number, by the integer and the float parser.\<close>

lemma digits_words:
  assumes "x \<noteq> []" and "list_all is_c_digit x"
  shows "str_to_int x = Some (int (digits_val x))" "str_to_float x = Some (FNum False (digits_val x) 0)"
proof -
  obtain c r where x: "x = c # r" using assms(1) by (cases x) auto
  have c: "\<not> is_c_space c" "c \<noteq> CHR ''-''" "c \<noteq> CHR ''+''"
    using assms(2) x by (auto simp: is_c_digit_def is_c_space_def Let_def)
  have s: "dropWhile is_c_space x = x" "take_sign x = (False, x)"
    using c x by (simp_all add: take_sign_def)
  have d: "takeWhile is_c_digit x = x" "dropWhile is_c_digit x = []"
    using assms(2) by (simp_all add: list_all_iff)
  show i: "str_to_int x = Some (int (digits_val x))"
    using assms(1) by (simp add: str_to_int_def s d)
  show "str_to_float x = Some (FNum False (digits_val x) 0)"
    using str_to_int_decimal [OF i] by (simp add: str_to_float_def s)
qed

lemma digits_val_less: "list_all is_c_digit x \<Longrightarrow> digits_val x < 10 ^ length x"
proof (induction x rule: rev_induct)
  case (snoc c x)
  then have "of_char c - 48 < (10::nat)" "digits_val x < 10 ^ length x"
    by (auto simp: is_c_digit_def Let_def)
  then show ?case by (simp add: digits_val_snoc)
qed (simp add: digits_val_def)

lemma int64_word_not_na: "int64_word x \<Longrightarrow> x \<notin> set na_tokens"
  by (auto simp: na_tokens_def int64_word_def str_to_int_def take_sign_def is_c_space_def is_c_digit_def)

lemma ascii_lower_tf:
  "ascii_lower c = CHR ''t'' \<Longrightarrow> c = CHR ''t'' \<or> c = CHR ''T''"
  "ascii_lower c = CHR ''f'' \<Longrightarrow> c = CHR ''f'' \<or> c = CHR ''F''"
  by (simp_all add: ascii_lower_def split: if_splits)

text \<open>A true or false word begins with \<^verbatim>\<open>t\<close> or \<^verbatim>\<open>f\<close> in either case.\<close>

lemma bool_word_first:
  assumes "str_to_bool x \<noteq> None"
  obtains c r where "x = c # r" "c \<in> {CHR ''t'', CHR ''T'', CHR ''f'', CHR ''F''}"
proof -
  have "map ascii_lower x = ''true'' \<or> map ascii_lower x = ''false''"
    using assms by (auto simp: str_to_bool_def Let_def split: if_splits)
  then obtain c r where "x = c # r" "ascii_lower c = CHR ''t'' \<or> ascii_lower c = CHR ''f''"
    by (cases x) auto
  with ascii_lower_tf that show ?thesis by blast
qed

lemma str_to_bool_not_float: "str_to_bool x \<noteq> None \<Longrightarrow> str_to_float x = None \<and> \<not> int64_word x"
proof -
  assume b: "str_to_bool x \<noteq> None"
  then obtain c r where x: "x = c # r" "c \<in> {CHR ''t'', CHR ''T'', CHR ''f'', CHR ''F''}"
    by (rule bool_word_first)
  have c: "\<not> is_c_space c" "c \<noteq> CHR ''-''" "c \<noteq> CHR ''+''" "\<not> is_c_digit c" "c \<noteq> CHR ''.''"
    using x(2) by (auto simp: is_c_space_def is_c_digit_def)
  then have "str_to_decimal x = None" "str_to_int x = None"
    using x(1) by (simp_all add: str_to_decimal_def str_to_int_def take_sign_def)
  moreover have "map ascii_lower x \<notin> {''inf'', ''+inf'', ''infinity'', ''+infinity'', ''-inf'', ''-infinity''}"
    using b by (auto simp: str_to_bool_def Let_def split: if_splits)
  ultimately show ?thesis
    by (auto simp: str_to_float_def int64_word_def)
qed

lemma bool_word_not_na: "str_to_bool x \<noteq> None \<Longrightarrow> x \<notin> set na_tokens"
  by (erule bool_word_first) (auto simp: na_tokens_def)

text \<open>The dtypes of an integer column, of whole numbers with a missing value, and of a boolean column.\<close>

lemma infer_dtype_int64: "list_all int64_word ws \<Longrightarrow> infer_dtype ws = Int64Col"
proof -
  assume a: "list_all int64_word ws"
  then have "filter (\<lambda>w. w \<notin> set na_tokens) ws = ws"
    using int64_word_not_na by (auto simp: list_all_iff filter_id_conv)
  with a show ?thesis by (simp add: infer_dtype_def)
qed

lemma digits_val_below_pow10:
  assumes "list_all is_c_digit x" and "length x \<le> 15"
  shows "digits_val x < 10 ^ 15"
proof -
  have "(10::nat) ^ length x \<le> 10 ^ 15"
    using assms(2) by (intro power_increasing) simp_all
  then show ?thesis
    using digits_val_less [OF assms(1)] by (meson order_less_le_trans)
qed

lemma infer_dtype_whole_na:
  assumes "\<forall>x\<in>set ws. x \<in> set na_tokens \<or> (x \<noteq> [] \<and> list_all is_c_digit x \<and> length x \<le> 15)"
    and "\<exists>x\<in>set ws. x \<in> set na_tokens"
  shows "infer_dtype ws = Float64Col"
proof -
  have "int64_word x" if "x \<in> set ws" "x \<notin> set na_tokens" for x
  proof -
    have x: "x \<noteq> []" "list_all is_c_digit x" "length x \<le> 15" using assms(1) that by auto
    have "digits_val x < 10 ^ 16"
      using digits_val_below_pow10 [OF x(2,3)] by simp
    then show ?thesis
      using digits_words(1) [OF x(1,2)] by (simp add: int64_word_def)
  qed
  moreover have "length (filter (\<lambda>w. w \<notin> set na_tokens) ws) \<noteq> length ws"
    using assms(2) by (metis filter_id_conv length_filter_less less_irrefl)
  ultimately show ?thesis
    by (auto simp: infer_dtype_def Let_def list_all_iff)
qed

lemma infer_dtype_bool: "list_all (\<lambda>x. str_to_bool x \<noteq> None) ws \<Longrightarrow> ws \<noteq> [] \<Longrightarrow> infer_dtype ws = BoolCol"
proof -
  assume a: "list_all (\<lambda>x. str_to_bool x \<noteq> None) ws" and ne: "ws \<noteq> []"
  have f: "filter (\<lambda>w. w \<notin> set na_tokens) ws = ws"
    using a bool_word_not_na by (auto simp: list_all_iff filter_id_conv)
  obtain w where "w \<in> set ws" using ne by (cases ws) auto
  then have "\<not> int64_word w" "str_to_float w = None" "\<not> uint64_word w"
    using a str_to_bool_not_float [of w] uint64_word_float [of w] by (auto simp: list_all_iff)
  with \<open>w \<in> set ws\<close> a f show ?thesis
    by (auto simp: infer_dtype_def list_all_iff)
qed

text \<open>
  A word of at most 15 digits in a float64 column prints as its number and
  \<^verbatim>\<open>.0\<close>: below \<open>10^15 < 2^53\<close> the word's value is exactly a double,
  so the decimal the model keeps is the double pandas stores.
\<close>

lemma digits_word_not_na: "x \<noteq> [] \<Longrightarrow> list_all is_c_digit x \<Longrightarrow> x \<notin> set na_tokens"
  by (auto simp: na_tokens_def is_c_digit_def)

lemma whole_word_float_str:
  assumes "x \<noteq> []" and "list_all is_c_digit x" and "length x \<le> 15"
  shows "astype_str (convert_word Float64Col x) = nat_str (digits_val x) @ ''.0''"
proof -
  have "digits_val x < 10 ^ 16"
    using digits_val_below_pow10 [OF assms(2,3)] by simp
  then show ?thesis
    using digits_words(2) [OF assms(1,2)] digits_word_not_na [OF assms(1,2)]
    by (simp add: convert_word_def py_float_repr_whole)
qed

text \<open>The facts that evaluate the inference on concrete words.\<close>

lemmas infer_eval = infer_dtype_def convert_word_def int64_word_def uint64_word_def str_to_int_def str_to_float_def
  str_to_decimal_def str_to_bool_def take_sign_def is_c_space_def is_c_digit_def ascii_lower_def na_tokens_def

section \<open>Printed integers\<close>

text \<open>
  An integer as Python's \<open>str()\<close> prints it is read back by pandas'
  integer parser (\<^verbatim>\<open>str_to_int64\<close>, before its range check) as the same
  integer.
\<close>

lemma str_to_int_py_int_str: "str_to_int (py_int_str i) = Some i"
proof -
  have d: "takeWhile is_c_digit (nat_str n) = nat_str n" "dropWhile is_c_digit (nat_str n) = []" for n
    using nat_str_digits [of n] by (simp_all add: list_all_iff)
  have h: "\<not> is_c_space c" "c \<noteq> CHR ''-''" "c \<noteq> CHR ''+''" if "c \<in> set (nat_str n)" for c n
    using that nat_str_digits [of n] by (auto simp: list_all_iff is_c_digit_def is_c_space_def Let_def)
  have s: "dropWhile is_c_space (nat_str n) = nat_str n" "take_sign (nat_str n) = (False, nat_str n)" for n
    using h [of _ n] nat_str_Nil [of n]
    by (auto simp: take_sign_def dropWhile_eq_self_iff split: list.splits)
  have m: "\<not> is_c_space (CHR ''-'')" "take_sign (CHR ''-'' # x) = (True, x)" for x
    by (simp_all add: is_c_space_def take_sign_def)
  show ?thesis
    by (simp add: py_int_str_def str_to_int_def s d digits_val_nat_str m)
qed

end
