(* ===== verification/PandasCsv.thy ===== *)
theory PandasCsv
  imports PandasInfer Csv
begin

text \<open>
  \<^verbatim>\<open>pd.read_csv(upload_file)\<close> of \<^verbatim>\<open>src/app.py\<close> (line 23), with every
  option at its default: the C parser of pandas (\<^verbatim>\<open>tokenizer.c\<close>) with
  delimiter comma, quote character \<^verbatim>\<open>"\<close>, doubled quotes, no escape
  character, no comment character, \<^verbatim>\<open>skip_blank_lines\<close>, and LF, CR and
  CR LF all ending a line; the first line is the header, and the values in
  pandas' default NA list are missing values.
  \<^item> The tokenizer is the C state machine: \<open>tok_next\<close> is one iteration of
    the loop of \<^verbatim>\<open>tokenize_bytes\<close> (the switch on the state), and
    \<open>tokenize\<close> iterates it until the parse ends; \<open>tokenize_simps\<close> gives
    its equations per state. A pushback (a character read again in another
    state) keeps the character and moves to a state of lower rank, so the
    loop terminates by the input length, then the rank (the termination
    proof of \<open>tokenize\<close>). A line of blanks is
    skipped; a line that only begins with blanks is read from its start (the
    C code backtracks to the last LF, which for a line opened by a bare CR
    reaches further back; the model reads such a line from its start too).
  \<^item> \<^verbatim>\<open>end_line\<close> checks the field count against the line before from the
    third line on (the header and the first data line are exempt) and pads
    a short line with empty fields.
  \<^item> A first data line longer than the header makes its extra leading
    fields the index (pandas' implicit index).
  \<^item> The columns of the data lines are converted to their inferred dtypes
    (theory \<open>PandasInfer\<close>), the implicit index with them.
  \<^item> Not modelled: the names pandas gives empty or duplicate header fields
    (only their number matters to the loader).
\<close>

section \<open>The tokenizer\<close>

datatype tok_state =
    StartRecord | StartField | InField | InQuotedField | QuoteInQuotedField
  | EatCrnl | EatCrnlNop

text \<open>The parser's buffers: the fields of the current line, the current field, the
  lines done, and the count of physical lines read (\<^verbatim>\<open>file_lines\<close>).\<close>

record tok =
  tok_fields :: "pystr list"
  tok_field :: pystr
  tok_lines :: "pystr list list"
  tok_file_lines :: nat

definition init_tok :: tok where
  "init_tok = \<lparr>tok_fields = [], tok_field = [], tok_lines = [], tok_file_lines = 0\<rparr>"

definition lf :: char where "lf = CHR ''\<newline>''"
definition cr :: char where "cr = CHR 0x0D"
definition delim :: char where "delim = CHR '',''"

text \<open>C's \<^verbatim>\<open>isblank\<close>: space and tab.\<close>

definition is_blank :: "char \<Rightarrow> bool" where
  "is_blank c \<longleftrightarrow> c = CHR '' '' \<or> c = CHR 0x09"

definition push_char :: "char \<Rightarrow> tok \<Rightarrow> tok" where
  "push_char c t = t\<lparr>tok_field := tok_field t @ [c]\<rparr>"

definition end_field :: "tok \<Rightarrow> tok" where
  "end_field t = t\<lparr>tok_fields := tok_fields t @ [tok_field t], tok_field := []\<rparr>"

definition skip_line :: "tok \<Rightarrow> tok" where
  "skip_line t = t\<lparr>tok_file_lines := Suc (tok_file_lines t)\<rparr>"

definition c_error :: "pystr \<Rightarrow> exc_msg" where
  "c_error msg = ''Error tokenizing data. C error: '' @ msg"

text \<open>
  \<^verbatim>\<open>end_line\<close>: from the third line on, more fields than the line before is
  an error; from the second line on, a short line is padded with empty
  fields.
\<close>

definition end_line :: "tok \<Rightarrow> exc_msg + tok" where
  "end_line t =
     (let fields = tok_fields t; n = length fields; lines = tok_lines t;
          ex = (if lines = [] then 0 else length (last lines))
      in if 2 \<le> length lines \<and> ex < n
         then Inl (c_error (''Expected '' @ nat_str ex @ '' fields in line ''
                            @ nat_str (Suc (tok_file_lines t)) @ '', saw '' @ nat_str n @ ''\<newline>''))
         else Inr (t\<lparr>tok_lines := lines @ [fields @ replicate (ex - n) []], tok_fields := [],
                     tok_file_lines := Suc (tok_file_lines t)\<rparr>))"

text \<open>\<^verbatim>\<open>parser_handle_eof\<close>.\<close>

definition handle_eof :: "tok_state \<Rightarrow> tok \<Rightarrow> exc_msg + tok" where
  "handle_eof st t =
     (case st of
        StartRecord \<Rightarrow> Inr t
      | EatCrnlNop \<Rightarrow> Inr t
      | InQuotedField \<Rightarrow>
          Inl (c_error (''EOF inside string starting at row '' @ nat_str (tok_file_lines t)))
      | EatCrnl \<Rightarrow> end_line t
      | _ \<Rightarrow> end_line (end_field t))"

fun tok_rank :: "tok_state \<Rightarrow> nat" where
  "tok_rank StartRecord = 1"
| "tok_rank EatCrnl = 2"
| "tok_rank EatCrnlNop = 2"
| "tok_rank _ = 0"

text \<open>
  One iteration of the loop of \<^verbatim>\<open>tokenize_bytes\<close>: the switch on the state
  for the next character, or \<^verbatim>\<open>parser_handle_eof\<close> at the end of the input.
  It either ends the parse (\<open>Inl\<close>: the result, an error of
  \<^verbatim>\<open>end_line\<close> included) or gives the next state, buffers and input
  (\<open>Inr\<close>); a character read again in another state (the C code's
  \<^verbatim>\<open>--i\<close>) stays on the input. A line's end runs \<^verbatim>\<open>end_line\<close>, whose
  error stops the parse.
\<close>

definition line_end :: "tok \<Rightarrow> pystr \<Rightarrow> (exc_msg + tok) + tok_state \<times> tok \<times> pystr" where
  "line_end t cs = (case end_line t of Inl e \<Rightarrow> Inl (Inl e) | Inr t' \<Rightarrow> Inr (StartRecord, t', cs))"

fun tok_next :: "tok_state \<Rightarrow> tok \<Rightarrow> pystr \<Rightarrow> (exc_msg + tok) + tok_state \<times> tok \<times> pystr" where
  "tok_next st t [] = Inl (handle_eof st t)"
| "tok_next StartRecord t (c # cs) =
     (if c = lf then Inr (StartRecord, skip_line t, cs)
      else if c = cr then Inr (EatCrnlNop, skip_line t, cs)
      else if is_blank c then
        (case dropWhile is_blank cs of
           [] \<Rightarrow> Inl (Inr t)
         | d # r \<Rightarrow>
             (if d = lf then Inr (StartRecord, skip_line t, r)
              else if d = cr then Inr (EatCrnlNop, skip_line t, r)
              else Inr (StartField, t, c # cs)))
      else Inr (StartField, t, c # cs))"
| "tok_next StartField t (c # cs) =
     (if c = lf then line_end (end_field t) cs
      else if c = cr then Inr (EatCrnl, end_field t, cs)
      else if c = quote_char then Inr (InQuotedField, t, cs)
      else if c = delim then Inr (StartField, end_field t, cs)
      else Inr (InField, push_char c t, cs))"
| "tok_next InField t (c # cs) =
     (if c = lf then line_end (end_field t) cs
      else if c = cr then Inr (EatCrnl, end_field t, cs)
      else if c = delim then Inr (StartField, end_field t, cs)
      else Inr (InField, push_char c t, cs))"
| "tok_next InQuotedField t (c # cs) =
     (if c = quote_char then Inr (QuoteInQuotedField, t, cs)
      else Inr (InQuotedField, push_char c t, cs))"
| "tok_next QuoteInQuotedField t (c # cs) =
     (if c = quote_char then Inr (InQuotedField, push_char c t, cs)
      else if c = delim then Inr (StartField, end_field t, cs)
      else if c = lf then line_end (end_field t) cs
      else if c = cr then Inr (EatCrnl, end_field t, cs)
      else Inr (InField, push_char c t, cs))"
| "tok_next EatCrnl t (c # cs) =
     (case end_line t of
        Inl e \<Rightarrow> Inl (Inl e)
      | Inr t' \<Rightarrow>
          (if c = lf then Inr (StartRecord, t', cs)
           else if c = delim then Inr (StartField, t', cs)
           else Inr (StartRecord, t', c # cs)))"
| "tok_next EatCrnlNop t (c # cs) =
     (if c \<noteq> lf \<and> c \<noteq> delim then Inr (StartRecord, t, c # cs)
      else Inr (StartRecord, t, cs))"

text \<open>The loop: iterate until the parse ends.\<close>

function tokenize :: "tok_state \<Rightarrow> tok \<Rightarrow> pystr \<Rightarrow> exc_msg + tok" where
  "tokenize st t s = (case tok_next st t s of Inl r \<Rightarrow> r | Inr (st', t', s') \<Rightarrow> tokenize st' t' s')"
  by pat_completeness auto
termination
proof -
  txt \<open>Each iteration consumes a character, or keeps it and moves to a state of lower rank.\<close>
  have dw: "length r < length xs" if "dropWhile P xs = d # r" for P :: "char \<Rightarrow> bool" and xs d r
    using that by (metis impossible_Cons le_less_linear length_Cons length_dropWhile_le order.trans)
  have dec: "length s' < length s \<or> (length s' = length s \<and> tok_rank st' < tok_rank st)"
    if "tok_next st t s = Inr (st', t', s')" for st t s st' t' s'
    using that
    by (induction st t s rule: tok_next.induct)
       (auto simp: line_end_def less_Suc_eq dest: dw split: if_splits list.splits sum.splits)
  show ?thesis
    by (relation "measures [\<lambda>(st, t, s). length s, \<lambda>(st, t, s). tok_rank st]") (auto dest: dec)
qed

declare tokenize.simps [simp del]

section \<open>The reader\<close>

definition tokenize_csv :: "pystr \<Rightarrow> exc_msg + pystr list list" where
  "tokenize_csv text = map_sum id tok_lines (tokenize StartRecord init_tok text)"

definition pandas_read_csv :: csv_reader where
  "pandas_read_csv text =
     (case tokenize_csv text of
        Inl e \<Rightarrow> Inl e
      | Inr [] \<Rightarrow> Inl ''No columns to parse from file''
      | Inr (header # rows) \<Rightarrow>
          (let lead = (case rows of [] \<Rightarrow> 0 | r1 # _ \<Rightarrow> length r1 - length header)
           in Inr \<lparr>frame_columns = header,
                   frame_rows = map (drop lead) (convert_rows rows)\<rparr>))"

text \<open>
  The shape of the parsed lines pandas relies on: every data line is at least
  as long as the header, and all data lines have one length.
\<close>

definition rect_lines :: "pystr list list \<Rightarrow> bool" where
  "rect_lines ls \<longleftrightarrow>
     (case ls of [] \<Rightarrow> True | h # rs \<Rightarrow> list_all (\<lambda>r. length h \<le> length r \<and> length r = length (last ls)) rs)"

text \<open>
  The reference reader for text without quotes: lines split at each
  delimiter. A simple line has no quote, LF or CR, and is not blank.
\<close>

fun split_on :: "char \<Rightarrow> pystr \<Rightarrow> pystr list" where
  "split_on d [] = [[]]"
| "split_on d (c # cs) =
     (let r = split_on d cs in if c = d then [] # r else (c # hd r) # tl r)"

definition simple_line :: "pystr \<Rightarrow> bool" where
  "simple_line l \<longleftrightarrow> quote_char \<notin> set l \<and> lf \<notin> set l \<and> cr \<notin> set l \<and> \<not> list_all is_blank l"

text \<open>
  A line of a one-column file as a user writes it: no delimiter, quote or
  line break, and not blank (pandas skips a line of blanks).
\<close>

definition plain_line :: "pystr \<Rightarrow> bool" where
  "plain_line x \<longleftrightarrow> \<not> list_ex csv_special x \<and> \<not> list_all is_blank x"

section \<open>Lemmas\<close>

text \<open>
  What the tokenizer does after a field ends at a delimiter (the next field)
  or at LF (the line ends).
\<close>

definition after_field :: "char \<Rightarrow> tok \<Rightarrow> pystr \<Rightarrow> exc_msg + tok" where
  "after_field c t rest =
     (if c = delim then tokenize StartField t rest
      else (case end_line t of Inl e \<Rightarrow> Inl e | Inr t' \<Rightarrow> tokenize StartRecord t' rest))"

text \<open>The loop's equations, one per state, as the C code's switch reads.\<close>

lemma tokenize_simps:
  "tokenize st t [] = handle_eof st t"
  "tokenize StartRecord t (c # cs) =
     (if c = lf then tokenize StartRecord (skip_line t) cs
      else if c = cr then tokenize EatCrnlNop (skip_line t) cs
      else if is_blank c then
        (case dropWhile is_blank cs of
           [] \<Rightarrow> Inr t
         | d # r \<Rightarrow>
             (if d = lf then tokenize StartRecord (skip_line t) r
              else if d = cr then tokenize EatCrnlNop (skip_line t) r
              else tokenize StartField t (c # cs)))
      else tokenize StartField t (c # cs))"
  "tokenize StartField t (c # cs) =
     (if c = lf then (case end_line (end_field t) of Inl e \<Rightarrow> Inl e | Inr t' \<Rightarrow> tokenize StartRecord t' cs)
      else if c = cr then tokenize EatCrnl (end_field t) cs
      else if c = quote_char then tokenize InQuotedField t cs
      else if c = delim then tokenize StartField (end_field t) cs
      else tokenize InField (push_char c t) cs)"
  "tokenize InField t (c # cs) =
     (if c = lf then (case end_line (end_field t) of Inl e \<Rightarrow> Inl e | Inr t' \<Rightarrow> tokenize StartRecord t' cs)
      else if c = cr then tokenize EatCrnl (end_field t) cs
      else if c = delim then tokenize StartField (end_field t) cs
      else tokenize InField (push_char c t) cs)"
  "tokenize InQuotedField t (c # cs) =
     (if c = quote_char then tokenize QuoteInQuotedField t cs
      else tokenize InQuotedField (push_char c t) cs)"
  "tokenize QuoteInQuotedField t (c # cs) =
     (if c = quote_char then tokenize InQuotedField (push_char c t) cs
      else if c = delim then tokenize StartField (end_field t) cs
      else if c = lf then (case end_line (end_field t) of Inl e \<Rightarrow> Inl e | Inr t' \<Rightarrow> tokenize StartRecord t' cs)
      else if c = cr then tokenize EatCrnl (end_field t) cs
      else tokenize InField (push_char c t) cs)"
  "tokenize EatCrnl t (c # cs) =
     (case end_line t of
        Inl e \<Rightarrow> Inl e
      | Inr t' \<Rightarrow>
          (if c = lf then tokenize StartRecord t' cs
           else if c = delim then tokenize StartField t' cs
           else tokenize StartRecord t' (c # cs)))"
  "tokenize EatCrnlNop t (c # cs) =
     (if c \<noteq> lf \<and> c \<noteq> delim then tokenize StartRecord t (c # cs)
      else tokenize StartRecord t cs)"
  subgoal by (simp only: tokenize.simps [of st t "[]"]) simp
  subgoal by (simp only: tokenize.simps [of StartRecord t "c # cs"]) (cases "dropWhile is_blank cs"; simp del: dropWhile_eq_Nil_conv)
  subgoal by (simp only: tokenize.simps [of StartField t "c # cs"]) (simp add: line_end_def split: sum.split)
  subgoal by (simp only: tokenize.simps [of InField t "c # cs"]) (simp add: line_end_def split: sum.split)
  subgoal by (simp only: tokenize.simps [of InQuotedField t "c # cs"]) simp
  subgoal by (simp only: tokenize.simps [of QuoteInQuotedField t "c # cs"]) (simp add: line_end_def split: sum.split)
  subgoal by (simp only: tokenize.simps [of EatCrnl t "c # cs"]) (simp split: sum.split)
  subgoal by (simp only: tokenize.simps [of EatCrnlNop t "c # cs"]) simp
  done

text \<open>
  What the termination of the loop rests on: each iteration consumes a
  character, or keeps it and moves to a state of lower rank.
\<close>

lemma tok_next_decreases:
  assumes "tok_next st t s = Inr (st', t', s')"
  shows "length s' < length s \<or> (length s' = length s \<and> tok_rank st' < tok_rank st)"
proof -
  have dw: "length r < length xs" if "dropWhile P xs = d # r" for P :: "char \<Rightarrow> bool" and xs d r
    using that by (metis impossible_Cons le_less_linear length_Cons length_dropWhile_le order.trans)
  from assms show ?thesis
    by (induction st t s rule: tok_next.induct)
       (auto simp: line_end_def less_Suc_eq dest: dw split: if_splits list.splits sum.splits)
qed

lemma tok_rank_le: "tok_rank st \<le> 2"
  by (cases st) simp_all

lemma special_chars [simp]:
  "quote_char \<noteq> lf" "quote_char \<noteq> cr" "quote_char \<noteq> delim" "lf \<noteq> cr" "lf \<noteq> delim" "cr \<noteq> delim"
  "lf \<noteq> quote_char" "cr \<noteq> quote_char" "delim \<noteq> quote_char" "cr \<noteq> lf" "delim \<noteq> lf" "delim \<noteq> cr"
  "\<not> is_blank lf" "\<not> is_blank cr" "\<not> is_blank delim" "\<not> is_blank quote_char"
  by (simp_all add: quote_char_def lf_def cr_def delim_def is_blank_def)

lemma delim_lf_strings: "'','' = [delim]" "''\<newline>'' = [lf]"
  by (simp_all add: delim_def lf_def)

text \<open>A quoted field's body, with its doubled quotes, up to the closing quote.\<close>

lemma tokenize_quoted_body:
  "tokenize InQuotedField t (csv_escape f @ quote_char # rest)
     = tokenize QuoteInQuotedField (t\<lparr>tok_field := tok_field t @ f\<rparr>) rest"
proof (induction f arbitrary: t)
  case Nil
  then show ?case by (simp add: csv_escape_def tokenize_simps)
next
  case (Cons x f)
  show ?case
  proof (cases "x = quote_char")
    case True
    have "tokenize InQuotedField t (csv_escape (x # f) @ quote_char # rest)
        = tokenize InQuotedField (push_char quote_char t) (csv_escape f @ quote_char # rest)"
      using True by (simp add: csv_escape_def tokenize_simps)
    also have "\<dots> = tokenize QuoteInQuotedField (t\<lparr>tok_field := tok_field t @ x # f\<rparr>) rest"
      using True by (simp add: Cons.IH push_char_def)
    finally show ?thesis .
  next
    case False
    have "tokenize InQuotedField t (csv_escape (x # f) @ quote_char # rest)
        = tokenize InQuotedField (push_char x t) (csv_escape f @ quote_char # rest)"
      using False by (simp add: csv_escape_def tokenize_simps)
    also have "\<dots> = tokenize QuoteInQuotedField (t\<lparr>tok_field := tok_field t @ x # f\<rparr>) rest"
      by (simp add: Cons.IH push_char_def)
    finally show ?thesis .
  qed
qed

text \<open>An unquoted field's body, free of the writer's special characters.\<close>

lemma tokenize_plain_body:
  assumes "\<not> list_ex csv_special f"
  shows "tokenize InField t (f @ rest) = tokenize InField (t\<lparr>tok_field := tok_field t @ f\<rparr>) rest"
  using assms
proof (induction f arbitrary: t)
  case Nil
  then show ?case by simp
next
  case (Cons x f)
  then have sx: "\<not> csv_special x" and f: "\<not> list_ex csv_special f"
    by simp_all
  from sx have x: "x \<noteq> lf" "x \<noteq> cr" "x \<noteq> delim"
    by (auto simp: csv_special_def lf_def cr_def delim_def)
  have "tokenize InField t ((x # f) @ rest) = tokenize InField (push_char x t) (f @ rest)"
    using x by (simp add: tokenize_simps)
  also have "\<dots> = tokenize InField (t\<lparr>tok_field := tok_field t @ x # f\<rparr>) rest"
    using f by (simp add: Cons.IH push_char_def)
  finally show ?case .
qed

lemma field_end_steps:
  assumes "c = delim \<or> c = lf"
  shows "tokenize StartField t (c # rest) = after_field c (end_field t) rest"
    and "tokenize InField t (c # rest) = after_field c (end_field t) rest"
    and "tokenize QuoteInQuotedField t (c # rest) = after_field c (end_field t) rest"
  using assms by (auto simp: tokenize_simps after_field_def)

text \<open>One field as the writer quotes it, then a delimiter or LF.\<close>

lemma tokenize_field:
  assumes "c = delim \<or> c = lf" and "tok_field t = []"
  shows "tokenize StartField t (csv_quote f @ c # rest) = after_field c (end_field (t\<lparr>tok_field := f\<rparr>)) rest"
proof (cases "list_ex csv_special f")
  case True
  have "tokenize StartField t (csv_quote f @ c # rest)
      = tokenize InQuotedField t (csv_escape f @ quote_char # c # rest)"
    by (simp add: csv_quote_quoted [OF True] tokenize_simps)
  also have "\<dots> = tokenize QuoteInQuotedField (t\<lparr>tok_field := f\<rparr>) (c # rest)"
    using assms(2) by (simp add: tokenize_quoted_body)
  also have "\<dots> = after_field c (end_field (t\<lparr>tok_field := f\<rparr>)) rest"
    using assms(1) by (rule field_end_steps(3))
  finally show ?thesis .
next
  case False
  show ?thesis
  proof (cases f)
    case Nil
    have "end_field (t\<lparr>tok_field := []\<rparr>) = end_field t"
      using assms(2) by (simp add: end_field_def)
    with Nil False assms show ?thesis
      by (simp add: csv_quote_def field_end_steps(1))
  next
    case (Cons x f')
    with False have sx: "\<not> csv_special x" and f': "\<not> list_ex csv_special f'" by simp_all
    from sx have x: "x \<noteq> lf" "x \<noteq> cr" "x \<noteq> delim" "x \<noteq> quote_char"
      by (auto simp: csv_special_def lf_def cr_def delim_def)
    have "tokenize StartField t (csv_quote f @ c # rest) = tokenize InField (push_char x t) (f' @ c # rest)"
      using False Cons x by (simp add: csv_quote_def tokenize_simps)
    also have "\<dots> = tokenize InField (t\<lparr>tok_field := f\<rparr>) (c # rest)"
      using f' assms(2) Cons by (simp add: tokenize_plain_body push_char_def)
    also have "\<dots> = after_field c (end_field (t\<lparr>tok_field := f\<rparr>)) rest"
      using assms(1) by (rule field_end_steps(2))
    finally show ?thesis .
  qed
qed

text \<open>The fields of a written row, joined by delimiters, then LF.\<close>

lemma tokenize_joined:
  assumes "fs \<noteq> []" and "tok_field t = []"
  shows "tokenize StartField t (py_join [delim] (map csv_quote fs) @ lf # rest)
           = after_field lf (t\<lparr>tok_fields := tok_fields t @ fs\<rparr>) rest"
  using assms
proof (induction fs arbitrary: t rule: induct_list012)
  case (2 f)
  have "end_field (t\<lparr>tok_field := f\<rparr>) = t\<lparr>tok_fields := tok_fields t @ [f]\<rparr>"
    using "2.prems"(2) by (simp add: end_field_def)
  then show ?case using "2.prems"(2) by (simp add: tokenize_field)
next
  case (3 f g gs)
  let ?t = "t\<lparr>tok_fields := tok_fields t @ [f]\<rparr>"
  have e: "end_field (t\<lparr>tok_field := f\<rparr>) = ?t"
    using "3.prems"(2) by (simp add: end_field_def)
  have "tokenize StartField t (py_join [delim] (map csv_quote (f # g # gs)) @ lf # rest)
      = tokenize StartField ?t (py_join [delim] (map csv_quote (g # gs)) @ lf # rest)"
    using "3.prems"(2) tokenize_field [of delim t f] by (simp add: e after_field_def)
  also have "\<dots> = after_field lf (?t\<lparr>tok_fields := tok_fields ?t @ g # gs\<rparr>) rest"
    using "3.prems"(2) by (intro "3.IH"(2)) simp_all
  finally show ?case by simp
qed simp

lemma dropWhile_blank_plain:
  assumes "\<not> list_ex csv_special f"
  shows "\<exists>d r. dropWhile is_blank (f @ delim # R) = d # r \<and> d \<noteq> lf \<and> d \<noteq> cr"
  using assms
proof (induction f)
  case (Cons x f)
  then have "x \<noteq> lf" "x \<noteq> cr"
    by (auto simp: csv_special_def lf_def cr_def)
  with Cons show ?case by auto
qed simp

text \<open>A line whose first field ends at a delimiter is never a blank line.\<close>

lemma tokenize_record_start:
  "tokenize StartRecord t (csv_quote f @ delim # R) = tokenize StartField t (csv_quote f @ delim # R)"
proof (cases "list_ex csv_special f")
  case True
  then show ?thesis by (simp add: csv_quote_quoted tokenize_simps)
next
  case False
  show ?thesis
  proof (cases f)
    case Nil
    then show ?thesis by (simp add: csv_quote_def tokenize_simps)
  next
    case (Cons x f')
    with False have "\<not> csv_special x" and f': "\<not> list_ex csv_special f'" by simp_all
    then have x: "x \<noteq> lf" "x \<noteq> cr"
      by (auto simp: csv_special_def lf_def cr_def)
    obtain d r where "dropWhile is_blank (f' @ delim # R) = d # r" "d \<noteq> lf" "d \<noteq> cr"
      using dropWhile_blank_plain [OF f'] by blast
    with x False Cons show ?thesis
      by (simp add: csv_quote_def tokenize_simps)
  qed
qed

lemma end_line_full:
  assumes "tok_lines t = [] \<or> length (last (tok_lines t)) = length (tok_fields t)"
  shows "end_line t = Inr (t\<lparr>tok_lines := tok_lines t @ [tok_fields t], tok_fields := [],
                              tok_file_lines := Suc (tok_file_lines t)\<rparr>)"
  using assms by (auto simp: end_line_def Let_def)

lemma csv_writerow_joined:
  "2 \<le> length fs \<Longrightarrow> csv_writerow fs = py_join [delim] (map csv_quote fs) @ [lf]"
  by (auto simp: csv_writerow_def delim_lf_strings)

text \<open>Rows of one width of at least two fields, written one after the other, are read back.\<close>

lemma tokenize_rows:
  assumes "\<forall>fs\<in>set rows. length fs = n" and "2 \<le> n"
    and "tok_fields t = []" and "tok_field t = []"
    and "tok_lines t = [] \<or> length (last (tok_lines t)) = n"
  shows "tokenize StartRecord t (concat (map csv_writerow rows) @ rest)
           = tokenize StartRecord
               (t\<lparr>tok_lines := tok_lines t @ rows, tok_file_lines := tok_file_lines t + length rows\<rparr>) rest"
  using assms
proof (induction rows arbitrary: t)
  case Nil
  then show ?case by (cases t) simp
next
  case (Cons fs rows)
  then have len: "length fs = n" by simp
  with Cons.prems(2) obtain f g gs where fs: "fs = f # g # gs"
    by (metis Suc_le_length_iff numeral_2_eq_2)
  let ?rest = "concat (map csv_writerow rows) @ rest"
  let ?R = "py_join [delim] (map csv_quote (g # gs)) @ lf # ?rest"
  let ?t = "t\<lparr>tok_lines := tok_lines t @ [fs], tok_fields := [], tok_file_lines := Suc (tok_file_lines t)\<rparr>"
  have line: "concat (map csv_writerow (fs # rows)) @ rest = csv_quote f @ delim # ?R"
    using Cons.prems(2) len fs by (simp add: csv_writerow_joined)
  have "tokenize StartRecord t (csv_quote f @ delim # ?R)
      = tokenize StartField t (py_join [delim] (map csv_quote fs) @ lf # ?rest)"
    by (simp add: tokenize_record_start fs)
  also have "\<dots> = after_field lf (t\<lparr>tok_fields := tok_fields t @ fs\<rparr>) ?rest"
    using Cons.prems(4) fs by (intro tokenize_joined) simp_all
  also have "\<dots> = tokenize StartRecord ?t ?rest"
    using Cons.prems len by (simp add: after_field_def end_line_full)
  also have "\<dots> = tokenize StartRecord
      (?t\<lparr>tok_lines := tok_lines ?t @ rows, tok_file_lines := tok_file_lines ?t + length rows\<rparr>) rest"
    using Cons.prems len by (intro Cons.IH) simp_all
  finally show ?case using line Cons.prems(3) by (cases t) simp
qed

text \<open>The state after a written table: its lines done, nothing pending.\<close>

lemma tokenize_to_csv_prefix:
  "tokenize StartRecord init_tok (to_csv df @ rest)
     = tokenize StartRecord
         \<lparr>tok_fields = [], tok_field = [], tok_lines = table_header # map table_row df,
          tok_file_lines = Suc (length df)\<rparr> rest"
proof -
  have "\<forall>fs\<in>set (table_header # map table_row df). length fs = 2"
    by (auto simp: table_header_def table_row_def)
  from tokenize_rows [OF this, of init_tok rest] show ?thesis
    by (simp add: to_csv_def init_tok_def)
qed

lemma tokenize_csv_to_csv:
  "tokenize_csv (to_csv df) = Inr (table_header # map table_row df)"
  using tokenize_to_csv_prefix [of df "[]"]
  by (simp add: tokenize_csv_def tokenize_simps handle_eof_def)

text \<open>The reference splitter: joining its fields gives the line back.\<close>

lemma split_on_not_Nil [simp]: "split_on d s \<noteq> []"
  by (induction s) (simp_all add: Let_def)

lemma py_join_split_on: "py_join [d] (split_on d s) = s"
proof (induction s)
  case (Cons c cs)
  show ?case
  proof (cases "split_on d cs")
    case (Cons f fs)
    with Cons.IH show ?thesis by (cases fs) (simp_all add: Let_def)
  qed simp
qed simp

lemma set_split_on: "f \<in> set (split_on d s) \<Longrightarrow> set f \<subseteq> set s - {d}"
proof (induction s arbitrary: f)
  case (Cons c cs)
  obtain a r where r: "split_on d cs = a # r"
    by (cases "split_on d cs") simp_all
  have a: "set a \<subseteq> set cs - {d}" and rs: "\<And>g. g \<in> set r \<Longrightarrow> set g \<subseteq> set cs - {d}"
    using Cons.IH r by auto
  show ?case
    using Cons.prems a rs by (auto simp: r Let_def split: if_splits)
qed simp

lemma dropWhile_nonblank:
  "\<not> list_all is_blank cs \<Longrightarrow> \<exists>d r. dropWhile is_blank (cs @ R) = d # r \<and> d \<in> set cs"
  by (induction cs) auto

text \<open>Lines without quotes, each ended by LF, are split at the delimiters.\<close>

lemma simple_line_fields:
  assumes "simple_line l" and "f \<in> set (split_on delim l)"
  shows "csv_quote f = f"
proof -
  have "\<not> csv_special c" if "c \<in> set f" for c
    using assms set_split_on [OF assms(2)] that
    by (auto simp: simple_line_def csv_special_def delim_def lf_def cr_def)
  then show ?thesis by (auto simp: csv_quote_def list_ex_iff)
qed

lemma tokenize_simple_line:
  assumes "simple_line l" and "tok_field t = []"
  shows "tokenize StartRecord t (l @ lf # rest)
           = after_field lf (t\<lparr>tok_fields := tok_fields t @ split_on delim l\<rparr>) rest"
proof -
  have l: "l = py_join [delim] (map csv_quote (split_on delim l))"
    using simple_line_fields [OF assms(1)] py_join_split_on [of delim l]
    by (simp add: map_idI)
  obtain c cs where lc: "l = c # cs"
    using assms(1) by (cases l) (auto simp: simple_line_def)
  have c: "c \<noteq> lf" "c \<noteq> cr" "c \<noteq> quote_char"
    using assms(1) lc by (auto simp: simple_line_def)
  have start: "tokenize StartRecord t (l @ lf # rest) = tokenize StartField t (l @ lf # rest)"
  proof (cases "is_blank c")
    case True
    then have "\<not> list_all is_blank cs"
      using assms(1) lc by (simp add: simple_line_def)
    then obtain d r where "dropWhile is_blank (cs @ lf # rest) = d # r" "d \<in> set cs"
      using dropWhile_nonblank by blast
    moreover have "d \<noteq> lf" "d \<noteq> cr" if "d \<in> set cs"
      using assms(1) lc that by (auto simp: simple_line_def)
    ultimately show ?thesis
      using c True lc by (simp add: tokenize_simps)
  next
    case False
    with c lc show ?thesis by (simp add: tokenize_simps)
  qed
  show ?thesis
    unfolding start using tokenize_joined [of "split_on delim l" t rest] assms(2)
    by (simp flip: l)
qed

lemma tokenize_simple_lines:
  assumes "\<forall>l\<in>set ls. simple_line l \<and> length (split_on delim l) = n"
    and "tok_fields t = []" and "tok_field t = []"
    and "tok_lines t = [] \<or> length (last (tok_lines t)) = n"
  shows "tokenize StartRecord t (concat (map (\<lambda>l. l @ [lf]) ls) @ rest)
           = tokenize StartRecord
               (t\<lparr>tok_lines := tok_lines t @ map (split_on delim) ls,
                  tok_file_lines := tok_file_lines t + length ls\<rparr>) rest"
  using assms
proof (induction ls arbitrary: t)
  case Nil
  then show ?case by (cases t) simp
next
  case (Cons l ls)
  let ?t = "t\<lparr>tok_lines := tok_lines t @ [split_on delim l], tok_fields := [],
              tok_file_lines := Suc (tok_file_lines t)\<rparr>"
  have "tokenize StartRecord t (concat (map (\<lambda>l. l @ [lf]) (l # ls)) @ rest)
      = tokenize StartRecord ?t (concat (map (\<lambda>l. l @ [lf]) ls) @ rest)"
    using Cons.prems tokenize_simple_line [of l t "concat (map (\<lambda>l. l @ [lf]) ls) @ rest"]
    by (simp add: after_field_def end_line_full)
  also have "\<dots> = tokenize StartRecord
      (?t\<lparr>tok_lines := tok_lines ?t @ map (split_on delim) ls, tok_file_lines := tok_file_lines ?t + length ls\<rparr>)
      rest"
    using Cons.prems by (intro Cons.IH) simp_all
  finally show ?case using Cons.prems(2) by (cases t) simp
qed

lemma split_on_no_delim: "d \<notin> set s \<Longrightarrow> split_on d s = [s]"
  by (induction s) (auto simp: Let_def)

lemma plain_line_simple:
  assumes "plain_line x"
  shows "simple_line x" and "split_on delim x = [x]"
proof -
  have "\<not> csv_special c" if "c \<in> set x" for c
    using assms that by (auto simp: plain_line_def list_ex_iff)
  then have "quote_char \<notin> set x" "lf \<notin> set x" "cr \<notin> set x" "delim \<notin> set x"
    by (auto simp: csv_special_def lf_def cr_def delim_def)
  then show "simple_line x" and "split_on delim x = [x]"
    using assms by (simp_all add: simple_line_def plain_line_def split_on_no_delim)
qed

text \<open>The tokenizer's buffers of finished lines change only at a line's end.\<close>

lemma tok_lines_steps [simp]:
  "tok_lines (push_char c t) = tok_lines t" "tok_lines (end_field t) = tok_lines t"
  "tok_lines (skip_line t) = tok_lines t"
  by (simp_all add: push_char_def end_field_def skip_line_def)

lemma rect_lines_snoc:
  "rect_lines (ls @ [x]) \<longleftrightarrow>
     (ls = [] \<or> (rect_lines ls \<and> length (hd ls) \<le> length x
                 \<and> (tl ls = [] \<or> length (last ls) = length x)))"
  by (cases ls) (auto simp: rect_lines_def list_all_iff)

lemma rect_lines_hd_last:
  "rect_lines ls \<Longrightarrow> ls \<noteq> [] \<Longrightarrow> length (hd ls) \<le> length (last ls)"
proof (cases ls)
  case (Cons h rs)
  assume "rect_lines ls"
  then have "list_all (\<lambda>r. length h \<le> length r \<and> length r = length (last ls)) rs"
    using Cons by (simp only: rect_lines_def list.case)
  then have "\<forall>r\<in>set rs. length h \<le> length r"
    unfolding list_all_iff by blast
  with Cons show ?thesis
    by (cases "rs = []") (simp_all add: last_in_set)
qed simp

lemma end_line_Inr:
  assumes "end_line t = Inr t'"
  shows "\<not> (2 \<le> length (tok_lines t) \<and> length (last (tok_lines t)) < length (tok_fields t))"
    and "tok_lines t' = tok_lines t @ [tok_fields t @ replicate
           ((if tok_lines t = [] then 0 else length (last (tok_lines t))) - length (tok_fields t)) []]"
  using assms by (auto simp: end_line_def Let_def split: if_splits)

lemma end_line_rect:
  assumes "end_line t = Inr t'" and rect: "rect_lines (tok_lines t)"
  shows "rect_lines (tok_lines t')"
proof (cases "tok_lines t = []")
  case True
  then show ?thesis using end_line_Inr(2) [OF assms(1)] by (simp add: rect_lines_def)
next
  case False
  let ?x = "tok_fields t @ replicate (length (last (tok_lines t)) - length (tok_fields t)) []"
  have t': "tok_lines t' = tok_lines t @ [?x]"
    using end_line_Inr(2) [OF assms(1)] False by simp
  have "length (hd (tok_lines t)) \<le> length ?x"
    using rect_lines_hd_last [OF rect False] by simp
  moreover have "tl (tok_lines t) = [] \<or> length (last (tok_lines t)) = length ?x"
    using end_line_Inr(1) [OF assms(1)] False by (cases "tok_lines t") (auto simp: Suc_le_eq)
  ultimately show ?thesis
    using t' rect False by (simp add: rect_lines_snoc)
qed

text \<open>Every iteration keeps the finished lines rectangular.\<close>

lemma tok_next_rect:
  assumes "rect_lines (tok_lines t)"
  shows "tok_next st t s = Inr (st', t', s') \<Longrightarrow> rect_lines (tok_lines t')"
    and "tok_next st t s = Inl (Inr t') \<Longrightarrow> rect_lines (tok_lines t')"
  using assms
  by (induction st t s rule: tok_next.induct)
     (auto simp: line_end_def handle_eof_def dest: end_line_rect
      split: if_splits list.splits sum.splits tok_state.splits)

lemma tokenize_rect:
  "tokenize st t s = Inr t' \<Longrightarrow> rect_lines (tok_lines t) \<Longrightarrow> rect_lines (tok_lines t')"
proof (induction st t s rule: tokenize.induct)
  case (1 st t s)
  show ?case
  proof (cases "tok_next st t s")
    case (Inl r)
    with "1.prems" tok_next_rect(2) [OF "1.prems"(2)] show ?thesis
      by (simp add: tokenize.simps [of st t s])
  next
    case (Inr x)
    obtain st' t'' s' where x: "x = (st', t'', s')" by (cases x) auto
    have "tokenize st' t'' s' = Inr t'"
      using "1.prems"(1) Inr x by (simp add: tokenize.simps [of st t s])
    moreover have "rect_lines (tok_lines t'')"
      using tok_next_rect(1) [OF "1.prems"(2)] Inr x by simp
    ultimately show ?thesis
      using "1.IH" Inr x by blast
  qed
qed

text \<open>The download's columns: the feedback column of its inferred dtype, the label column of strings.\<close>

lemma sentiment_name_text: "text_word (sentiment_name s)"
  by (cases s) (simp_all add: text_word_def infer_eval)

lemma convert_rows_to_csv:
  "convert_rows (map table_row df)
     = map (\<lambda>(f, s). [convert_word (infer_dtype (map fst df)) f, Str (sentiment_name s)]) df"
proof (cases df)
  case (Cons r rs)
  have "infer_dtype (map (\<lambda>x. sentiment_name (snd x)) df) = ObjectCol"
    using Cons sentiment_name_text by (intro infer_dtype_object) auto
  moreover have "sentiment_name s \<notin> set na_tokens" for s
    using sentiment_name_text [of s] by (simp add: text_word_def)
  moreover have m: "map table_row df = map (\<lambda>x. [fst x, sentiment_name (snd x)]) df"
    by (simp add: table_row_def)
  ultimately show ?thesis
    unfolding m convert_rows_pairs by (simp add: convert_word_object case_prod_beta)
qed (simp add: convert_rows_def)

lemma pandas_read_csv_to_csv_frame:
  "pandas_read_csv (to_csv df)
     = Inr \<lparr>frame_columns = table_header,
            frame_rows = map (\<lambda>(f, s). [convert_word (infer_dtype (map fst df)) f, Str (sentiment_name s)]) df\<rparr>"
  by (auto simp: pandas_read_csv_def tokenize_csv_to_csv table_row_def table_header_def convert_rows_to_csv
      split: list.split)

text \<open>The loader on the downloaded file: when a feedback item is text, the first column without the NA strings.\<close>

lemma load_feedback_to_csv:
  assumes "\<exists>r\<in>set df. text_word (fst r)"
  shows "load_feedback pandas_read_csv (Some \<lparr>upload_name = ''analyzed_feedback.csv'', upload_text = Some (to_csv df)\<rparr>) t
     = Inr [fst r. r \<leftarrow> df, fst r \<notin> set na_tokens]"
proof -
  have "infer_dtype (map fst df) = ObjectCol"
    using assms by (intro infer_dtype_object) auto
  moreover have "map astype_str (dropna (map (\<lambda>row. case row of [] \<Rightarrow> NaN | c # _ \<Rightarrow> c)
                  (map (\<lambda>(f, s). [convert_word ObjectCol f, Str (sentiment_name s)]) xs)))
      = [fst r. r \<leftarrow> xs, fst r \<notin> set na_tokens]" for xs
    by (induction xs) (auto simp: convert_word_object dropna_def split: if_splits)
  ultimately show ?thesis
    by (simp add: load_feedback_def py_endswith_def first_column_def table_header_def pandas_read_csv_to_csv_frame)
qed

text \<open>A written row of a stripped one-line item without special characters is the item, a comma and the label.\<close>

lemma sentiment_name_ends: "sentiment_name s \<noteq> [] \<and> \<not> is_py_space (last (sentiment_name s))
    \<and> (\<forall>c\<in>set (sentiment_name s). \<not> is_line_break c)"
  by (cases s) (simp_all add: is_py_space_def is_line_break_def)

lemma written_row_item:
  assumes "feedback_item f" and "\<not> list_ex csv_special f"
  shows "csv_writerow (table_row (f, s)) = (f @ '','' @ sentiment_name s) @ ''\<newline>''"
    and "feedback_item (f @ '','' @ sentiment_name s)"
proof -
  have f: "f \<noteq> []" "py_strip f = f" "\<forall>c\<in>set f. \<not> is_line_break c"
    using assms(1) by (simp_all add: feedback_item_def)
  show "csv_writerow (table_row (f, s)) = (f @ '','' @ sentiment_name s) @ ''\<newline>''"
    using f(1) assms(2) by (simp add: csv_writerow_def table_row_def csv_quote_plain)
  have "\<not> is_py_space (hd f)" using py_strip_ends [of f] f by simp
  moreover have "py_strip (f @ '','' @ sentiment_name s) = f @ '','' @ sentiment_name s"
    using calculation f(1) sentiment_name_ends [of s] by (intro py_strip_id) simp
  ultimately show "feedback_item (f @ '','' @ sentiment_name s)"
    using f sentiment_name_ends [of s] by (auto simp: feedback_item_def is_line_break_def)
qed

text \<open>A one-column upload: the first line is the header, the others the rows of one converted column.\<close>

lemma load_feedback_single_column:
  assumes "py_endswith name ''.csv''" and "\<forall>x\<in>set (h # items). plain_line x"
  shows "load_feedback pandas_read_csv
           (Some \<lparr>upload_name = name, upload_text = Some (concat (map (\<lambda>x. x @ ''\<newline>'') (h # items)))\<rparr>) t
         = Inr (map astype_str (dropna (map (\<lambda>row. case row of [] \<Rightarrow> NaN | c # _ \<Rightarrow> c)
                (map (\<lambda>x. [convert_word (infer_dtype items) x]) items))))"
proof -
  have lines: "\<forall>l\<in>set (h # items). simple_line l \<and> length (split_on delim l) = 1"
    using assms(2) plain_line_simple by simp
  have "map (split_on delim) (h # items) = [h] # map (\<lambda>x. [x]) items"
    using assms(2) plain_line_simple(2) by simp
  then have "tokenize_csv (concat (map (\<lambda>x. x @ [lf]) (h # items))) = Inr ([h] # map (\<lambda>x. [x]) items)"
    using tokenize_simple_lines [OF lines, of init_tok "[]"]
    by (simp add: tokenize_csv_def init_tok_def tokenize_simps handle_eof_def)
  then have "pandas_read_csv (concat (map (\<lambda>x. x @ ''\<newline>'') (h # items)))
      = Inr \<lparr>frame_columns = [h], frame_rows = map (\<lambda>x. [convert_word (infer_dtype items) x]) items\<rparr>"
    by (auto simp: pandas_read_csv_def delim_lf_strings convert_rows_singletons split: list.split)
  then show ?thesis
    using assms(1) by (simp add: load_feedback_def first_column_def)
qed

text \<open>A comma in an unquoted line splits it into two fields.\<close>

lemma split_on_append_delim:
  "d \<notin> set a \<Longrightarrow> split_on d (a @ d # b) = a # split_on d b"
  by (induction a) (auto simp: Let_def)

lemma plain_pair_line:
  assumes "plain_line a" and "plain_line b"
  shows "simple_line (a @ delim # b)" and "split_on delim (a @ delim # b) = [a, b]"
proof -
  have "\<not> csv_special c" if "c \<in> set a \<or> c \<in> set b" for c
    using assms that by (auto simp: plain_line_def list_ex_iff)
  then have "quote_char \<notin> set (a @ delim # b)" "lf \<notin> set (a @ delim # b)" "cr \<notin> set (a @ delim # b)"
      "delim \<notin> set a"
    by (auto simp: csv_special_def lf_def cr_def delim_def quote_char_def)
  then show "simple_line (a @ delim # b)" and "split_on delim (a @ delim # b) = [a, b]"
    using assms plain_line_simple(2) [OF assms(2)]
    by (simp_all add: simple_line_def plain_line_def split_on_append_delim)
qed

text \<open>Lines of one field after a line of two are padded with an empty field.\<close>

lemma tokenize_padded_lines:
  assumes "\<forall>l\<in>set ls. plain_line l"
    and "tok_fields t = []" and "tok_field t = []"
    and "2 \<le> length (tok_lines t)" and "length (last (tok_lines t)) = 2"
  shows "tokenize StartRecord t (concat (map (\<lambda>l. l @ [lf]) ls) @ rest)
           = tokenize StartRecord
               (t\<lparr>tok_lines := tok_lines t @ map (\<lambda>l. [l, []]) ls,
                  tok_file_lines := tok_file_lines t + length ls\<rparr>) rest"
  using assms
proof (induction ls arbitrary: t)
  case Nil
  then show ?case by (cases t) simp
next
  case (Cons l ls)
  let ?t = "t\<lparr>tok_lines := tok_lines t @ [[l, []]], tok_fields := [],
              tok_file_lines := Suc (tok_file_lines t)\<rparr>"
  have l: "simple_line l" "split_on delim l = [l]"
    using Cons.prems(1) plain_line_simple by auto
  have ne: "tok_lines t \<noteq> []"
    using Cons.prems(4) by auto
  have "tokenize StartRecord t (concat (map (\<lambda>l. l @ [lf]) (l # ls)) @ rest)
      = tokenize StartRecord ?t (concat (map (\<lambda>l. l @ [lf]) ls) @ rest)"
    using Cons.prems l ne tokenize_simple_line [of l t "concat (map (\<lambda>l. l @ [lf]) ls) @ rest"]
    by (simp add: after_field_def end_line_def Let_def)
  also have "\<dots> = tokenize StartRecord
      (?t\<lparr>tok_lines := tok_lines ?t @ map (\<lambda>l. [l, []]) ls, tok_file_lines := tok_file_lines ?t + length ls\<rparr>)
      rest"
    using Cons.prems by (intro Cons.IH) simp_all
  finally show ?case using Cons.prems(2) by (cases t) simp
qed

text \<open>A quoted field that is never closed runs to the end of the text.\<close>

lemma nat_str_digit: "n < 10 \<Longrightarrow> nat_str n = [''0123456789'' ! n]"
  by (simp add: nat_str.simps)

lemma tokenize_quoted_eof:
  "quote_char \<notin> set r \<Longrightarrow>
     tokenize InQuotedField t r = Inl (c_error (''EOF inside string starting at row '' @ nat_str (tok_file_lines t)))"
proof (induction r arbitrary: t)
  case Nil
  then show ?case by (simp add: tokenize_simps handle_eof_def)
next
  case (Cons c r)
  then have c: "c \<noteq> quote_char" and r: "quote_char \<notin> set r" by auto
  from c have "tokenize InQuotedField t (c # r) = tokenize InQuotedField (push_char c t) r"
    by (simp add: tokenize_simps)
  with Cons.IH [OF r, of "push_char c t"] show ?case by (simp add: push_char_def)
qed

text \<open>The facts that evaluate the tokenizer on a concrete text.\<close>

lemmas tokenize_eval = tokenize_simps nat_str.simps handle_eof_def end_line_def c_error_def push_char_def end_field_def
  skip_line_def lf_def cr_def delim_def is_blank_def quote_char_def

section \<open>Properties\<close>

text \<open>
  C6: the spec's round trip of the download: decoding the downloaded bytes
  and parsing the text with pandas' tokenizer gives back the header row and
  one row per record, the feedback and the label's name, in order.
\<close>

theorem download_roundtrip:
  "map_option tokenize_csv (utf8_decode (utf8_encode (to_csv df)))
     = Some (Inr (table_header # map (\<lambda>(f, s). [f, sentiment_name s]) df))"
proof -
  have "map table_row df = map (\<lambda>(f, s). [f, sentiment_name s]) df"
    by (simp add: table_row_def case_prod_beta)
  then show ?thesis
    by (simp add: utf8_decode_encode tokenize_csv_to_csv)
qed



text \<open>
  C16: a frame pandas returns is rectangular: every row has exactly one cell
  per column. Short lines are padded with missing values, and the extra
  leading fields of a long first data line become the index.
\<close>

theorem pandas_read_csv_rectangular:
  assumes "pandas_read_csv s = Inr df"
  shows "\<forall>r\<in>set (frame_rows df). length r = length (frame_columns df)"
proof -
  obtain h rows where tok: "tokenize_csv s = Inr (h # rows)"
    and df: "df = \<lparr>frame_columns = h,
                  frame_rows = map (drop (case rows of [] \<Rightarrow> 0 | r1 # _ \<Rightarrow> length r1 - length h)) (convert_rows rows)\<rparr>"
    using assms by (auto simp: pandas_read_csv_def Let_def split: sum.splits list.splits)
  obtain t' where t': "tokenize StartRecord init_tok s = Inr t'" and ls: "tok_lines t' = h # rows"
    using tok by (cases "tokenize StartRecord init_tok s") (auto simp: tokenize_csv_def)
  have "rect_lines (tok_lines init_tok)"
    by (simp add: init_tok_def rect_lines_def)
  from tokenize_rect [OF t' this] have "rect_lines (h # rows)"
    by (simp only: ls)
  then have rows: "\<forall>r\<in>set rows. length h \<le> length r \<and> length r = length (last (h # rows))"
    by (simp only: rect_lines_def list.case list_all_iff)
  show ?thesis
  proof (cases rows)
    case (Cons r1 rs)
    define n where "n = length (last (h # rows))"
    have len: "length r = n" "length h \<le> n" if "r \<in> set rows" for r
      using rows that by (auto simp: n_def simp del: last.simps)
    have "length r1 = n" "length h \<le> n"
      using len [of r1] Cons by simp_all
    moreover have "length r = n" if "r \<in> set (convert_rows rows)" for r
    proof -
      have "length r \<in> set (map length rows)"
        using that convert_rows_lengths [of rows] by (metis image_eqI list.set_map)
      then show ?thesis using len by auto
    qed
    ultimately show ?thesis using Cons df by auto
  qed (simp add: df convert_rows_def)
qed

theorem pandas_read_csv_rectangular_witness:
  "pandas_read_csv ''Feedback,Sentiment\<newline>Fine\<newline>'' = Inr \<lparr>frame_columns = [''Feedback'', ''Sentiment''], frame_rows = [[Str ''Fine'', NaN]]\<rparr>
   \<and> list_all (\<lambda>r. length r = 2) [[Str ''Fine'', NaN]]"
proof -
  have r: "pandas_read_csv ''Feedback,Sentiment\<newline>Fine\<newline>''
      = Inr \<lparr>frame_columns = [''Feedback'', ''Sentiment''], frame_rows = [[Str ''Fine'', NaN]]\<rparr>"
    by (simp add: pandas_read_csv_def tokenize_csv_def init_tok_def tokenize_eval convert_rows_def infer_eval)
  from pandas_read_csv_rectangular [OF r] r show ?thesis by simp
qed

text \<open>
  C34: a line with more than two fields after a written table of at least one
  record is a parser error, with pandas' message naming the expected and the
  seen number of fields and the line (counted from 1).
\<close>

theorem pandas_read_csv_ragged:
  assumes "df \<noteq> []" and "2 < length fs"
  shows "pandas_read_csv (to_csv df @ csv_writerow fs)
           = Inl (c_error (''Expected 2 fields in line '' @ nat_str (length df + 2) @ '', saw ''
                           @ nat_str (length fs) @ ''\<newline>''))"
proof -
  obtain f g gs where fs: "fs = f # g # gs"
    using assms(2) by (metis Suc_le_length_iff numeral_2_eq_2 less_imp_le)
  let ?t = "\<lparr>tok_fields = [], tok_field = [], tok_lines = table_header # map table_row df,
             tok_file_lines = Suc (length df)\<rparr>"
  have row: "csv_writerow fs = csv_quote f @ delim # py_join [delim] (map csv_quote (g # gs)) @ [lf]"
    using fs by (simp add: csv_writerow_joined)
  have "tokenize StartRecord ?t (csv_writerow fs)
      = tokenize StartField ?t (csv_quote f @ delim # py_join [delim] (map csv_quote (g # gs)) @ [lf])"
    unfolding row by (rule tokenize_record_start)
  also have "\<dots> = tokenize StartField ?t (py_join [delim] (map csv_quote fs) @ [lf])"
    by (simp add: fs)
  also have "\<dots> = after_field lf (?t\<lparr>tok_fields := fs\<rparr>) []"
    using tokenize_joined [of fs ?t "[]"] fs by simp
  also have "\<dots> = Inl (c_error (''Expected 2 fields in line '' @ nat_str (length df + 2) @ '', saw ''
                           @ nat_str (length fs) @ ''\<newline>''))"
    using assms by (simp add: after_field_def end_line_def Let_def table_row_def last_map nat_str_digit Suc_le_eq)
  finally show ?thesis
    by (simp add: pandas_read_csv_def tokenize_csv_def tokenize_to_csv_prefix)
qed

theorem pandas_read_csv_ragged_witness:
  "pandas_read_csv (to_csv [(''Great'', Positive)] @ csv_writerow [''a'', ''b'', ''c''])
     = Inl ''Error tokenizing data. C error: Expected 2 fields in line 3, saw 3\<newline>''"
  using pandas_read_csv_ragged [of "[(''Great'', Positive)]" "[''a'', ''b'', ''c'']"]
  by (simp add: c_error_def nat_str_digit)

text \<open>
  C35: a written table followed by a quoted field that is never closed is
  pandas' error for a string running into the end of the file, naming the
  row (counted from 0) where the quote opened.
\<close>

theorem pandas_read_csv_unclosed_quote:
  assumes "quote_char \<notin> set r"
  shows "pandas_read_csv (to_csv df @ quote_char # r)
           = Inl (c_error (''EOF inside string starting at row '' @ nat_str (Suc (length df))))"
proof -
  let ?t = "\<lparr>tok_fields = [], tok_field = [], tok_lines = table_header # map table_row df,
             tok_file_lines = Suc (length df)\<rparr>"
  have "tokenize StartRecord ?t (quote_char # r) = tokenize InQuotedField ?t r"
    by (simp add: tokenize_simps)
  then show ?thesis
    using assms by (simp add: pandas_read_csv_def tokenize_csv_def tokenize_to_csv_prefix tokenize_quoted_eof)
qed

theorem pandas_read_csv_unclosed_quote_witness:
  "pandas_read_csv (to_csv [(''Great'', Positive)] @ quote_char # ''Bad, very bad'')
     = Inl ''Error tokenizing data. C error: EOF inside string starting at row 2''"
  using pandas_read_csv_unclosed_quote [of "''Bad, very bad''" "[(''Great'', Positive)]"]
  by (simp add: c_error_def nat_str_digit quote_char_def)

text \<open>
  C17: equivalence with the reference reader: on text without quotes and
  without CR, made of non-blank lines each ended by LF and all with the same
  number of fields, pandas' tokenizer returns exactly the lines split at
  each comma.
\<close>

theorem tokenize_csv_simple:
  assumes "\<forall>l\<in>set ls. simple_line l \<and> length (split_on delim l) = n"
  shows "tokenize_csv (concat (map (\<lambda>l. l @ [lf]) ls)) = Inr (map (split_on delim) ls)"
  using tokenize_simple_lines [OF assms, of init_tok "[]"]
  by (simp add: tokenize_csv_def init_tok_def tokenize_simps handle_eof_def)

theorem tokenize_csv_simple_witness:
  "tokenize_csv ''Feedback,Sentiment\<newline>Great,Positive\<newline> ,Neutral\<newline>''
     = Inr [[''Feedback'', ''Sentiment''], [''Great'', ''Positive''], ['' '', ''Neutral'']]"
proof -
  have "\<forall>l\<in>set [''Feedback,Sentiment'', ''Great,Positive'', '' ,Neutral''].
          simple_line l \<and> length (split_on delim l) = 2"
    by (simp add: simple_line_def quote_char_def lf_def cr_def delim_def is_blank_def)
  from tokenize_csv_simple [OF this] show ?thesis
    by (simp add: lf_def delim_def)
qed



text \<open>
  C26: a CSV upload of one column whose items are all integers (digits with
  an optional sign and surrounding blanks, within int64): pandas reads an
  int64 column, and the loader returns each item as \<open>str()\<close> prints the
  integer, so leading zeros, a plus sign and blanks are lost.
\<close>

theorem load_feedback_int_column:
  assumes "py_endswith name ''.csv''" and "\<forall>x\<in>set (h # items). plain_line x"
    and "\<forall>x\<in>set items. int64_word x"
  shows "load_feedback pandas_read_csv
           (Some \<lparr>upload_name = name, upload_text = Some (concat (map (\<lambda>x. x @ ''\<newline>'') (h # items)))\<rparr>) t
         = Inr (map (\<lambda>x. py_int_str (the (str_to_int x))) items)"
proof -
  have "infer_dtype items = Int64Col"
    using assms(3) by (simp add: infer_dtype_int64 list_all_iff)
  moreover have "map astype_str (dropna (map (\<lambda>row. case row of [] \<Rightarrow> NaN | c # _ \<Rightarrow> c)
                (map (\<lambda>x. [convert_word Int64Col x]) xs)))
      = map (\<lambda>x. py_int_str (the (str_to_int x))) xs" if "\<forall>x\<in>set xs. int64_word x" for xs
    using that int64_word_not_na
    by (induction xs) (auto simp: convert_word_def dropna_def int64_word_def split: option.splits)
  ultimately show ?thesis
    using load_feedback_single_column [OF assms(1,2)] assms(3) by simp
qed

theorem load_feedback_int_column_witness:
  "load_feedback pandas_read_csv
     (Some \<lparr>upload_name = ''ids.csv'', upload_text = Some (concat (map (\<lambda>x. x @ ''\<newline>'')
                                  [''id'', ''007'', ''+5'', '' -12'']))\<rparr>) []
   = Inr [''7'', ''5'', ''-12'']"
proof -
  have "py_endswith ''ids.csv'' ''.csv''"
    by (simp add: py_endswith_def)
  moreover have "\<forall>x\<in>set (''id'' # [''007'', ''+5'', '' -12'']). plain_line x"
    by (simp add: plain_line_def csv_special_def quote_char_def is_blank_def)
  moreover have "\<forall>x\<in>set [''007'', ''+5'', '' -12'']. int64_word x"
    by (simp add: infer_eval digits_val_def)
  ultimately show ?thesis
    using load_feedback_int_column [of "''ids.csv''" "''id''" "[''007'', ''+5'', '' -12'']" "[]"]
    by (simp add: str_to_int_def take_sign_def is_c_space_def is_c_digit_def digits_val_def
        py_int_str_def nat_str.simps)
qed

text \<open>
  C27: a CSV upload of one column of whole numbers (up to 15 digits, so
  that each is exactly a double) with a missing value among them: pandas
  upcasts the integer column to float64, and the loader returns each number
  printed as a float, its digits followed by \<^verbatim>\<open>.0\<close>.
\<close>

theorem load_feedback_whole_numbers_missing:
  assumes "py_endswith name ''.csv''" and "\<forall>x\<in>set (h # items). plain_line x"
    and "\<forall>x\<in>set items. x \<in> set na_tokens \<or> (x \<noteq> [] \<and> list_all is_c_digit x \<and> length x \<le> 15)"
    and "\<exists>x\<in>set items. x \<in> set na_tokens"
  shows "load_feedback pandas_read_csv
           (Some \<lparr>upload_name = name, upload_text = Some (concat (map (\<lambda>x. x @ ''\<newline>'') (h # items)))\<rparr>) t
         = Inr [nat_str (digits_val x) @ ''.0''. x \<leftarrow> items, x \<notin> set na_tokens]"
proof -
  have "infer_dtype items = Float64Col"
    using assms(3,4) by (rule infer_dtype_whole_na)
  moreover have "map astype_str (dropna (map (\<lambda>row. case row of [] \<Rightarrow> NaN | c # _ \<Rightarrow> c)
                (map (\<lambda>x. [convert_word Float64Col x]) xs)))
      = [nat_str (digits_val x) @ ''.0''. x \<leftarrow> xs, x \<notin> set na_tokens]"
    if "\<forall>x\<in>set xs. x \<in> set na_tokens \<or> (x \<noteq> [] \<and> list_all is_c_digit x \<and> length x \<le> 15)" for xs
    using that
  proof (induction xs)
    case (Cons x xs)
    then show ?case
      using whole_word_float_str [of x] digits_word_not_na [of x]
      by (auto simp: dropna_def convert_word_def)
  qed (simp add: dropna_def)
  ultimately show ?thesis
    using load_feedback_single_column [OF assms(1,2)] assms(3) by simp
qed

theorem load_feedback_whole_numbers_missing_witness:
  "load_feedback pandas_read_csv
     (Some \<lparr>upload_name = ''ratings.csv'', upload_text = Some (concat (map (\<lambda>x. x @ ''\<newline>'')
                                  [''rating'', ''5'', ''NA'', ''04'']))\<rparr>) []
   = Inr [''5.0'', ''4.0'']"
proof -
  have "py_endswith ''ratings.csv'' ''.csv''"
    by (simp add: py_endswith_def)
  moreover have "\<forall>x\<in>set (''rating'' # [''5'', ''NA'', ''04'']). plain_line x"
    by (simp add: plain_line_def csv_special_def quote_char_def is_blank_def)
  moreover have "\<forall>x\<in>set [''5'', ''NA'', ''04'']. x \<in> set na_tokens \<or> (x \<noteq> [] \<and> list_all is_c_digit x \<and> length x \<le> 15)"
    by (simp add: na_tokens_def is_c_digit_def)
  moreover have "\<exists>x\<in>set [''5'', ''NA'', ''04'']. x \<in> set na_tokens"
    by (simp add: na_tokens_def)
  ultimately show ?thesis
    using load_feedback_whole_numbers_missing [of "''ratings.csv''" "''rating''" "[''5'', ''NA'', ''04'']" "[]"]
    by (simp add: na_tokens_def digits_val_def nat_str.simps)
qed

text \<open>
  C28: a CSV upload of one column of true and false words, in any mix of
  case: pandas reads a boolean column, and the loader returns
  \<^verbatim>\<open>True\<close> and \<^verbatim>\<open>False\<close>.
\<close>

theorem load_feedback_bool_column:
  assumes "py_endswith name ''.csv''" and "\<forall>x\<in>set (h # items). plain_line x"
    and "\<forall>x\<in>set items. str_to_bool x \<noteq> None"
  shows "load_feedback pandas_read_csv
           (Some \<lparr>upload_name = name, upload_text = Some (concat (map (\<lambda>x. x @ ''\<newline>'') (h # items)))\<rparr>) t
         = Inr (map (\<lambda>x. py_bool_str (the (str_to_bool x))) items)"
proof (cases "items = []")
  case False
  have "infer_dtype items = BoolCol"
    using assms(3) False by (simp add: infer_dtype_bool list_all_iff)
  moreover have "map astype_str (dropna (map (\<lambda>row. case row of [] \<Rightarrow> NaN | c # _ \<Rightarrow> c)
                (map (\<lambda>x. [convert_word BoolCol x]) xs)))
      = map (\<lambda>x. py_bool_str (the (str_to_bool x))) xs" if "\<forall>x\<in>set xs. str_to_bool x \<noteq> None" for xs
    using that bool_word_not_na
    by (induction xs) (auto simp: convert_word_def dropna_def split: option.splits)
  ultimately show ?thesis
    using load_feedback_single_column [OF assms(1,2)] assms(3) by simp
qed (use load_feedback_single_column [OF assms(1,2)] in \<open>simp add: dropna_def\<close>)

theorem load_feedback_bool_column_witness:
  "load_feedback pandas_read_csv
     (Some \<lparr>upload_name = ''answers.csv'', upload_text = Some (concat (map (\<lambda>x. x @ ''\<newline>'')
                                  [''answer'', ''true'', ''FALSE'', ''tRuE'']))\<rparr>) []
   = Inr [''True'', ''False'', ''True'']"
proof -
  have "py_endswith ''answers.csv'' ''.csv''"
    by (simp add: py_endswith_def)
  moreover have "\<forall>x\<in>set (''answer'' # [''true'', ''FALSE'', ''tRuE'']). plain_line x"
    by (simp add: plain_line_def csv_special_def quote_char_def is_blank_def)
  moreover have "\<forall>x\<in>set [''true'', ''FALSE'', ''tRuE'']. str_to_bool x \<noteq> None"
    by (auto simp: str_to_bool_def ascii_lower_def)
  ultimately show ?thesis
    using load_feedback_bool_column [of "''answers.csv''" "''answer''" "[''true'', ''FALSE'', ''tRuE'']" "[]"]
    by (simp add: str_to_bool_def ascii_lower_def py_bool_str_def)
qed

text \<open>
  C25: a comma inside the first unquoted feedback line of a one-column CSV
  upload splits it: for any header and any plain lines around the comma,
  the first data line then has more fields than the header, pandas takes
  the text before the comma as the row's index, and the loader returns only
  the text after the comma; every following line of one field is padded
  with a missing value and dropped, so the upload yields one item.
\<close>

theorem load_feedback_comma_index:
  assumes "py_endswith name ''.csv''" and "\<forall>x\<in>set (h # a # b # items). plain_line x"
    and "text_word b"
  shows "load_feedback pandas_read_csv
           (Some \<lparr>upload_name = name,
                  upload_text = Some (concat (map (\<lambda>x. x @ ''\<newline>'') (h # (a @ '','' @ b) # items)))\<rparr>) t
         = Inr [b]"
proof -
  have hl: "\<forall>l\<in>set [h]. simple_line l \<and> length (split_on delim l) = 1"
    using assms(2) plain_line_simple by simp
  have ab: "simple_line (a @ delim # b)" "split_on delim (a @ delim # b) = [a, b]"
    using assms(2) plain_pair_line by simp_all
  define ps where "ps = (a, b) # map (\<lambda>l. (l, [])) items"
  let ?t1 = "init_tok\<lparr>tok_lines := [[h]], tok_file_lines := 1\<rparr>"
  let ?t2 = "?t1\<lparr>tok_lines := [[h], [a, b]], tok_fields := [], tok_file_lines := 2\<rparr>"
  have "tokenize StartRecord init_tok (concat (map (\<lambda>x. x @ [lf]) (h # (a @ delim # b) # items)))
      = tokenize StartRecord ?t1 (concat (map (\<lambda>x. x @ [lf]) ((a @ delim # b) # items)))"
    using tokenize_simple_lines [OF hl, of init_tok "concat (map (\<lambda>x. x @ [lf]) ((a @ delim # b) # items))"]
      assms(2) plain_line_simple(2) by (simp add: init_tok_def)
  also have "\<dots> = tokenize StartRecord ?t2 (concat (map (\<lambda>x. x @ [lf]) items))"
    using tokenize_simple_line [OF ab(1), of ?t1 "concat (map (\<lambda>x. x @ [lf]) items)"] ab(2)
    by (simp add: init_tok_def after_field_def end_line_def Let_def numeral_2_eq_2)
  also have "\<dots> = tokenize StartRecord
      (?t2\<lparr>tok_lines := [[h], [a, b]] @ map (\<lambda>l. [l, []]) items, tok_file_lines := 2 + length items\<rparr>) []"
    using tokenize_padded_lines [of items ?t2 "[]"] assms(2) by (simp add: init_tok_def)
  finally have csv: "tokenize_csv (concat (map (\<lambda>x. x @ [lf]) (h # (a @ delim # b) # items)))
      = Inr ([h] # map (\<lambda>p. [fst p, snd p]) ps)"
    by (simp add: ps_def tokenize_csv_def init_tok_def tokenize_simps handle_eof_def comp_def)
  have lead: "(case map (\<lambda>p. [fst p, snd p]) ps of [] \<Rightarrow> 0 | r1 # _ \<Rightarrow> length r1 - length [h]) = 1"
    by (simp add: ps_def)
  have read: "pandas_read_csv (concat (map (\<lambda>x. x @ ''\<newline>'') (h # (a @ '','' @ b) # items)))
      = Inr \<lparr>frame_columns = [h], frame_rows = map (drop 1) (convert_rows (map (\<lambda>p. [fst p, snd p]) ps))\<rparr>"
    using csv lead by (simp add: pandas_read_csv_def delim_lf_strings)
  have obj: "infer_dtype (map snd ps) = ObjectCol"
    using assms(3) by (intro infer_dtype_object) (simp add: ps_def)
  have "map (\<lambda>row. case row of [] \<Rightarrow> NaN | c # _ \<Rightarrow> c) (map (drop 1) (convert_rows (map (\<lambda>p. [fst p, snd p]) ps)))
      = map (\<lambda>p. convert_word ObjectCol (snd p)) ps"
    by (simp add: convert_rows_pairs obj)
  moreover have "b \<notin> set na_tokens" "[] \<in> set na_tokens"
    using assms(3) by (simp_all add: text_word_def na_tokens_def)
  ultimately show ?thesis
    using assms(1) read
    by (simp add: load_feedback_def first_column_def dropna_def convert_word_object comp_def ps_def)
qed

theorem load_feedback_comma_index_witness:
  "load_feedback pandas_read_csv
     (Some \<lparr>upload_name = ''feedback.csv'',
            upload_text = Some (concat (map (\<lambda>x. x @ ''\<newline>'')
                                  [''Feedback'', ''Great, but slow'', ''Fine'']))\<rparr>) []
   = Inr ['' but slow'']"
proof -
  have "load_feedback pandas_read_csv
     (Some \<lparr>upload_name = ''feedback.csv'',
            upload_text = Some (concat (map (\<lambda>x. x @ ''\<newline>'')
                                  (''Feedback'' # (''Great'' @ '','' @ '' but slow'') # [''Fine''])))\<rparr>) []
   = Inr ['' but slow'']"
  proof (rule load_feedback_comma_index)
    show "py_endswith ''feedback.csv'' ''.csv''"
      by (simp add: py_endswith_def)
    show "\<forall>x\<in>set [''Feedback'', ''Great'', '' but slow'', ''Fine'']. plain_line x"
      by (simp add: plain_line_def csv_special_def quote_char_def is_blank_def)
    show "text_word '' but slow''"
      by (simp add: text_word_def infer_eval)
  qed
  then show ?thesis by simp
qed

end
