(* ===== verification/Session.thy ===== *)
theory Session
  imports App
begin

text \<open>
  Streamlit's rerun cycle around \<^verbatim>\<open>src/app.py\<close>. A session holds the
  widgets' values (the uploader's file and the text area's text persist
  across runs), the page of the last run and the requests sent so far. Each
  interaction reruns the whole script (lines 9--103) from an empty page: a
  change of the upload or of the text, a click on the Analyze button (the
  only run in which \<^verbatim>\<open>st.button\<close> returns \<open>True\<close>), and a click on the
  download button, which reruns the script by default. The first run happens
  when the page is opened.
\<close>

section \<open>Sessions\<close>

datatype event =
    SetUpload "uploaded_file option"
  | SetText pystr
  | ClickAnalyze
  | ClickDownload

record session =
  ses_widgets :: widgets
  ses_outcome :: outcome
  ses_page :: page
  ses_requests :: "chat_request list"

text \<open>The widgets after an event: the button is pressed only in the run its click starts.\<close>

fun apply_event :: "event \<Rightarrow> widgets \<Rightarrow> widgets" where
  "apply_event (SetUpload u) w = w\<lparr>upload := u, clicked := False\<rparr>"
| "apply_event (SetText t) w = w\<lparr>pasted := t, clicked := False\<rparr>"
| "apply_event ClickAnalyze w = w\<lparr>clicked := True\<rparr>"
| "apply_event ClickDownload w = w\<lparr>clicked := False\<rparr>"

definition rerun ::
  "environ \<Rightarrow> chat_api \<Rightarrow> scorer \<Rightarrow> csv_reader \<Rightarrow> widgets \<Rightarrow> chat_request list \<Rightarrow> session" where
  "rerun env api sc rd w reqs =
     (let (out, pg) = script_run env api sc rd w
      in \<lparr>ses_widgets = w, ses_outcome = out, ses_page = pg, ses_requests = reqs @ sent pg\<rparr>)"

definition initial_widgets :: widgets where
  "initial_widgets = \<lparr>upload = None, pasted = [], clicked = False\<rparr>"

definition session_start :: "environ \<Rightarrow> chat_api \<Rightarrow> scorer \<Rightarrow> csv_reader \<Rightarrow> session" where
  "session_start env api sc rd = rerun env api sc rd initial_widgets []"

definition session_step ::
  "environ \<Rightarrow> chat_api \<Rightarrow> scorer \<Rightarrow> csv_reader \<Rightarrow> event \<Rightarrow> session \<Rightarrow> session" where
  "session_step env api sc rd ev s =
     rerun env api sc rd (apply_event ev (ses_widgets s)) (ses_requests s)"

definition run_events ::
  "environ \<Rightarrow> chat_api \<Rightarrow> scorer \<Rightarrow> csv_reader \<Rightarrow> event list \<Rightarrow> session" where
  "run_events env api sc rd evs = fold (session_step env api sc rd) evs (session_start env api sc rd)"

inductive reachable :: "environ \<Rightarrow> chat_api \<Rightarrow> scorer \<Rightarrow> csv_reader \<Rightarrow> session \<Rightarrow> bool"
  for env api sc rd where
  start: "reachable env api sc rd (session_start env api sc rd)"
| step: "reachable env api sc rd s \<Longrightarrow> reachable env api sc rd (session_step env api sc rd ev s)"

text \<open>One interaction, whichever it is: the step relation of the session.\<close>

inductive session_next :: "environ \<Rightarrow> chat_api \<Rightarrow> scorer \<Rightarrow> csv_reader \<Rightarrow> session \<Rightarrow> session \<Rightarrow> bool"
  for env api sc rd where
  "session_next env api sc rd s (session_step env api sc rd ev s)"

section \<open>Test data\<close>

text \<open>An environment with a key, a service that is unreachable, a neutral scorer, a failing reader.\<close>

definition demo_env :: environ where
  "demo_env k = (if k = ''API_KEY'' then Some ''sk-demo'' else None)"

definition demo_api :: chat_api where
  "demo_api key req = Inl ''Connection error.''"

definition demo_session :: session where
  "demo_session =
     fold (session_step demo_env demo_api (\<lambda>_. 0) (\<lambda>_. Inl [])) [SetText ''Great'', ClickAnalyze]
       (session_start demo_env demo_api (\<lambda>_. 0) (\<lambda>_. Inl []))"

section \<open>Lemmas\<close>

lemma rerun_parts [simp]:
  "ses_widgets (rerun env api sc rd w reqs) = w"
  "ses_page (rerun env api sc rd w reqs) = snd (script_run env api sc rd w)"
  "ses_requests (rerun env api sc rd w reqs) = reqs @ sent (snd (script_run env api sc rd w))"
  by (simp_all add: rerun_def split: prod.split)

lemma session_step_parts:
  "ses_outcome (session_step env api sc rd ev s)
     = fst (script_run env api sc rd (ses_widgets (session_step env api sc rd ev s)))"
  "ses_page (session_step env api sc rd ev s)
     = snd (script_run env api sc rd (ses_widgets (session_step env api sc rd ev s)))"
  by (simp_all add: session_step_def rerun_def split: prod.split)

lemma generate_gpt_summary_sent_eq:
  "generate_gpt_summary client xs reqs = (r, reqs') \<Longrightarrow> reqs' = reqs @ [summary_request (summary_prompt xs)]"
  using generate_gpt_summary_sent [of client xs reqs] by simp

lemma analyze_feedback_sent_length:
  "length (sent (snd (analyze_feedback sc client rd up t pg))) \<le> Suc (length (sent pg))"
  by (auto simp: analyze_feedback_def Let_def dest: generate_gpt_summary_sent_eq
      split: sum.splits prod.splits)

lemma script_run_sent:
  "length (sent (snd (script_run env api sc rd w))) \<le> (if clicked w then 1 else 0)"
  using analyze_feedback_sent_length [of sc _ rd "upload w" "pasted w" chrome_page]
  by (auto simp: script_run_def split: sum.splits)

lemma reachable_run_events:
  "reachable env api sc rd s \<longleftrightarrow> (\<exists>evs. s = run_events env api sc rd evs)"
proof
  assume "reachable env api sc rd s"
  then show "\<exists>evs. s = run_events env api sc rd evs"
  proof induction
    case start
    show ?case by (rule exI [of _ "[]"]) (simp add: run_events_def)
  next
    case (step s ev)
    then obtain evs where "s = run_events env api sc rd evs" by blast
    then show ?case by (intro exI [of _ "evs @ [ev]"]) (simp add: run_events_def)
  qed
next
  assume "\<exists>evs. s = run_events env api sc rd evs"
  then obtain evs where s: "s = run_events env api sc rd evs" by blast
  have "reachable env api sc rd (fold (session_step env api sc rd) evs s0)"
    if "reachable env api sc rd s0" for s0
    using that by (induction evs arbitrary: s0) (auto intro: reachable.step)
  then show "reachable env api sc rd s"
    by (simp add: s run_events_def reachable.start)
qed

text \<open>A run that shows a table completed the analysis of what the loader read.\<close>

lemma script_run_tables:
  assumes "tables_of (shown (snd (script_run env api sc rd w))) \<noteq> []"
  obtains key fbs where "openai_client env = Inr key" "clicked w"
    "load_feedback rd (upload w) (pasted w) = Inr fbs" "fbs \<noteq> []"
    "snd (script_run env api sc rd w) = analyzed_page sc (api key) fbs chrome_page"
proof -
  obtain key where key: "openai_client env = Inr key" and cl: "clicked w"
    using assms by (auto simp: script_run_def split: sum.splits if_splits)
  then have run: "script_run env api sc rd w
      = analyze_feedback sc (api key) rd (upload w) (pasted w) chrome_page"
    by (simp add: script_run_def)
  obtain fbs where load: "load_feedback rd (upload w) (pasted w) = Inr fbs" and ne: "fbs \<noteq> []"
    using assms unfolding run
    by (auto simp: analyze_feedback_def tables_of_def page_chrome_def split: sum.splits if_splits)
  have "snd (script_run env api sc rd w) = analyzed_page sc (api key) fbs chrome_page"
    using analyze_feedback_nonempty [OF load ne] by (simp add: run)
  with that key cl load ne show ?thesis by blast
qed

lemma tables_of_script_run:
  assumes "tables_of (shown (snd (script_run env api sc rd w))) \<noteq> []"
  shows "clicked w \<and> (\<exists>fbs. load_feedback rd (upload w) (pasted w) = Inr fbs
             \<and> tables_of (shown (snd (script_run env api sc rd w))) = [zip fbs (map (analyze_sentiment sc) fbs)])"
  using assms by (rule script_run_tables) (auto simp: analyzed_page_parts)

text \<open>The invariant of the rerun cycle: the page shown is the script's output on the current widgets.\<close>

lemma reachable_page_current:
  assumes "reachable env api sc rd s"
  shows "ses_page s = snd (script_run env api sc rd (ses_widgets s))"
  using assms by induction (simp_all add: session_start_def session_step_def)

section \<open>Properties\<close>

text \<open>
  C9: the service is called at most once per click on the Analyze button,
  over any sequence of interactions: edits, uploads and download clicks
  never send a request.
\<close>

theorem requests_per_click:
  "length (ses_requests (run_events env api sc rd evs)) \<le> count_list evs ClickAnalyze"
proof -
  have "length (ses_requests (fold (session_step env api sc rd) evs s0))
          \<le> length (ses_requests s0) + count_list evs ClickAnalyze" for s0
  proof (induction evs arbitrary: s0)
    case (Cons ev evs)
    have "length (ses_requests (session_step env api sc rd ev s0))
            \<le> length (ses_requests s0) + (if ev = ClickAnalyze then 1 else 0)"
      using script_run_sent [of env api sc rd "apply_event ev (ses_widgets s0)"]
      by (cases ev) (auto simp: session_step_def)
    moreover have "count_list (ev # evs) ClickAnalyze
        = (if ev = ClickAnalyze then 1 else 0) + count_list evs ClickAnalyze"
      by simp
    ultimately show ?case
      using Cons.IH [of "session_step env api sc rd ev s0"] by (simp del: count_list.simps)
  qed simp
  moreover have "ses_requests (session_start env api sc rd) = []"
    by (simp add: session_start_def script_run_def initial_widgets_def split: sum.split)
  ultimately show ?thesis
    by (metis add_0 list.size(3) run_events_def)
qed

text \<open>
  C32: every interaction other than a click on Analyze, including a click on
  the download button, reruns the script with the button released, so the
  page loses the chart, the table, the summary and the download.
\<close>

theorem results_vanish:
  assumes "ev \<noteq> ClickAnalyze"
  shows "shown (ses_page (session_step env api sc rd ev s)) \<in> {[], page_chrome}"
  using assms by (cases ev) (simp_all add: session_step_def script_run_def split: sum.split)

text \<open>
  C8: in every reachable session, a table on the page belongs to the current
  inputs: the last interaction was a click on Analyze, and the table is the
  analysis of what the loader reads from the current upload and text.
\<close>

theorem shown_results_current:
  assumes "reachable env api sc rd s" and "tables_of (shown (ses_page s)) \<noteq> []"
  shows "clicked (ses_widgets s)
         \<and> (\<exists>fbs. load_feedback rd (upload (ses_widgets s)) (pasted (ses_widgets s)) = Inr fbs
                 \<and> tables_of (shown (ses_page s)) = [zip fbs (map (analyze_sentiment sc) fbs)])"
  using tables_of_script_run assms(2) unfolding reachable_page_current [OF assms(1)] by blast

theorem shown_results_current_witness:
  "clicked (ses_widgets demo_session)
   \<and> (\<exists>fbs. load_feedback (\<lambda>_. Inl []) (upload (ses_widgets demo_session)) (pasted (ses_widgets demo_session))
              = Inr fbs
           \<and> tables_of (shown (ses_page demo_session)) = [zip fbs (map (analyze_sentiment (\<lambda>_. 0)) fbs)])"
proof -
  have r: "reachable demo_env demo_api (\<lambda>_. 0) (\<lambda>_. Inl []) demo_session"
    unfolding demo_session_def fold_Cons fold_Nil comp_def id_def
    by (intro reachable.step reachable.start)
  have "tables_of (shown (ses_page demo_session)) \<noteq> []"
    by (simp add: demo_session_def session_step_def session_start_def script_run_def openai_client_def
        demo_env_def initial_widgets_def analyze_feedback_def Let_def nonblank_lines_def py_strip_def
        is_py_space_def pystr_simps is_line_break_def make_dataframe_def tables_of_def
        split: prod.split)
  from shown_results_current [OF r this] show ?thesis .
qed

theorem results_vanish_witness:
  "shown (ses_page (session_step demo_env demo_api (\<lambda>_. 0) (\<lambda>_. Inl []) ClickDownload demo_session))
     \<in> {[], page_chrome}"
  by (rule results_vanish) simp

text \<open>
  C10: the page of every reachable session has one of the script's layouts:
  the set-up elements, then nothing, the empty-input error, or one chart,
  one table, one summary and one download in the script's order; no output
  appears twice and none is left from an earlier run.
\<close>

theorem reachable_page_layout:
  assumes "reachable env api sc rd s"
  shows "page_layout (shown (ses_page s))"
  by (simp add: reachable_page_current [OF assms] script_run_layout)

theorem reachable_page_layout_witness:
  "page_layout (shown (ses_page demo_session))"
proof -
  have "reachable demo_env demo_api (\<lambda>_. 0) (\<lambda>_. Inl []) demo_session"
    unfolding demo_session_def fold_Cons fold_Nil comp_def id_def
    by (intro reachable.step reachable.start)
  then show ?thesis by (rule reachable_page_layout)
qed

text \<open>
  C11: liveness: whatever the session has done so far, with a client key set,
  three interactions (clear the upload, paste the items, click Analyze) lead
  to a completed run whose table is the analysis of the pasted items.
\<close>

theorem analysis_reachable:
  assumes "openai_client env = Inr key" and "xs \<noteq> []" and "\<forall>x\<in>set xs. feedback_item x"
  shows "\<exists>s'. (session_next env api sc rd)\<^sup>*\<^sup>* s s' \<and> ses_outcome s' = Completed
              \<and> tables_of (shown (ses_page s')) = [zip xs (map (analyze_sentiment sc) xs)]"
proof -
  let ?step = "session_step env api sc rd"
  let ?s' = "?step ClickAnalyze (?step (SetText (py_join ''\<newline>'' xs)) (?step (SetUpload None) s))"
  have path: "(session_next env api sc rd)\<^sup>*\<^sup>* s ?s'"
    by (meson rtranclp.rtrancl_into_rtrancl rtranclp.rtrancl_refl session_next.intros)
  let ?w = "\<lparr>upload = None, pasted = py_join ''\<newline>'' xs, clicked = True\<rparr>"
  have w: "ses_widgets ?s' = ?w"
    by (cases "ses_widgets s") (simp add: session_step_def)
  have load: "load_feedback rd None (py_join ''\<newline>'' xs) = Inr xs"
    using assms(3) by (simp add: nonblank_lines_py_join)
  have run: "script_run env api sc rd ?w = (Completed, analyzed_page sc (api key) xs chrome_page)"
    using assms(1) analyze_feedback_nonempty [OF load assms(2)] by (simp add: script_run_def)
  have "ses_outcome ?s' = Completed"
    by (simp only: session_step_parts w run fst_conv)
  moreover have "tables_of (shown (ses_page ?s')) = [zip xs (map (analyze_sentiment sc) xs)]"
    by (simp only: session_step_parts w run snd_conv) (simp add: analyzed_page_parts)
  ultimately show ?thesis using path by blast
qed

theorem analysis_reachable_witness:
  "\<exists>s'. (session_next demo_env demo_api (\<lambda>_. 0) (\<lambda>_. Inl []))\<^sup>*\<^sup>* demo_session s'
        \<and> ses_outcome s' = Completed
        \<and> tables_of (shown (ses_page s')) = [zip [''Fine''] (map (analyze_sentiment (\<lambda>_. 0)) [''Fine''])]"
proof -
  have "openai_client demo_env = Inr ''sk-demo''"
    by (simp add: openai_client_def demo_env_def)
  moreover have "\<forall>x\<in>set [''Fine'']. feedback_item x"
    by (simp add: feedback_item_def py_strip_def is_py_space_def is_line_break_def)
  ultimately show ?thesis
    using analysis_reachable [of demo_env "''sk-demo''" "[''Fine'']" demo_api "\<lambda>_. 0" "\<lambda>_. Inl []" demo_session]
    by simp
qed

end
