(* ===== verification/Spec2Isabelle.thy ===== *)
theory Spec2Isabelle
  imports App PandasCsv Session
begin

text \<open>
  \<^bold>\<open>Product Feedback Analyzer: a verification development.\<close>

  The program, \<^verbatim>\<open>src/app.py\<close>, is a Streamlit script. Each run creates an
  OpenAI client from the environment (lines 9--10), draws its widgets, and,
  when the Analyze button was clicked (lines 64--103), runs a pipeline:
  \<^item> the loader \<^verbatim>\<open>load_feedback\<close> (lines 20--30) turns an uploaded file
    (CSV: first column, missing values dropped; other: non-blank lines,
    stripped) or else the pasted text into a list of feedback strings;
  \<^item> an empty list ends the run with an error (\<^verbatim>\<open>st.error\<close>,
    \<^verbatim>\<open>st.stop\<close>);
  \<^item> the classifier \<^verbatim>\<open>analyze_sentiment\<close> (lines 33--41) labels each
    string from TextBlob's polarity with two strict thresholds;
  \<^item> a data frame pairs strings and labels (line 73); \<^verbatim>\<open>value_counts\<close>
    and a pie chart show the label distribution (lines 77--84); the frame is
    shown as a table (line 88);
  \<^item> \<^verbatim>\<open>generate_gpt_summary\<close> (lines 44--61) sends the first 50 strings
    in one chat request and shows the answer, or a failure message;
  \<^item> the frame, written as CSV and encoded as UTF-8, is offered for
    download (lines 97--103).

  \<^bold>\<open>Theories.\<close>
  \<^item> \<open>Prelude\<close>: the collections \<open>pystr_simps\<close> and
    \<open>pipeline_simps\<close>, the type \<open>pystr\<close> (a Python string, characters
    read as the code points U+0000 to U+00FF), first-occurrence
    \<open>uniques\<close> and \<open>counts_mset\<close>, with their list and multiset lemmas.
  \<^item> \<open>PyStr\<close>: \<^verbatim>\<open>str.strip\<close>, \<^verbatim>\<open>str.splitlines\<close> (a
    \<^theory_text>\<open>function\<close> with a length measure), \<^verbatim>\<open>str.join\<close>,
    \<^verbatim>\<open>str.endswith\<close>, after CPython; lemmas: stripped ends, lines free of
    boundaries, split of a join.
  \<^item> \<open>Sentiment\<close>: the label datatype (with a \<open>linorder\<close> instance,
    Negative < Neutral < Positive) and \<open>analyze_sentiment\<close>; TextBlob is the
    interface \<open>scorer\<close>.
  \<^item> \<open>PyNum\<close>: Python's \<open>str()\<close> of the values a pandas column holds:
    integers, booleans, and floats (\<^verbatim>\<open>repr\<close>'s shortest digits, positional
    or scientific layout) of the decimal a float is held as; a whole number
    below \<open>10^16\<close> prints as its digits and \<^verbatim>\<open>.0\<close>.
  \<^item> \<open>Loader\<close>: \<open>load_feedback\<close> with its exceptions as \<open>load_error\<close>;
    pandas' \<^verbatim>\<open>read_csv\<close> is the interface \<open>csv_reader\<close> (text to a frame
    of typed cells, or an exception); \<^verbatim>\<open>astype(str)\<close> prints each cell with
    \<open>str()\<close>.
  \<^item> \<open>Aggregate\<close>: \<open>make_dataframe\<close> (with pandas' length check),
    \<open>value_counts\<close> (hash-table order, then pandas' stable descending sort)
    and \<open>plot_pie\<close> (matplotlib's cyclic colour list, and the
    \<^verbatim>\<open>%1.1f%%\<close> label of each wedge, \<open>autopct_label\<close>).
  \<^item> \<open>Summary\<close>: the prompt, the request, \<open>generate_gpt_summary\<close>
    threading the log of sent requests; the OpenAI service is the interface
    \<open>chat_client\<close>.
  \<^item> \<open>Csv\<close>: \<open>to_csv\<close> (Python's \<^verbatim>\<open>csv.writer\<close>, minimal quoting),
    \<open>utf8_encode\<close> and \<open>utf8_decode\<close> (over the model's code points; decode
    after encode is the identity).
  \<^item> \<open>PandasInfer\<close>: pandas' dtype inference per column: the word parsers
    of the C parser (\<^verbatim>\<open>str_to_int64\<close>, \<^verbatim>\<open>str_to_uint64\<close>,
    \<^verbatim>\<open>precise_xstrtod\<close> and the infinity words, the true and false words),
    tried in the order int64, uint64, float64, bool, object, with the NA
    words missing in every dtype and an int64 column with a missing value
    upcast to float64; \<open>convert_rows\<close> converts the data lines column by
    column.
  \<^item> \<open>PandasCsv\<close>: \<^verbatim>\<open>pd.read_csv\<close> with default options as the C
    tokenizer's state machine: \<open>tok_next\<close>, one iteration of the C loop,
    and \<open>tokenize\<close>, the loop (a \<^theory_text>\<open>function\<close> terminating by the
    input length, then a rank of the states), its
    \<open>end_line\<close> field-count check and padding, the header, the implicit
    index, the NA strings and the dtypes: \<open>pandas_read_csv\<close>, a concrete
    \<open>csv_reader\<close>. Lemmas: the tokenizer reads each quoted or plain field,
    each written row and a whole written table back; its finished lines stay
    rectangular.
  \<^item> \<open>App\<close>: the page (elements shown, requests sent; the set-up
    elements \<open>page_chrome\<close> of lines 12--17 and 64 first), the handler
    \<open>analyze_feedback\<close>, the set-up \<open>openai_client\<close> and the whole
    \<open>script_run\<close>.
  \<^item> \<open>Session\<close>: Streamlit's rerun cycle around the script: a session
    (widget values, outcome and page of the last run, all requests sent), one
    full rerun of \<open>script_run\<close> from an empty page per interaction (upload,
    text edit, Analyze click, download click), the button true only in its
    click's run; \<open>reachable\<close> is an \<^theory_text>\<open>inductive\<close> relation, equal to
    folding the interactions (\<open>run_events\<close>).
  \<^item> this theory: properties spanning the components.

  \<^bold>\<open>What is proved.\<close> The classifier's three intervals (the boundary
  polarities are Neutral); the loader's well-formed items, its paste round trip, file
  precedence and the unstripped CSV branch; \<open>value_counts\<close> refines the
  multiset of labels and is sorted and stable; the request carries exactly
  the first 50 items; the
  handler stops on empty input without any request, otherwise shows one
  table with one record per item in order and sends exactly one request, and
  still shows chart, table and download when the service fails; the set-up
  fails without a key; the chart's sizes add up to the batch and its
  percentages to 100; each wedge's printed label is its share within half a
  tenth of a percent; its colours follow rank, not label: the first, green
  wedge is the most frequent label, whichever it is. The download
  decodes and tokenizes back to the table (the spec's round trip); pandas'
  reading of it turns NA strings into missing values, so uploading the
  download again loses exactly the items that are NA strings; every frame
  the reader returns is rectangular; after a written table a ragged line or
  an unclosed quote is pandas' error with its message; a one-column upload
  loses its first line to the header, and an unquoted comma in the first
  data line makes pandas index the row by the text before it, leaving one
  item, the text after it. The round trip and the re-upload
  hold when one feedback item is text; a column of integers is read back
  as \<open>str()\<close> of each integer (leading zeros, signs and blanks lost), one of
  whole numbers of at most 15 digits with a missing value as floats (\<^verbatim>\<open>5.0\<close>), one of true and
  false words as \<^verbatim>\<open>True\<close> and \<^verbatim>\<open>False\<close>. A file named
  \<^verbatim>\<open>.CSV\<close> bypasses pandas (the extension test is case-sensitive): the
  download uploaded under such a name gives its header line and its
  \<^verbatim>\<open>feedback,label\<close> lines as items. Composed over the session, a user who
  clicks the download, uploads the file and clicks Analyze gets the same
  items analysed again, NA strings excepted.
  Across reruns (by rule induction on \<open>reachable\<close>) the page is the
  script's output on the current widgets, so a table shown always belongs
  to the current inputs; the service gets at most one request per Analyze
  click; any other interaction, a download click included, clears the
  results. Every reachable page has one of the script's layouts (each
  output at most once, in order), and from any session three interactions
  reach the analysis of any well-formed items (liveness, over the
  reflexive transitive closure of \<open>session_next\<close>).

  \<^bold>\<open>Interfaces and what is not modelled.\<close> TextBlob's lexicon and the
  OpenAI service are libraries the script only calls: they are function
  parameters, and every theorem holds for all of them. pandas'
  \<^verbatim>\<open>read_csv\<close> is the parameter \<open>csv_reader\<close> of the loader and the handler,
  so their theorems hold for any reader; \<open>pandas_read_csv\<close> is the model of
  the real one, used by the theorems on the download. Its float64 values are
  held as the decimal the text writes: for a decimal of at most 15
  significant digits whose scaled exponent is at most 22 in magnitude,
  \<^verbatim>\<open>precise_xstrtod\<close> makes one correctly rounded operation and the
  double's shortest digits are the decimal's, so the printed value is exact;
  longer decimals are printed as the decimal rather than as the double
  (for \<^verbatim>\<open>9999999999999999\<close> upcast to float64 pandas prints
  \<^verbatim>\<open>1e+16\<close>, the model the 16 digits), which is why the theorem on
  whole numbers asks for at most 15 digits, and
  magnitudes beyond the double range (where the C parser reports a range
  error) are not modelled. The upcast of an int64 column with a missing
  value reads each word again as a decimal, where pandas converts the int64
  to the nearest double; the two agree below \<open>2^53\<close>. Integers beyond the int64 range with a
  missing value, or below it, go to float64 in the model. The decoding of an upload is its result (\<open>None\<close> for bytes that
  are not UTF-8); \<open>utf8_decode\<close> gives it for the code points U+0000 to
  U+00FF, the characters of the model. The spinner and the chart's y-label are
  presentation. The wedge label rounds the exact share \<open>100 n / sx\<close>
  (tenths, ties to even); matplotlib converts the sizes to float32 and
  rounds the share it computes, whose relative error is at most
  \<open>2^-24\<close>, so below \<open>2 * 10^-5\<close> in percent, while an exact share not on a tie lies at
  least \<open>1 / (20 sx)\<close> from the nearest rounding boundary, so the two agree
  for batches of fewer than 2500 items except on a share exactly halfway
  between two tenths (such as 6.25%), where the float's error decides. No loop of the program needs fuel: every recursion of the
  model is structural or decreases a measure (\<open>splitlines\<close>: the length;
  \<open>tokenize\<close>: the length, then the state's rank, for the states that read
  a character again).

  Not modelled either: the uploader's own type filter
  (\<^verbatim>\<open>type=["csv", "txt"]\<close>) runs in Streamlit's browser front end, outside
  the script, and what the widget holds after a refused file is not fixed by
  the code; an upload event of the model may carry any file, a superset of
  the runs the filter allows, so every session theorem holds for the
  filtered sessions too. The characters of the model are the code points
  U+0000 to U+00FF: a well-formed UTF-8 upload of a higher code point is
  outside the model (\<open>utf8_decode\<close> gives \<open>None\<close>, where Python succeeds),
  which is why UTF-8 decoding stays partly modelled; widening the character
  type would change every string of the development. The CSV writer quotes
  a field holding CR as CPython 3.12 and later do; earlier versions write
  such a field unquoted.
\<close>

section \<open>Test data\<close>


section \<open>The label counts of a run\<close>

text \<open>
  C5: the chart of a completed run is one pie whose wedge sizes add up to the
  number of feedback items and whose percentages add up to 100; each label
  has at most one wedge, and its size is that label's number of items, never
  zero.
\<close>

theorem analyze_feedback_chart:
  assumes "load_feedback rd up t = Inr fbs" and "fbs \<noteq> []"
    and "analyze_feedback sc client rd up t pg = (out, pg')"
  shows "\<exists>ws. charts_of (shown pg') = charts_of (shown pg) @ [ws]
             \<and> sum_list (map wedge_size ws) = length fbs
             \<and> sum_list (map wedge_pct ws) = 100
             \<and> distinct (map wedge_label ws)
             \<and> (\<forall>w\<in>set ws. 0 < wedge_size w
                    \<and> wedge_size w = count_list (map (analyze_sentiment sc) fbs) (wedge_label w))"
proof -
  have "pg' = analyzed_page sc client fbs pg"
    using assms analyze_feedback_nonempty [OF assms(1,2)] by simp
  then have "charts_of (shown pg')
      = charts_of (shown pg) @ [plot_pie (value_counts (map (analyze_sentiment sc) fbs))]"
    by (simp add: analyzed_page_parts)
  moreover have "map (analyze_sentiment sc) fbs \<noteq> []"
    using assms(2) by simp
  ultimately show ?thesis
    using plot_pie_value_counts [of "map (analyze_sentiment sc) fbs"] by auto
qed

theorem analyze_feedback_chart_witness:
  "\<exists>ws. charts_of (shown (snd (analyze_feedback (\<lambda>_. 0) (\<lambda>_. Inl ''timeout'') (\<lambda>_. Inl '''') None
                                  ''Great\<newline>Bad'' empty_page))) = [ws]
        \<and> sum_list (map wedge_size ws) = 2 \<and> sum_list (map wedge_pct ws) = 100"
proof -
  have load: "load_feedback (\<lambda>_. Inl '''') None ''Great\<newline>Bad'' = Inr [''Great'', ''Bad'']"
    by (simp add: nonblank_lines_def py_strip_def is_py_space_def pystr_simps is_line_break_def)
  show ?thesis
    using analyze_feedback_chart [OF load _ prod.collapse [symmetric],
        where sc = "\<lambda>_. 0" and client = "\<lambda>_. Inl ''timeout''" and pg = empty_page]
    by (auto simp: empty_page_def charts_of_def)
qed

text \<open>
  C4: the spec's count invariant: the Positive, Neutral and Negative counts of
  the labelled batch add up to the number of items.
\<close>

theorem label_counts_total:
  "vc_count (value_counts (map (analyze_sentiment sc) fbs)) Positive
   + vc_count (value_counts (map (analyze_sentiment sc) fbs)) Neutral
   + vc_count (value_counts (map (analyze_sentiment sc) fbs)) Negative = length fbs"
proof -
  let ?ls = "map (analyze_sentiment sc) fbs"
  have "set ?ls \<subseteq> {Positive, Neutral, Negative}"
    by (auto simp: analyze_sentiment_def Let_def)
  then have "sum (count_list ?ls) {Positive, Neutral, Negative} = length ?ls"
    by (intro sum_count_set) simp_all
  then show ?thesis by simp
qed

section \<open>The download and a second upload\<close>





text \<open>
  C22: a file whose name ends in \<^verbatim>\<open>.CSV\<close> is not read as a table: the test
  \<^verbatim>\<open>endswith('.csv')\<close> is case-sensitive, so the download uploaded again
  under an upper-case name is split into lines like a text file: the header
  line becomes an item, and each record one item holding the feedback, a
  comma and the label; neither pandas nor the pasted text is read.
\<close>

theorem load_feedback_upper_csv:
  assumes "\<forall>(f, s)\<in>set df. feedback_item f \<and> \<not> list_ex csv_special f"
  shows "load_feedback rd (Some \<lparr>upload_name = n @ ''.CSV'', upload_text = Some (to_csv df)\<rparr>) t
           = Inr (''Feedback,Sentiment'' # map (\<lambda>(f, s). f @ '','' @ sentiment_name s) df)"
proof -
  let ?ls = "''Feedback,Sentiment'' # map (\<lambda>(f, s). f @ '','' @ sentiment_name s) df"
  have rows: "concat (map (\<lambda>r. csv_writerow (table_row r)) xs)
      = concat (map (\<lambda>x. x @ ''\<newline>'') (map (\<lambda>(f, s). f @ '','' @ sentiment_name s) xs))"
    if "\<forall>(f, s)\<in>set xs. feedback_item f \<and> \<not> list_ex csv_special f" for xs
    using that by (induction xs) (auto simp: written_row_item)
  have "to_csv df = to_csv [] @ concat (map (\<lambda>r. csv_writerow (table_row r)) df)"
    by (simp add: to_csv_def comp_def)
  then have csv: "to_csv df = concat (map (\<lambda>x. x @ ''\<newline>'') ?ls)"
    using rows [OF assms] by (simp add: to_csv_Nil)
  have items: "\<forall>x\<in>set ?ls. feedback_item x"
  proof -
    have "feedback_item ''Feedback,Sentiment''"
      by (simp add: feedback_item_def py_strip_def is_py_space_def is_line_break_def)
    moreover have "\<forall>x\<in>set (map (\<lambda>(f, s). f @ '','' @ sentiment_name s) df). feedback_item x"
      using assms written_row_item(2) by fastforce
    ultimately show ?thesis by simp
  qed
  have "\<not> py_endswith (n @ ''.CSV'') ''.csv''"
    by (simp add: py_endswith_def)
  then have "load_feedback rd (Some \<lparr>upload_name = n @ ''.CSV'', upload_text = Some (to_csv df)\<rparr>) t
      = Inr (nonblank_lines (to_csv df))"
    by (simp add: load_feedback_def)
  also have "nonblank_lines (to_csv df) = ?ls"
    unfolding csv using items by (rule nonblank_lines_lines)
  finally show ?thesis .
qed

theorem load_feedback_upper_csv_witness:
  "load_feedback pandas_read_csv
     (Some \<lparr>upload_name = ''ANALYZED_FEEDBACK'' @ ''.CSV'', upload_text = Some (to_csv [(''Great'', Positive)])\<rparr>) []
   = Inr [''Feedback,Sentiment'', ''Great,Positive'']"
proof -
  have "\<forall>(f, s)\<in>set [(''Great'', Positive)]. feedback_item f \<and> \<not> list_ex csv_special f"
    by (simp add: feedback_item_def py_strip_def is_py_space_def is_line_break_def csv_special_def quote_char_def)
  then have "load_feedback pandas_read_csv
      (Some \<lparr>upload_name = ''ANALYZED_FEEDBACK'' @ ''.CSV'', upload_text = Some (to_csv [(''Great'', Positive)])\<rparr>) []
      = Inr (''Feedback,Sentiment'' # map (\<lambda>(f, s). f @ '','' @ sentiment_name s) [(''Great'', Positive)])"
    by (rule load_feedback_upper_csv)
  then show ?thesis by simp
qed

end
